theory Spec2Isabelle
  imports Main "HOL-Library.Word"
begin

unbundle bit_operations_syntax

text \<open>
  A shallow embedding of the register driver of the AIS2DW12 accelerometer,
  \<^verbatim>\<open>ais2dw12_reg.c\<close>, and the properties of it that its specification states: what the
  transport shim does, which bus accesses an operation makes and in which order, which
  bits a setter changes, and what getters decode. The five conversions of raw samples to
  milli-g and degrees Celsius are floating-point arithmetic and are not embedded.
\<close>

section \<open>The header the driver is compiled against\<close>

text \<open>
  Signed C integers are words read with \<open>sint\<close>.

  The driver file \<^verbatim>\<open>ais2dw12_reg.c\<close> includes \<^verbatim>\<open>ais2dw12_reg.h\<close>, which declares the
  register addresses, the bit-field layout of every register and the values of the
  enumerators. That header is a parameter of every function below: a value of type
  \<open>ais2dw12_reg_h\<close>. Registers and bit-fields are named as the driver names them.
\<close>

type_synonym uint8_t = "8 word"
type_synonym uint16_t = "16 word"
type_synonym int16_t = "16 word"
type_synonym int32_t = "32 word"

datatype reg_name =
    AIS2DW12_OUT_T_L | AIS2DW12_WHO_AM_I | AIS2DW12_CTRL1 | AIS2DW12_CTRL2 | AIS2DW12_CTRL3
  | AIS2DW12_CTRL4_INT1 | AIS2DW12_CTRL5_INT2 | AIS2DW12_CTRL6 | AIS2DW12_STATUS
  | AIS2DW12_OUT_X_L | AIS2DW12_FIFO_CTRL | AIS2DW12_FIFO_SAMPLES | AIS2DW12_SIXD_THS
  | AIS2DW12_WAKE_UP_THS | AIS2DW12_WAKE_UP_DUR | AIS2DW12_FREE_FALL | AIS2DW12_STATUS_DUP
  | AIS2DW12_SIXD_SRC | AIS2DW12_X_OFS_USR | AIS2DW12_Y_OFS_USR | AIS2DW12_Z_OFS_USR
  | AIS2DW12_CTRL7

text \<open>A bit-field \<open>f\<close> of the register structure \<open>r\<close> is named \<open>R_f\<close>.\<close>

datatype field_name =
    CTRL1_pw_mode | CTRL1_op_mode | CTRL1_odr
  | CTRL2_sim | CTRL2_i2c_disable | CTRL2_if_add_inc | CTRL2_bdu | CTRL2_cs_pu_disc
  | CTRL2_soft_reset | CTRL2_boot
  | CTRL3_slp_mode | CTRL3_h_lactive | CTRL3_lir | CTRL3_pp_od | CTRL3_st
  | CTRL4_INT1_int1_ff | CTRL4_INT1_int1_wu | CTRL4_INT1_int1_6d
  | CTRL5_INT2_int2_sleep_chg | CTRL5_INT2_int2_sleep_state
  | CTRL6_fds | CTRL6_fs | CTRL6_bw_filt
  | STATUS_drdy
  | FIFO_CTRL_fth | FIFO_CTRL_fmode
  | FIFO_SAMPLES_diff | FIFO_SAMPLES_fifo_ovr | FIFO_SAMPLES_fifo_fth
  | SIXD_THS_6d_ths | SIXD_THS_4d_en
  | WAKE_UP_THS_wk_ths | WAKE_UP_THS_sleep_on
  | WAKE_UP_DUR_sleep_dur | WAKE_UP_DUR_stationary | WAKE_UP_DUR_wake_dur | WAKE_UP_DUR_ff_dur
  | FREE_FALL_ff_ths | FREE_FALL_ff_dur
  | CTRL7_lpass_on6d | CTRL7_hp_ref_mode | CTRL7_usr_off_w | CTRL7_usr_off_on_wu
  | CTRL7_usr_off_on_out | CTRL7_interrupts_enable | CTRL7_int2_on_int1 | CTRL7_drdy_pulsed

text \<open>The enumerations, with the enumerators the driver's \<^verbatim>\<open>switch\<close> statements list.\<close>

datatype ais2dw12_mode_t =
    AIS2DW12_PWR_MD_4 | AIS2DW12_PWR_MD_3 | AIS2DW12_PWR_MD_2 | AIS2DW12_PWR_MD_12bit
  | AIS2DW12_SINGLE_PWR_MD_4 | AIS2DW12_SINGLE_PWR_MD_3 | AIS2DW12_SINGLE_PWR_MD_2
  | AIS2DW12_SINGLE_PWR_MD_12bit

datatype ais2dw12_odr_t =
    AIS2DW12_XL_ODR_OFF | AIS2DW12_XL_ODR_12Hz5 | AIS2DW12_XL_ODR_25Hz | AIS2DW12_XL_ODR_50Hz
  | AIS2DW12_XL_ODR_100Hz | AIS2DW12_XL_SET_SW_TRIG | AIS2DW12_XL_SET_PIN_TRIG

datatype ais2dw12_fs_t = AIS2DW12_2g | AIS2DW12_4g

datatype ais2dw12_usr_off_w_t = AIS2DW12_LSb_977ug | AIS2DW12_LSb_15mg6

datatype ais2dw12_st_t = AIS2DW12_XL_ST_DISABLE | AIS2DW12_XL_ST_POSITIVE | AIS2DW12_XL_ST_NEGATIVE

datatype ais2dw12_drdy_pulsed_t = AIS2DW12_DRDY_LATCHED | AIS2DW12_DRDY_PULSED

datatype ais2dw12_fds_t =
  AIS2DW12_LPF_ON_OUT | AIS2DW12_USER_OFFSET_ON_OUT | AIS2DW12_HIGH_PASS_ON_OUT

datatype ais2dw12_bw_filt_t =
  AIS2DW12_ODR_DIV_2 | AIS2DW12_ODR_DIV_4 | AIS2DW12_ODR_DIV_10 | AIS2DW12_ODR_DIV_20

datatype ais2dw12_sim_t = AIS2DW12_SPI_4_WIRE | AIS2DW12_SPI_3_WIRE

datatype ais2dw12_i2c_disable_t = AIS2DW12_I2C_ENABLE | AIS2DW12_I2C_DISABLE

datatype ais2dw12_cs_pu_disc_t = AIS2DW12_PULL_UP_CONNECT | AIS2DW12_PULL_UP_DISCONNECT

datatype ais2dw12_h_lactive_t = AIS2DW12_ACTIVE_HIGH | AIS2DW12_ACTIVE_LOW

datatype ais2dw12_lir_t = AIS2DW12_INT_PULSED | AIS2DW12_INT_LATCHED

datatype ais2dw12_pp_od_t = AIS2DW12_PUSH_PULL | AIS2DW12_OPEN_DRAIN

datatype ais2dw12_usr_off_on_wu_t = AIS2DW12_HP_FEED | AIS2DW12_USER_OFFSET_FEED

datatype ais2dw12_sleep_on_t =
  AIS2DW12_NO_DETECTION | AIS2DW12_DETECT_ACT_INACT | AIS2DW12_DETECT_STAT_MOTION

datatype ais2dw12_lpass_on6d_t = AIS2DW12_ODR_DIV_2_FEED | AIS2DW12_LPF2_FEED

datatype ais2dw12_ff_ths_t =
    AIS2DW12_FF_TSH_5LSb_FS2g | AIS2DW12_FF_TSH_7LSb_FS2g | AIS2DW12_FF_TSH_8LSb_FS2g
  | AIS2DW12_FF_TSH_10LSb_FS2g | AIS2DW12_FF_TSH_11LSb_FS2g | AIS2DW12_FF_TSH_13LSb_FS2g
  | AIS2DW12_FF_TSH_15LSb_FS2g | AIS2DW12_FF_TSH_16LSb_FS2g

datatype ais2dw12_fmode_t =
    AIS2DW12_BYPASS_MODE | AIS2DW12_FIFO_MODE | AIS2DW12_STREAM_TO_FIFO_MODE
  | AIS2DW12_BYPASS_TO_STREAM_MODE | AIS2DW12_STREAM_MODE

text \<open>
  A bit-field is where it lies in its register byte: the position of its lowest bit and its
  width. An enumerator is a C \<^verbatim>\<open>int\<close>.
\<close>

type_synonym bitfield = "nat \<times> nat"

record ais2dw12_reg_h =
  reg_addr :: "reg_name \<Rightarrow> uint8_t"
  layout :: "field_name \<Rightarrow> bitfield"
  PROPERTY_DISABLE :: uint8_t
  PROPERTY_ENABLE :: uint8_t
  mode_val :: "ais2dw12_mode_t \<Rightarrow> int"
  odr_val :: "ais2dw12_odr_t \<Rightarrow> int"
  fs_val :: "ais2dw12_fs_t \<Rightarrow> int"
  usr_off_w_val :: "ais2dw12_usr_off_w_t \<Rightarrow> int"
  st_val :: "ais2dw12_st_t \<Rightarrow> int"
  drdy_pulsed_val :: "ais2dw12_drdy_pulsed_t \<Rightarrow> int"
  fds_val :: "ais2dw12_fds_t \<Rightarrow> int"
  bw_filt_val :: "ais2dw12_bw_filt_t \<Rightarrow> int"
  sim_val :: "ais2dw12_sim_t \<Rightarrow> int"
  i2c_disable_val :: "ais2dw12_i2c_disable_t \<Rightarrow> int"
  cs_pu_disc_val :: "ais2dw12_cs_pu_disc_t \<Rightarrow> int"
  h_lactive_val :: "ais2dw12_h_lactive_t \<Rightarrow> int"
  lir_val :: "ais2dw12_lir_t \<Rightarrow> int"
  pp_od_val :: "ais2dw12_pp_od_t \<Rightarrow> int"
  usr_off_on_wu_val :: "ais2dw12_usr_off_on_wu_t \<Rightarrow> int"
  sleep_on_val :: "ais2dw12_sleep_on_t \<Rightarrow> int"
  lpass_on6d_val :: "ais2dw12_lpass_on6d_t \<Rightarrow> int"
  ff_ths_val :: "ais2dw12_ff_ths_t \<Rightarrow> int"
  fmode_val :: "ais2dw12_fmode_t \<Rightarrow> int"

subsection \<open>Bit-fields of a register byte\<close>

text \<open>
  A register structure overlays one byte. Reading a bit-field yields its bits as a number;
  assigning to it stores the value modulo \<open>2 ^ width\<close> and leaves the other bits alone.
\<close>

definition fld_get :: "bitfield \<Rightarrow> uint8_t \<Rightarrow> uint8_t" where
  "fld_get f b = take_bit (snd f) (drop_bit (fst f) b)"

definition fld_set :: "bitfield \<Rightarrow> uint8_t \<Rightarrow> uint8_t \<Rightarrow> uint8_t" where
  "fld_set f v b =
     (b AND NOT (push_bit (fst f) (mask (snd f)))) OR push_bit (fst f) (take_bit (snd f) v)"

text \<open>The conversion of an \<^verbatim>\<open>int\<close> to \<^verbatim>\<open>uint8_t\<close>, as in \<^verbatim>\<open>(uint8_t) val\<close>.\<close>

definition u8 :: "int \<Rightarrow> uint8_t" where
  "u8 i = word_of_int i"

section \<open>The device context and the transport shim\<close>

text \<open>
  A buffer is the memory a \<^verbatim>\<open>uint8_t *\<close> points to, by offset. The callbacks act on the
  state \<open>'s\<close> of the bus; the read callback also returns the buffer as it leaves it. A
  \<^verbatim>\<open>NULL\<close> context is \<open>None\<close>.
\<close>

type_synonym buffer = "nat \<Rightarrow> uint8_t"

record ('h, 's) stmdev_ctx_t =
  write_reg :: "'h \<Rightarrow> uint8_t \<Rightarrow> buffer \<Rightarrow> uint16_t \<Rightarrow> 's \<Rightarrow> int32_t \<times> 's"
  read_reg :: "'h \<Rightarrow> uint8_t \<Rightarrow> buffer \<Rightarrow> uint16_t \<Rightarrow> 's \<Rightarrow> int32_t \<times> buffer \<times> 's"
  handle :: 'h

definition ais2dw12_read_reg ::
  "('h, 's) stmdev_ctx_t option \<Rightarrow> uint8_t \<Rightarrow> buffer \<Rightarrow> uint16_t \<Rightarrow> 's
     \<Rightarrow> int32_t \<times> buffer \<times> 's" where
  "ais2dw12_read_reg ctx reg data len s =
     (case ctx of
        None \<Rightarrow> (- 1, data, s)
      | Some c \<Rightarrow> read_reg c (handle c) reg data len s)"

definition ais2dw12_write_reg ::
  "('h, 's) stmdev_ctx_t option \<Rightarrow> uint8_t \<Rightarrow> buffer \<Rightarrow> uint16_t \<Rightarrow> 's \<Rightarrow> int32_t \<times> 's" where
  "ais2dw12_write_reg ctx reg data len s =
     (case ctx of
        None \<Rightarrow> (- 1, s)
      | Some c \<Rightarrow> write_reg c (handle c) reg data len s)"

text \<open>
  \<^verbatim>\<open>(uint8_t *) &reg\<close> for a one-byte register structure \<open>reg\<close>, and the structure read
  back through that pointer.
\<close>

definition ptr_to :: "uint8_t \<Rightarrow> buffer" where
  "ptr_to b = (\<lambda>_. b)"

definition deref :: "buffer \<Rightarrow> uint8_t" where
  "deref d = d 0"

section \<open>The driver functions\<close>

text \<open>
  Every function of the driver follows, in the order of the source file. A function takes
  the header, the context and its arguments, then the contents its local variables have
  before the first read (C leaves them indeterminate, and a callback need not fill the
  buffer), then the state of the bus; it returns the status and the new state, a getter also
  what it leaves in \<^verbatim>\<open>*val\<close>. A getter's argument \<open>val\<close> is what \<^verbatim>\<open>*val\<close> held before the
  call. Arithmetic on bit-field values is C's \<^verbatim>\<open>int\<close> arithmetic, here on \<open>int\<close>.
\<close>

definition bytecpy :: "uint8_t option \<Rightarrow> uint8_t option \<Rightarrow> uint8_t option" where
  "bytecpy target source =
     (if target \<noteq> None \<and> source \<noteq> None then source else target)"

text \<open>
  In \<open>bytecpy\<close> a pointer is \<open>None\<close> when \<^verbatim>\<open>NULL\<close> and otherwise \<open>Some\<close> of the byte it points
  to; the result is the target afterwards.
\<close>

subsection \<open>Data generation\<close>

definition ais2dw12_power_mode_set ::
  "ais2dw12_reg_h \<Rightarrow> ('h, 's) stmdev_ctx_t option \<Rightarrow> ais2dw12_mode_t \<Rightarrow> uint8_t \<Rightarrow> 's
     \<Rightarrow> int32_t \<times> 's" where
  "ais2dw12_power_mode_set H ctx val ctrl1 s =
     (let (ret, d, s) =
           ais2dw12_read_reg ctx (reg_addr H AIS2DW12_CTRL1) (ptr_to ctrl1) 1 s;
          ctrl1 = deref d
      in if ret = 0
         then (let ctrl1 = fld_set (layout H CTRL1_op_mode)
                             (drop_bit 2 (u8 (mode_val H val) AND 0x0C)) ctrl1;
                   ctrl1 = fld_set (layout H CTRL1_pw_mode) (u8 (mode_val H val) AND 0x03) ctrl1
               in ais2dw12_write_reg ctx (reg_addr H AIS2DW12_CTRL1) (ptr_to ctrl1) 1 s)
         else (ret, s))"

definition ais2dw12_power_mode_get ::
  "ais2dw12_reg_h \<Rightarrow> ('h, 's) stmdev_ctx_t option \<Rightarrow> ais2dw12_mode_t \<Rightarrow> uint8_t \<Rightarrow> 's
     \<Rightarrow> int32_t \<times> ais2dw12_mode_t \<times> 's" where
  "ais2dw12_power_mode_get H ctx val ctrl1 s =
     (let (ret, d, s) =
           ais2dw12_read_reg ctx (reg_addr H AIS2DW12_CTRL1) (ptr_to ctrl1) 1 s;
          ctrl1 = deref d;
          k = push_bit 2 (uint (fld_get (layout H CTRL1_op_mode) ctrl1))
                + uint (fld_get (layout H CTRL1_pw_mode) ctrl1);
          val = (if k = mode_val H AIS2DW12_PWR_MD_4 then AIS2DW12_PWR_MD_4
                 else if k = mode_val H AIS2DW12_PWR_MD_3 then AIS2DW12_PWR_MD_3
                 else if k = mode_val H AIS2DW12_PWR_MD_2 then AIS2DW12_PWR_MD_2
                 else if k = mode_val H AIS2DW12_PWR_MD_12bit then AIS2DW12_PWR_MD_12bit
                 else if k = mode_val H AIS2DW12_SINGLE_PWR_MD_4 then AIS2DW12_SINGLE_PWR_MD_4
                 else if k = mode_val H AIS2DW12_SINGLE_PWR_MD_3 then AIS2DW12_SINGLE_PWR_MD_3
                 else if k = mode_val H AIS2DW12_SINGLE_PWR_MD_2 then AIS2DW12_SINGLE_PWR_MD_2
                 else if k = mode_val H AIS2DW12_SINGLE_PWR_MD_12bit then AIS2DW12_SINGLE_PWR_MD_12bit
                 else AIS2DW12_PWR_MD_4)
      in (ret, val, s))"

definition ais2dw12_data_rate_set ::
  "ais2dw12_reg_h \<Rightarrow> ('h, 's) stmdev_ctx_t option \<Rightarrow> ais2dw12_odr_t \<Rightarrow> uint8_t \<Rightarrow> uint8_t \<Rightarrow> 's
     \<Rightarrow> int32_t \<times> 's" where
  "ais2dw12_data_rate_set H ctx val ctrl1 ctrl3 s =
     (let (ret, d, s) =
           ais2dw12_read_reg ctx (reg_addr H AIS2DW12_CTRL1) (ptr_to ctrl1) 1 s;
          ctrl1 = deref d;
          (ret, s) = (if ret = 0
                      then (let ctrl1 = fld_set (layout H CTRL1_odr) (u8 (odr_val H val)) ctrl1
                            in
                                  ais2dw12_write_reg ctx (reg_addr H AIS2DW12_CTRL1) (ptr_to ctrl1) 1 s)
                      else (ret, s));
          (ret, ctrl3, s) = (if ret = 0
                             then (let (ret, d, s) =
                                   ais2dw12_read_reg ctx (reg_addr H AIS2DW12_CTRL3) (ptr_to ctrl3) 1 s
                                   in (ret, deref d, s))
                             else (ret, ctrl3, s))
      in if ret = 0
         then (let ctrl3 = fld_set (layout H CTRL3_slp_mode)
                             (drop_bit 4 (u8 (odr_val H val) AND 0x30)) ctrl3
               in ais2dw12_write_reg ctx (reg_addr H AIS2DW12_CTRL3) (ptr_to ctrl3) 1 s)
         else (ret, s))"

definition ais2dw12_data_rate_get ::
  "ais2dw12_reg_h \<Rightarrow> ('h, 's) stmdev_ctx_t option \<Rightarrow> ais2dw12_odr_t \<Rightarrow> uint8_t \<Rightarrow> uint8_t \<Rightarrow> 's
     \<Rightarrow> int32_t \<times> ais2dw12_odr_t \<times> 's" where
  "ais2dw12_data_rate_get H ctx val ctrl1 ctrl3 s =
     (let (ret, d, s) =
           ais2dw12_read_reg ctx (reg_addr H AIS2DW12_CTRL1) (ptr_to ctrl1) 1 s;
          ctrl1 = deref d
      in if ret = 0
         then (let (ret, d, s) =
               ais2dw12_read_reg ctx (reg_addr H AIS2DW12_CTRL3) (ptr_to ctrl3) 1 s;
                   ctrl3 = deref d;
                   k = push_bit 4 (uint (fld_get (layout H CTRL3_slp_mode) ctrl3))
                         + uint (fld_get (layout H CTRL1_odr) ctrl1);
                   val = (if k = odr_val H AIS2DW12_XL_ODR_OFF then AIS2DW12_XL_ODR_OFF
                          else if k = odr_val H AIS2DW12_XL_ODR_12Hz5 then AIS2DW12_XL_ODR_12Hz5
                          else if k = odr_val H AIS2DW12_XL_ODR_25Hz then AIS2DW12_XL_ODR_25Hz
                          else if k = odr_val H AIS2DW12_XL_ODR_50Hz then AIS2DW12_XL_ODR_50Hz
                          else if k = odr_val H AIS2DW12_XL_ODR_100Hz then AIS2DW12_XL_ODR_100Hz
                          else if k = odr_val H AIS2DW12_XL_SET_SW_TRIG then AIS2DW12_XL_SET_SW_TRIG
                          else if k = odr_val H AIS2DW12_XL_SET_PIN_TRIG then AIS2DW12_XL_SET_PIN_TRIG
                          else AIS2DW12_XL_ODR_OFF)
               in (ret, val, s))
         else (ret, val, s))"

definition ais2dw12_block_data_update_set ::
  "ais2dw12_reg_h \<Rightarrow> ('h, 's) stmdev_ctx_t option \<Rightarrow> uint8_t \<Rightarrow> uint8_t \<Rightarrow> 's
     \<Rightarrow> int32_t \<times> 's" where
  "ais2dw12_block_data_update_set H ctx val reg s =
     (let (ret, d, s) = ais2dw12_read_reg ctx (reg_addr H AIS2DW12_CTRL2) (ptr_to reg) 1 s;
          reg = deref d
      in if ret = 0
         then (let reg = fld_set (layout H CTRL2_bdu) val reg
               in ais2dw12_write_reg ctx (reg_addr H AIS2DW12_CTRL2) (ptr_to reg) 1 s)
         else (ret, s))"

definition ais2dw12_block_data_update_get ::
  "ais2dw12_reg_h \<Rightarrow> ('h, 's) stmdev_ctx_t option \<Rightarrow> uint8_t \<Rightarrow> uint8_t \<Rightarrow> 's
     \<Rightarrow> int32_t \<times> uint8_t \<times> 's" where
  "ais2dw12_block_data_update_get H ctx val reg s =
     (let (ret, d, s) = ais2dw12_read_reg ctx (reg_addr H AIS2DW12_CTRL2) (ptr_to reg) 1 s;
          reg = deref d;
          val = fld_get (layout H CTRL2_bdu) reg
      in (ret, val, s))"

definition ais2dw12_full_scale_set ::
  "ais2dw12_reg_h \<Rightarrow> ('h, 's) stmdev_ctx_t option \<Rightarrow> ais2dw12_fs_t \<Rightarrow> uint8_t \<Rightarrow> 's
     \<Rightarrow> int32_t \<times> 's" where
  "ais2dw12_full_scale_set H ctx val reg s =
     (let (ret, d, s) = ais2dw12_read_reg ctx (reg_addr H AIS2DW12_CTRL6) (ptr_to reg) 1 s;
          reg = deref d
      in if ret = 0
         then (let reg = fld_set (layout H CTRL6_fs) (u8 (fs_val H val)) reg
               in ais2dw12_write_reg ctx (reg_addr H AIS2DW12_CTRL6) (ptr_to reg) 1 s)
         else (ret, s))"

definition ais2dw12_full_scale_get ::
  "ais2dw12_reg_h \<Rightarrow> ('h, 's) stmdev_ctx_t option \<Rightarrow> ais2dw12_fs_t \<Rightarrow> uint8_t \<Rightarrow> 's
     \<Rightarrow> int32_t \<times> ais2dw12_fs_t \<times> 's" where
  "ais2dw12_full_scale_get H ctx val reg s =
     (let (ret, d, s) = ais2dw12_read_reg ctx (reg_addr H AIS2DW12_CTRL6) (ptr_to reg) 1 s;
          reg = deref d;
          k = uint (fld_get (layout H CTRL6_fs) reg);
          val = (if k = fs_val H AIS2DW12_2g then AIS2DW12_2g
                 else if k = fs_val H AIS2DW12_4g then AIS2DW12_4g
                 else AIS2DW12_2g)
      in (ret, val, s))"

text \<open>
  The status register is returned whole: \<open>val\<close> is the caller's structure, one byte.
\<close>

definition ais2dw12_status_reg_get ::
  "ais2dw12_reg_h \<Rightarrow> ('h, 's) stmdev_ctx_t option \<Rightarrow> uint8_t \<Rightarrow> 's
     \<Rightarrow> int32_t \<times> uint8_t \<times> 's" where
  "ais2dw12_status_reg_get H ctx val s =
     (let (ret, d, s) = ais2dw12_read_reg ctx (reg_addr H AIS2DW12_STATUS) (ptr_to val) 1 s
      in (ret, deref d, s))"

definition ais2dw12_flag_data_ready_get ::
  "ais2dw12_reg_h \<Rightarrow> ('h, 's) stmdev_ctx_t option \<Rightarrow> uint8_t \<Rightarrow> uint8_t \<Rightarrow> 's
     \<Rightarrow> int32_t \<times> uint8_t \<times> 's" where
  "ais2dw12_flag_data_ready_get H ctx val reg s =
     (let (ret, d, s) = ais2dw12_read_reg ctx (reg_addr H AIS2DW12_STATUS) (ptr_to reg) 1 s;
          reg = deref d;
          val = fld_get (layout H STATUS_drdy) reg
      in (ret, val, s))"

record ais2dw12_all_sources_t =
  status_dup :: uint8_t
  wake_up_src :: uint8_t
  sixd_src :: uint8_t
  all_int_src :: uint8_t

definition ais2dw12_all_sources_get ::
  "ais2dw12_reg_h \<Rightarrow> ('h, 's) stmdev_ctx_t option \<Rightarrow> ais2dw12_all_sources_t \<Rightarrow> buffer \<Rightarrow> 's
     \<Rightarrow> int32_t \<times> ais2dw12_all_sources_t \<times> 's" where
  "ais2dw12_all_sources_get H ctx val reg s =
     (let (ret, reg, s) = ais2dw12_read_reg ctx (reg_addr H AIS2DW12_STATUS_DUP) reg 5 s;
          val = (case bytecpy (Some (status_dup val)) (Some (reg 0)) of
                   Some b \<Rightarrow> val\<lparr>status_dup := b\<rparr> | None \<Rightarrow> val);
          val = (case bytecpy (Some (wake_up_src val)) (Some (reg 1)) of
                   Some b \<Rightarrow> val\<lparr>wake_up_src := b\<rparr> | None \<Rightarrow> val);
          val = (case bytecpy (Some (sixd_src val)) (Some (reg 3)) of
                   Some b \<Rightarrow> val\<lparr>sixd_src := b\<rparr> | None \<Rightarrow> val);
          val = (case bytecpy (Some (all_int_src val)) (Some (reg 4)) of
                   Some b \<Rightarrow> val\<lparr>all_int_src := b\<rparr> | None \<Rightarrow> val)
      in (ret, val, s))"

definition ais2dw12_usr_offset_x_set ::
  "ais2dw12_reg_h \<Rightarrow> ('h, 's) stmdev_ctx_t option \<Rightarrow> buffer \<Rightarrow> 's \<Rightarrow> int32_t \<times> 's" where
  "ais2dw12_usr_offset_x_set H ctx buff s =
        ais2dw12_write_reg ctx (reg_addr H AIS2DW12_X_OFS_USR) buff 1 s"

definition ais2dw12_usr_offset_x_get ::
  "ais2dw12_reg_h \<Rightarrow> ('h, 's) stmdev_ctx_t option \<Rightarrow> buffer \<Rightarrow> 's
     \<Rightarrow> int32_t \<times> buffer \<times> 's" where
  "ais2dw12_usr_offset_x_get H ctx buff s =
        ais2dw12_read_reg ctx (reg_addr H AIS2DW12_X_OFS_USR) buff 1 s"

definition ais2dw12_usr_offset_y_set ::
  "ais2dw12_reg_h \<Rightarrow> ('h, 's) stmdev_ctx_t option \<Rightarrow> buffer \<Rightarrow> 's \<Rightarrow> int32_t \<times> 's" where
  "ais2dw12_usr_offset_y_set H ctx buff s =
        ais2dw12_write_reg ctx (reg_addr H AIS2DW12_Y_OFS_USR) buff 1 s"

definition ais2dw12_usr_offset_y_get ::
  "ais2dw12_reg_h \<Rightarrow> ('h, 's) stmdev_ctx_t option \<Rightarrow> buffer \<Rightarrow> 's
     \<Rightarrow> int32_t \<times> buffer \<times> 's" where
  "ais2dw12_usr_offset_y_get H ctx buff s =
        ais2dw12_read_reg ctx (reg_addr H AIS2DW12_Y_OFS_USR) buff 1 s"

definition ais2dw12_usr_offset_z_set ::
  "ais2dw12_reg_h \<Rightarrow> ('h, 's) stmdev_ctx_t option \<Rightarrow> buffer \<Rightarrow> 's \<Rightarrow> int32_t \<times> 's" where
  "ais2dw12_usr_offset_z_set H ctx buff s =
        ais2dw12_write_reg ctx (reg_addr H AIS2DW12_Z_OFS_USR) buff 1 s"

definition ais2dw12_usr_offset_z_get ::
  "ais2dw12_reg_h \<Rightarrow> ('h, 's) stmdev_ctx_t option \<Rightarrow> buffer \<Rightarrow> 's
     \<Rightarrow> int32_t \<times> buffer \<times> 's" where
  "ais2dw12_usr_offset_z_get H ctx buff s =
        ais2dw12_read_reg ctx (reg_addr H AIS2DW12_Z_OFS_USR) buff 1 s"

definition ais2dw12_offset_weight_set ::
  "ais2dw12_reg_h \<Rightarrow> ('h, 's) stmdev_ctx_t option \<Rightarrow> ais2dw12_usr_off_w_t \<Rightarrow> uint8_t \<Rightarrow> 's
     \<Rightarrow> int32_t \<times> 's" where
  "ais2dw12_offset_weight_set H ctx val reg s =
     (let (ret, d, s) = ais2dw12_read_reg ctx (reg_addr H AIS2DW12_CTRL7) (ptr_to reg) 1 s;
          reg = deref d
      in if ret = 0
         then (let reg = fld_set (layout H CTRL7_usr_off_w) (u8 (usr_off_w_val H val)) reg
               in ais2dw12_write_reg ctx (reg_addr H AIS2DW12_CTRL7) (ptr_to reg) 1 s)
         else (ret, s))"

definition ais2dw12_offset_weight_get ::
  "ais2dw12_reg_h \<Rightarrow> ('h, 's) stmdev_ctx_t option \<Rightarrow> ais2dw12_usr_off_w_t \<Rightarrow> uint8_t \<Rightarrow> 's
     \<Rightarrow> int32_t \<times> ais2dw12_usr_off_w_t \<times> 's" where
  "ais2dw12_offset_weight_get H ctx val reg s =
     (let (ret, d, s) = ais2dw12_read_reg ctx (reg_addr H AIS2DW12_CTRL7) (ptr_to reg) 1 s;
          reg = deref d;
          k = uint (fld_get (layout H CTRL7_usr_off_w) reg);
          val = (if k = usr_off_w_val H AIS2DW12_LSb_977ug then AIS2DW12_LSb_977ug
                 else if k = usr_off_w_val H AIS2DW12_LSb_15mg6 then AIS2DW12_LSb_15mg6
                 else AIS2DW12_LSb_977ug)
      in (ret, val, s))"

subsection \<open>Data output\<close>

text \<open>
  The sum \<^verbatim>\<open>(*val * 256) + (int16_t)buff[0]\<close> is an \<^verbatim>\<open>int\<close>; storing it in an
  \<^verbatim>\<open>int16_t\<close> keeps its low 16 bits. The caller's array \<open>val\<close> is given by index.
\<close>

definition ais2dw12_temperature_raw_get ::
  "ais2dw12_reg_h \<Rightarrow> ('h, 's) stmdev_ctx_t option \<Rightarrow> int16_t \<Rightarrow> buffer \<Rightarrow> 's
     \<Rightarrow> int32_t \<times> int16_t \<times> 's" where
  "ais2dw12_temperature_raw_get H ctx val buff s =
     (let (ret, buff, s) = ais2dw12_read_reg ctx (reg_addr H AIS2DW12_OUT_T_L) buff 2 s;
          val = (ucast (buff 1) :: int16_t);
          val = word_of_int (sint val * 256 + sint (ucast (buff 0) :: int16_t))
      in (ret, val, s))"

definition ais2dw12_acceleration_raw_get ::
  "ais2dw12_reg_h \<Rightarrow> ('h, 's) stmdev_ctx_t option \<Rightarrow> (nat \<Rightarrow> int16_t) \<Rightarrow> buffer \<Rightarrow> 's
     \<Rightarrow> int32_t \<times> (nat \<Rightarrow> int16_t) \<times> 's" where
  "ais2dw12_acceleration_raw_get H ctx val buff s =
     (let (ret, buff, s) = ais2dw12_read_reg ctx (reg_addr H AIS2DW12_OUT_X_L) buff 6 s;
          val = val(0 := ucast (buff 1));
          val = val(0 := word_of_int (sint (val 0) * 256 + sint (ucast (buff 0) :: int16_t)));
          val = val(1 := ucast (buff 3));
          val = val(1 := word_of_int (sint (val 1) * 256 + sint (ucast (buff 2) :: int16_t)));
          val = val(2 := ucast (buff 5));
          val = val(2 := word_of_int (sint (val 2) * 256 + sint (ucast (buff 4) :: int16_t)))
      in (ret, val, s))"

subsection \<open>Common\<close>

definition ais2dw12_device_id_get ::
  "ais2dw12_reg_h \<Rightarrow> ('h, 's) stmdev_ctx_t option \<Rightarrow> buffer \<Rightarrow> 's
     \<Rightarrow> int32_t \<times> buffer \<times> 's" where
  "ais2dw12_device_id_get H ctx buff s =
        ais2dw12_read_reg ctx (reg_addr H AIS2DW12_WHO_AM_I) buff 1 s"

definition ais2dw12_auto_increment_set ::
  "ais2dw12_reg_h \<Rightarrow> ('h, 's) stmdev_ctx_t option \<Rightarrow> uint8_t \<Rightarrow> uint8_t \<Rightarrow> 's
     \<Rightarrow> int32_t \<times> 's" where
  "ais2dw12_auto_increment_set H ctx val reg s =
     (let (ret, d, s) = ais2dw12_read_reg ctx (reg_addr H AIS2DW12_CTRL2) (ptr_to reg) 1 s;
          reg = deref d
      in if ret = 0
         then (let reg = fld_set (layout H CTRL2_if_add_inc) val reg
               in ais2dw12_write_reg ctx (reg_addr H AIS2DW12_CTRL2) (ptr_to reg) 1 s)
         else (ret, s))"

definition ais2dw12_auto_increment_get ::
  "ais2dw12_reg_h \<Rightarrow> ('h, 's) stmdev_ctx_t option \<Rightarrow> uint8_t \<Rightarrow> uint8_t \<Rightarrow> 's
     \<Rightarrow> int32_t \<times> uint8_t \<times> 's" where
  "ais2dw12_auto_increment_get H ctx val reg s =
     (let (ret, d, s) = ais2dw12_read_reg ctx (reg_addr H AIS2DW12_CTRL2) (ptr_to reg) 1 s;
          reg = deref d;
          val = fld_get (layout H CTRL2_if_add_inc) reg
      in (ret, val, s))"

definition ais2dw12_reset_set ::
  "ais2dw12_reg_h \<Rightarrow> ('h, 's) stmdev_ctx_t option \<Rightarrow> uint8_t \<Rightarrow> uint8_t \<Rightarrow> 's
     \<Rightarrow> int32_t \<times> 's" where
  "ais2dw12_reset_set H ctx val reg s =
     (let (ret, d, s) = ais2dw12_read_reg ctx (reg_addr H AIS2DW12_CTRL2) (ptr_to reg) 1 s;
          reg = deref d
      in if ret = 0
         then (let reg = fld_set (layout H CTRL2_soft_reset) val reg
               in ais2dw12_write_reg ctx (reg_addr H AIS2DW12_CTRL2) (ptr_to reg) 1 s)
         else (ret, s))"

definition ais2dw12_reset_get ::
  "ais2dw12_reg_h \<Rightarrow> ('h, 's) stmdev_ctx_t option \<Rightarrow> uint8_t \<Rightarrow> uint8_t \<Rightarrow> 's
     \<Rightarrow> int32_t \<times> uint8_t \<times> 's" where
  "ais2dw12_reset_get H ctx val reg s =
     (let (ret, d, s) = ais2dw12_read_reg ctx (reg_addr H AIS2DW12_CTRL2) (ptr_to reg) 1 s;
          reg = deref d;
          val = fld_get (layout H CTRL2_soft_reset) reg
      in (ret, val, s))"

definition ais2dw12_boot_set ::
  "ais2dw12_reg_h \<Rightarrow> ('h, 's) stmdev_ctx_t option \<Rightarrow> uint8_t \<Rightarrow> uint8_t \<Rightarrow> 's
     \<Rightarrow> int32_t \<times> 's" where
  "ais2dw12_boot_set H ctx val reg s =
     (let (ret, d, s) = ais2dw12_read_reg ctx (reg_addr H AIS2DW12_CTRL2) (ptr_to reg) 1 s;
          reg = deref d
      in if ret = 0
         then (let reg = fld_set (layout H CTRL2_boot) val reg
               in ais2dw12_write_reg ctx (reg_addr H AIS2DW12_CTRL2) (ptr_to reg) 1 s)
         else (ret, s))"

definition ais2dw12_boot_get ::
  "ais2dw12_reg_h \<Rightarrow> ('h, 's) stmdev_ctx_t option \<Rightarrow> uint8_t \<Rightarrow> uint8_t \<Rightarrow> 's
     \<Rightarrow> int32_t \<times> uint8_t \<times> 's" where
  "ais2dw12_boot_get H ctx val reg s =
     (let (ret, d, s) = ais2dw12_read_reg ctx (reg_addr H AIS2DW12_CTRL2) (ptr_to reg) 1 s;
          reg = deref d;
          val = fld_get (layout H CTRL2_boot) reg
      in (ret, val, s))"

definition ais2dw12_self_test_set ::
  "ais2dw12_reg_h \<Rightarrow> ('h, 's) stmdev_ctx_t option \<Rightarrow> ais2dw12_st_t \<Rightarrow> uint8_t \<Rightarrow> 's
     \<Rightarrow> int32_t \<times> 's" where
  "ais2dw12_self_test_set H ctx val reg s =
     (let (ret, d, s) = ais2dw12_read_reg ctx (reg_addr H AIS2DW12_CTRL3) (ptr_to reg) 1 s;
          reg = deref d
      in if ret = 0
         then (let reg = fld_set (layout H CTRL3_st) (u8 (st_val H val)) reg
               in ais2dw12_write_reg ctx (reg_addr H AIS2DW12_CTRL3) (ptr_to reg) 1 s)
         else (ret, s))"

definition ais2dw12_self_test_get ::
  "ais2dw12_reg_h \<Rightarrow> ('h, 's) stmdev_ctx_t option \<Rightarrow> ais2dw12_st_t \<Rightarrow> uint8_t \<Rightarrow> 's
     \<Rightarrow> int32_t \<times> ais2dw12_st_t \<times> 's" where
  "ais2dw12_self_test_get H ctx val reg s =
     (let (ret, d, s) = ais2dw12_read_reg ctx (reg_addr H AIS2DW12_CTRL3) (ptr_to reg) 1 s;
          reg = deref d;
          k = uint (fld_get (layout H CTRL3_st) reg);
          val = (if k = st_val H AIS2DW12_XL_ST_DISABLE then AIS2DW12_XL_ST_DISABLE
                 else if k = st_val H AIS2DW12_XL_ST_POSITIVE then AIS2DW12_XL_ST_POSITIVE
                 else if k = st_val H AIS2DW12_XL_ST_NEGATIVE then AIS2DW12_XL_ST_NEGATIVE
                 else AIS2DW12_XL_ST_DISABLE)
      in (ret, val, s))"

definition ais2dw12_data_ready_mode_set ::
  "ais2dw12_reg_h \<Rightarrow> ('h, 's) stmdev_ctx_t option \<Rightarrow> ais2dw12_drdy_pulsed_t \<Rightarrow> uint8_t \<Rightarrow> 's
     \<Rightarrow> int32_t \<times> 's" where
  "ais2dw12_data_ready_mode_set H ctx val reg s =
     (let (ret, d, s) = ais2dw12_read_reg ctx (reg_addr H AIS2DW12_CTRL7) (ptr_to reg) 1 s;
          reg = deref d
      in if ret = 0
         then (let reg = fld_set (layout H CTRL7_drdy_pulsed) (u8 (drdy_pulsed_val H val)) reg
               in ais2dw12_write_reg ctx (reg_addr H AIS2DW12_CTRL7) (ptr_to reg) 1 s)
         else (ret, s))"

definition ais2dw12_data_ready_mode_get ::
  "ais2dw12_reg_h \<Rightarrow> ('h, 's) stmdev_ctx_t option \<Rightarrow> ais2dw12_drdy_pulsed_t \<Rightarrow> uint8_t \<Rightarrow> 's
     \<Rightarrow> int32_t \<times> ais2dw12_drdy_pulsed_t \<times> 's" where
  "ais2dw12_data_ready_mode_get H ctx val reg s =
     (let (ret, d, s) = ais2dw12_read_reg ctx (reg_addr H AIS2DW12_CTRL7) (ptr_to reg) 1 s;
          reg = deref d;
          k = uint (fld_get (layout H CTRL7_drdy_pulsed) reg);
          val = (if k = drdy_pulsed_val H AIS2DW12_DRDY_LATCHED then AIS2DW12_DRDY_LATCHED
                 else if k = drdy_pulsed_val H AIS2DW12_DRDY_PULSED then AIS2DW12_DRDY_PULSED
                 else AIS2DW12_DRDY_LATCHED)
      in (ret, val, s))"

subsection \<open>Filters\<close>

definition ais2dw12_filter_path_set ::
  "ais2dw12_reg_h \<Rightarrow> ('h, 's) stmdev_ctx_t option \<Rightarrow> ais2dw12_fds_t \<Rightarrow> uint8_t \<Rightarrow> uint8_t \<Rightarrow> 's
     \<Rightarrow> int32_t \<times> 's" where
  "ais2dw12_filter_path_set H ctx val ctrl6 ctrl_reg7 s =
     (let (ret, d, s) =
           ais2dw12_read_reg ctx (reg_addr H AIS2DW12_CTRL6) (ptr_to ctrl6) 1 s;
          ctrl6 = deref d;
          (ret, s) = (if ret = 0
                      then (let ctrl6 = fld_set (layout H CTRL6_fds)
                                          (drop_bit 4 (u8 (fds_val H val) AND 0x10)) ctrl6
                            in
                                  ais2dw12_write_reg ctx (reg_addr H AIS2DW12_CTRL6) (ptr_to ctrl6) 1 s)
                      else (ret, s));
          (ret, ctrl_reg7, s) = (if ret = 0
                                 then (let (ret, d, s) =
                                       ais2dw12_read_reg ctx (reg_addr H AIS2DW12_CTRL7) (ptr_to ctrl_reg7) 1 s
                                       in (ret, deref d, s))
                                 else (ret, ctrl_reg7, s))
      in if ret = 0
         then (let ctrl_reg7 = fld_set (layout H CTRL7_usr_off_on_out)
                                 (u8 (fds_val H val) AND 0x01) ctrl_reg7
               in ais2dw12_write_reg ctx (reg_addr H AIS2DW12_CTRL7) (ptr_to ctrl_reg7) 1 s)
         else (ret, s))"

definition ais2dw12_filter_path_get ::
  "ais2dw12_reg_h \<Rightarrow> ('h, 's) stmdev_ctx_t option \<Rightarrow> ais2dw12_fds_t \<Rightarrow> uint8_t \<Rightarrow> uint8_t \<Rightarrow> 's
     \<Rightarrow> int32_t \<times> ais2dw12_fds_t \<times> 's" where
  "ais2dw12_filter_path_get H ctx val ctrl6 ctrl_reg7 s =
     (let (ret, d, s) =
           ais2dw12_read_reg ctx (reg_addr H AIS2DW12_CTRL6) (ptr_to ctrl6) 1 s;
          ctrl6 = deref d
      in if ret = 0
         then (let (ret, d, s) =
               ais2dw12_read_reg ctx (reg_addr H AIS2DW12_CTRL7) (ptr_to ctrl_reg7) 1 s;
                   ctrl_reg7 = deref d;
                   k = push_bit 4 (uint (fld_get (layout H CTRL6_fds) ctrl6))
                         + uint (fld_get (layout H CTRL7_usr_off_on_out) ctrl_reg7);
                   val = (if k = fds_val H AIS2DW12_LPF_ON_OUT then AIS2DW12_LPF_ON_OUT
                          else if k = fds_val H AIS2DW12_USER_OFFSET_ON_OUT then AIS2DW12_USER_OFFSET_ON_OUT
                          else if k = fds_val H AIS2DW12_HIGH_PASS_ON_OUT then AIS2DW12_HIGH_PASS_ON_OUT
                          else AIS2DW12_LPF_ON_OUT)
               in (ret, val, s))
         else (ret, val, s))"

definition ais2dw12_filter_bandwidth_set ::
  "ais2dw12_reg_h \<Rightarrow> ('h, 's) stmdev_ctx_t option \<Rightarrow> ais2dw12_bw_filt_t \<Rightarrow> uint8_t \<Rightarrow> 's
     \<Rightarrow> int32_t \<times> 's" where
  "ais2dw12_filter_bandwidth_set H ctx val reg s =
     (let (ret, d, s) = ais2dw12_read_reg ctx (reg_addr H AIS2DW12_CTRL6) (ptr_to reg) 1 s;
          reg = deref d
      in if ret = 0
         then (let reg = fld_set (layout H CTRL6_bw_filt) (u8 (bw_filt_val H val)) reg
               in ais2dw12_write_reg ctx (reg_addr H AIS2DW12_CTRL6) (ptr_to reg) 1 s)
         else (ret, s))"

definition ais2dw12_filter_bandwidth_get ::
  "ais2dw12_reg_h \<Rightarrow> ('h, 's) stmdev_ctx_t option \<Rightarrow> ais2dw12_bw_filt_t \<Rightarrow> uint8_t \<Rightarrow> 's
     \<Rightarrow> int32_t \<times> ais2dw12_bw_filt_t \<times> 's" where
  "ais2dw12_filter_bandwidth_get H ctx val reg s =
     (let (ret, d, s) = ais2dw12_read_reg ctx (reg_addr H AIS2DW12_CTRL6) (ptr_to reg) 1 s;
          reg = deref d;
          k = uint (fld_get (layout H CTRL6_bw_filt) reg);
          val = (if k = bw_filt_val H AIS2DW12_ODR_DIV_2 then AIS2DW12_ODR_DIV_2
                 else if k = bw_filt_val H AIS2DW12_ODR_DIV_4 then AIS2DW12_ODR_DIV_4
                 else if k = bw_filt_val H AIS2DW12_ODR_DIV_10 then AIS2DW12_ODR_DIV_10
                 else if k = bw_filt_val H AIS2DW12_ODR_DIV_20 then AIS2DW12_ODR_DIV_20
                 else AIS2DW12_ODR_DIV_2)
      in (ret, val, s))"

definition ais2dw12_reference_mode_set ::
  "ais2dw12_reg_h \<Rightarrow> ('h, 's) stmdev_ctx_t option \<Rightarrow> uint8_t \<Rightarrow> uint8_t \<Rightarrow> 's
     \<Rightarrow> int32_t \<times> 's" where
  "ais2dw12_reference_mode_set H ctx val reg s =
     (let (ret, d, s) = ais2dw12_read_reg ctx (reg_addr H AIS2DW12_CTRL7) (ptr_to reg) 1 s;
          reg = deref d
      in if ret = 0
         then (let reg = fld_set (layout H CTRL7_hp_ref_mode) val reg
               in ais2dw12_write_reg ctx (reg_addr H AIS2DW12_CTRL7) (ptr_to reg) 1 s)
         else (ret, s))"

definition ais2dw12_reference_mode_get ::
  "ais2dw12_reg_h \<Rightarrow> ('h, 's) stmdev_ctx_t option \<Rightarrow> uint8_t \<Rightarrow> uint8_t \<Rightarrow> 's
     \<Rightarrow> int32_t \<times> uint8_t \<times> 's" where
  "ais2dw12_reference_mode_get H ctx val reg s =
     (let (ret, d, s) = ais2dw12_read_reg ctx (reg_addr H AIS2DW12_CTRL7) (ptr_to reg) 1 s;
          reg = deref d;
          val = fld_get (layout H CTRL7_hp_ref_mode) reg
      in (ret, val, s))"

subsection \<open>Serial interface\<close>

definition ais2dw12_spi_mode_set ::
  "ais2dw12_reg_h \<Rightarrow> ('h, 's) stmdev_ctx_t option \<Rightarrow> ais2dw12_sim_t \<Rightarrow> uint8_t \<Rightarrow> 's
     \<Rightarrow> int32_t \<times> 's" where
  "ais2dw12_spi_mode_set H ctx val reg s =
     (let (ret, d, s) = ais2dw12_read_reg ctx (reg_addr H AIS2DW12_CTRL2) (ptr_to reg) 1 s;
          reg = deref d
      in if ret = 0
         then (let reg = fld_set (layout H CTRL2_sim) (u8 (sim_val H val)) reg
               in ais2dw12_write_reg ctx (reg_addr H AIS2DW12_CTRL2) (ptr_to reg) 1 s)
         else (ret, s))"

definition ais2dw12_spi_mode_get ::
  "ais2dw12_reg_h \<Rightarrow> ('h, 's) stmdev_ctx_t option \<Rightarrow> ais2dw12_sim_t \<Rightarrow> uint8_t \<Rightarrow> 's
     \<Rightarrow> int32_t \<times> ais2dw12_sim_t \<times> 's" where
  "ais2dw12_spi_mode_get H ctx val reg s =
     (let (ret, d, s) = ais2dw12_read_reg ctx (reg_addr H AIS2DW12_CTRL2) (ptr_to reg) 1 s;
          reg = deref d;
          k = uint (fld_get (layout H CTRL2_sim) reg);
          val = (if k = sim_val H AIS2DW12_SPI_4_WIRE then AIS2DW12_SPI_4_WIRE
                 else if k = sim_val H AIS2DW12_SPI_3_WIRE then AIS2DW12_SPI_3_WIRE
                 else AIS2DW12_SPI_4_WIRE)
      in (ret, val, s))"

definition ais2dw12_i2c_interface_set ::
  "ais2dw12_reg_h \<Rightarrow> ('h, 's) stmdev_ctx_t option \<Rightarrow> ais2dw12_i2c_disable_t \<Rightarrow> uint8_t \<Rightarrow> 's
     \<Rightarrow> int32_t \<times> 's" where
  "ais2dw12_i2c_interface_set H ctx val reg s =
     (let (ret, d, s) = ais2dw12_read_reg ctx (reg_addr H AIS2DW12_CTRL2) (ptr_to reg) 1 s;
          reg = deref d
      in if ret = 0
         then (let reg = fld_set (layout H CTRL2_i2c_disable) (u8 (i2c_disable_val H val)) reg
               in ais2dw12_write_reg ctx (reg_addr H AIS2DW12_CTRL2) (ptr_to reg) 1 s)
         else (ret, s))"

definition ais2dw12_i2c_interface_get ::
  "ais2dw12_reg_h \<Rightarrow> ('h, 's) stmdev_ctx_t option \<Rightarrow> ais2dw12_i2c_disable_t \<Rightarrow> uint8_t \<Rightarrow> 's
     \<Rightarrow> int32_t \<times> ais2dw12_i2c_disable_t \<times> 's" where
  "ais2dw12_i2c_interface_get H ctx val reg s =
     (let (ret, d, s) = ais2dw12_read_reg ctx (reg_addr H AIS2DW12_CTRL2) (ptr_to reg) 1 s;
          reg = deref d;
          k = uint (fld_get (layout H CTRL2_i2c_disable) reg);
          val = (if k = i2c_disable_val H AIS2DW12_I2C_ENABLE then AIS2DW12_I2C_ENABLE
                 else if k = i2c_disable_val H AIS2DW12_I2C_DISABLE then AIS2DW12_I2C_DISABLE
                 else AIS2DW12_I2C_ENABLE)
      in (ret, val, s))"

definition ais2dw12_cs_mode_set ::
  "ais2dw12_reg_h \<Rightarrow> ('h, 's) stmdev_ctx_t option \<Rightarrow> ais2dw12_cs_pu_disc_t \<Rightarrow> uint8_t \<Rightarrow> 's
     \<Rightarrow> int32_t \<times> 's" where
  "ais2dw12_cs_mode_set H ctx val reg s =
     (let (ret, d, s) = ais2dw12_read_reg ctx (reg_addr H AIS2DW12_CTRL2) (ptr_to reg) 1 s;
          reg = deref d
      in if ret = 0
         then (let reg = fld_set (layout H CTRL2_cs_pu_disc) (u8 (cs_pu_disc_val H val)) reg
               in ais2dw12_write_reg ctx (reg_addr H AIS2DW12_CTRL2) (ptr_to reg) 1 s)
         else (ret, s))"

definition ais2dw12_cs_mode_get ::
  "ais2dw12_reg_h \<Rightarrow> ('h, 's) stmdev_ctx_t option \<Rightarrow> ais2dw12_cs_pu_disc_t \<Rightarrow> uint8_t \<Rightarrow> 's
     \<Rightarrow> int32_t \<times> ais2dw12_cs_pu_disc_t \<times> 's" where
  "ais2dw12_cs_mode_get H ctx val reg s =
     (let (ret, d, s) = ais2dw12_read_reg ctx (reg_addr H AIS2DW12_CTRL2) (ptr_to reg) 1 s;
          reg = deref d;
          k = uint (fld_get (layout H CTRL2_cs_pu_disc) reg);
          val = (if k = cs_pu_disc_val H AIS2DW12_PULL_UP_CONNECT then AIS2DW12_PULL_UP_CONNECT
                 else if k = cs_pu_disc_val H AIS2DW12_PULL_UP_DISCONNECT then AIS2DW12_PULL_UP_DISCONNECT
                 else AIS2DW12_PULL_UP_CONNECT)
      in (ret, val, s))"

subsection \<open>Interrupt pins\<close>

definition ais2dw12_pin_polarity_set ::
  "ais2dw12_reg_h \<Rightarrow> ('h, 's) stmdev_ctx_t option \<Rightarrow> ais2dw12_h_lactive_t \<Rightarrow> uint8_t \<Rightarrow> 's
     \<Rightarrow> int32_t \<times> 's" where
  "ais2dw12_pin_polarity_set H ctx val reg s =
     (let (ret, d, s) = ais2dw12_read_reg ctx (reg_addr H AIS2DW12_CTRL3) (ptr_to reg) 1 s;
          reg = deref d
      in if ret = 0
         then (let reg = fld_set (layout H CTRL3_h_lactive) (u8 (h_lactive_val H val)) reg
               in ais2dw12_write_reg ctx (reg_addr H AIS2DW12_CTRL3) (ptr_to reg) 1 s)
         else (ret, s))"

definition ais2dw12_pin_polarity_get ::
  "ais2dw12_reg_h \<Rightarrow> ('h, 's) stmdev_ctx_t option \<Rightarrow> ais2dw12_h_lactive_t \<Rightarrow> uint8_t \<Rightarrow> 's
     \<Rightarrow> int32_t \<times> ais2dw12_h_lactive_t \<times> 's" where
  "ais2dw12_pin_polarity_get H ctx val reg s =
     (let (ret, d, s) = ais2dw12_read_reg ctx (reg_addr H AIS2DW12_CTRL3) (ptr_to reg) 1 s;
          reg = deref d;
          k = uint (fld_get (layout H CTRL3_h_lactive) reg);
          val = (if k = h_lactive_val H AIS2DW12_ACTIVE_HIGH then AIS2DW12_ACTIVE_HIGH
                 else if k = h_lactive_val H AIS2DW12_ACTIVE_LOW then AIS2DW12_ACTIVE_LOW
                 else AIS2DW12_ACTIVE_HIGH)
      in (ret, val, s))"

definition ais2dw12_int_notification_set ::
  "ais2dw12_reg_h \<Rightarrow> ('h, 's) stmdev_ctx_t option \<Rightarrow> ais2dw12_lir_t \<Rightarrow> uint8_t \<Rightarrow> 's
     \<Rightarrow> int32_t \<times> 's" where
  "ais2dw12_int_notification_set H ctx val reg s =
     (let (ret, d, s) = ais2dw12_read_reg ctx (reg_addr H AIS2DW12_CTRL3) (ptr_to reg) 1 s;
          reg = deref d
      in if ret = 0
         then (let reg = fld_set (layout H CTRL3_lir) (u8 (lir_val H val)) reg
               in ais2dw12_write_reg ctx (reg_addr H AIS2DW12_CTRL3) (ptr_to reg) 1 s)
         else (ret, s))"

definition ais2dw12_int_notification_get ::
  "ais2dw12_reg_h \<Rightarrow> ('h, 's) stmdev_ctx_t option \<Rightarrow> ais2dw12_lir_t \<Rightarrow> uint8_t \<Rightarrow> 's
     \<Rightarrow> int32_t \<times> ais2dw12_lir_t \<times> 's" where
  "ais2dw12_int_notification_get H ctx val reg s =
     (let (ret, d, s) = ais2dw12_read_reg ctx (reg_addr H AIS2DW12_CTRL3) (ptr_to reg) 1 s;
          reg = deref d;
          k = uint (fld_get (layout H CTRL3_lir) reg);
          val = (if k = lir_val H AIS2DW12_INT_PULSED then AIS2DW12_INT_PULSED
                 else if k = lir_val H AIS2DW12_INT_LATCHED then AIS2DW12_INT_LATCHED
                 else AIS2DW12_INT_PULSED)
      in (ret, val, s))"

definition ais2dw12_pin_mode_set ::
  "ais2dw12_reg_h \<Rightarrow> ('h, 's) stmdev_ctx_t option \<Rightarrow> ais2dw12_pp_od_t \<Rightarrow> uint8_t \<Rightarrow> 's
     \<Rightarrow> int32_t \<times> 's" where
  "ais2dw12_pin_mode_set H ctx val reg s =
     (let (ret, d, s) = ais2dw12_read_reg ctx (reg_addr H AIS2DW12_CTRL3) (ptr_to reg) 1 s;
          reg = deref d
      in if ret = 0
         then (let reg = fld_set (layout H CTRL3_pp_od) (u8 (pp_od_val H val)) reg
               in ais2dw12_write_reg ctx (reg_addr H AIS2DW12_CTRL3) (ptr_to reg) 1 s)
         else (ret, s))"

definition ais2dw12_pin_mode_get ::
  "ais2dw12_reg_h \<Rightarrow> ('h, 's) stmdev_ctx_t option \<Rightarrow> ais2dw12_pp_od_t \<Rightarrow> uint8_t \<Rightarrow> 's
     \<Rightarrow> int32_t \<times> ais2dw12_pp_od_t \<times> 's" where
  "ais2dw12_pin_mode_get H ctx val reg s =
     (let (ret, d, s) = ais2dw12_read_reg ctx (reg_addr H AIS2DW12_CTRL3) (ptr_to reg) 1 s;
          reg = deref d;
          k = uint (fld_get (layout H CTRL3_pp_od) reg);
          val = (if k = pp_od_val H AIS2DW12_PUSH_PULL then AIS2DW12_PUSH_PULL
                 else if k = pp_od_val H AIS2DW12_OPEN_DRAIN then AIS2DW12_OPEN_DRAIN
                 else AIS2DW12_PUSH_PULL)
      in (ret, val, s))"

text \<open>
  The routing setters take the caller's routing structure \<open>val\<close>, one byte, and write it
  whole.
\<close>

definition ais2dw12_pin_int1_route_set ::
  "ais2dw12_reg_h \<Rightarrow> ('h, 's) stmdev_ctx_t option \<Rightarrow> uint8_t \<Rightarrow> uint8_t \<Rightarrow> uint8_t \<Rightarrow> 's
     \<Rightarrow> int32_t \<times> 's" where
  "ais2dw12_pin_int1_route_set H ctx val ctrl5_int2_pad_ctrl reg s =
     (let (ret, d, s) =
           ais2dw12_read_reg ctx (reg_addr H AIS2DW12_CTRL5_INT2) (ptr_to ctrl5_int2_pad_ctrl) 1 s;
          ctrl5_int2_pad_ctrl = deref d;
          (ret, reg, s) = (if ret = 0
                           then (let (ret, d, s) =
                                 ais2dw12_read_reg ctx (reg_addr H AIS2DW12_CTRL7) (ptr_to reg) 1 s
                                 in (ret, deref d, s))
                           else (ret, reg, s));
          (ret, reg, s) =
            (if ret = 0
             then (let reg =
                         (if (fld_get (layout H CTRL4_INT1_int1_ff) val
                                 OR fld_get (layout H CTRL4_INT1_int1_wu) val
                                 OR fld_get (layout H CTRL4_INT1_int1_6d) val
                                 OR fld_get (layout H CTRL5_INT2_int2_sleep_state) ctrl5_int2_pad_ctrl
                                 OR fld_get (layout H CTRL5_INT2_int2_sleep_chg) ctrl5_int2_pad_ctrl)
                               \<noteq> PROPERTY_DISABLE H
                          then fld_set (layout H CTRL7_interrupts_enable) (PROPERTY_ENABLE H) reg
                          else fld_set (layout H CTRL7_interrupts_enable) (PROPERTY_DISABLE H) reg);
                       (ret, s) =
                             ais2dw12_write_reg ctx (reg_addr H AIS2DW12_CTRL4_INT1) (ptr_to val) 1 s
                   in (ret, reg, s))
             else (ret, reg, s))
      in if ret = 0
         then ais2dw12_write_reg ctx (reg_addr H AIS2DW12_CTRL7) (ptr_to reg) 1 s
         else (ret, s))"

definition ais2dw12_pin_int1_route_get ::
  "ais2dw12_reg_h \<Rightarrow> ('h, 's) stmdev_ctx_t option \<Rightarrow> uint8_t \<Rightarrow> 's
     \<Rightarrow> int32_t \<times> uint8_t \<times> 's" where
  "ais2dw12_pin_int1_route_get H ctx val s =
     (let (ret, d, s) =
           ais2dw12_read_reg ctx (reg_addr H AIS2DW12_CTRL4_INT1) (ptr_to val) 1 s
      in (ret, deref d, s))"

definition ais2dw12_pin_int2_route_set ::
  "ais2dw12_reg_h \<Rightarrow> ('h, 's) stmdev_ctx_t option \<Rightarrow> uint8_t \<Rightarrow> uint8_t \<Rightarrow> uint8_t \<Rightarrow> 's
     \<Rightarrow> int32_t \<times> 's" where
  "ais2dw12_pin_int2_route_set H ctx val ctrl4_int1_pad_ctrl reg s =
     (let (ret, d, s) =
           ais2dw12_read_reg ctx (reg_addr H AIS2DW12_CTRL4_INT1) (ptr_to ctrl4_int1_pad_ctrl) 1 s;
          ctrl4_int1_pad_ctrl = deref d;
          (ret, reg, s) = (if ret = 0
                           then (let (ret, d, s) =
                                 ais2dw12_read_reg ctx (reg_addr H AIS2DW12_CTRL7) (ptr_to reg) 1 s
                                 in (ret, deref d, s))
                           else (ret, reg, s));
          (ret, reg, s) =
            (if ret = 0
             then (let reg =
                         (if (fld_get (layout H CTRL4_INT1_int1_ff) ctrl4_int1_pad_ctrl
                                 OR fld_get (layout H CTRL4_INT1_int1_wu) ctrl4_int1_pad_ctrl
                                 OR fld_get (layout H CTRL4_INT1_int1_6d) ctrl4_int1_pad_ctrl
                                 OR fld_get (layout H CTRL5_INT2_int2_sleep_state) val
                                 OR fld_get (layout H CTRL5_INT2_int2_sleep_chg) val)
                               \<noteq> PROPERTY_DISABLE H
                          then fld_set (layout H CTRL7_interrupts_enable) (PROPERTY_ENABLE H) reg
                          else fld_set (layout H CTRL7_interrupts_enable) (PROPERTY_DISABLE H) reg);
                       (ret, s) =
                             ais2dw12_write_reg ctx (reg_addr H AIS2DW12_CTRL5_INT2) (ptr_to val) 1 s
                   in (ret, reg, s))
             else (ret, reg, s))
      in if ret = 0
         then ais2dw12_write_reg ctx (reg_addr H AIS2DW12_CTRL7) (ptr_to reg) 1 s
         else (ret, s))"

definition ais2dw12_pin_int2_route_get ::
  "ais2dw12_reg_h \<Rightarrow> ('h, 's) stmdev_ctx_t option \<Rightarrow> uint8_t \<Rightarrow> 's
     \<Rightarrow> int32_t \<times> uint8_t \<times> 's" where
  "ais2dw12_pin_int2_route_get H ctx val s =
     (let (ret, d, s) =
           ais2dw12_read_reg ctx (reg_addr H AIS2DW12_CTRL5_INT2) (ptr_to val) 1 s
      in (ret, deref d, s))"

definition ais2dw12_all_on_int1_set ::
  "ais2dw12_reg_h \<Rightarrow> ('h, 's) stmdev_ctx_t option \<Rightarrow> uint8_t \<Rightarrow> uint8_t \<Rightarrow> 's
     \<Rightarrow> int32_t \<times> 's" where
  "ais2dw12_all_on_int1_set H ctx val reg s =
     (let (ret, d, s) = ais2dw12_read_reg ctx (reg_addr H AIS2DW12_CTRL7) (ptr_to reg) 1 s;
          reg = deref d
      in if ret = 0
         then (let reg = fld_set (layout H CTRL7_int2_on_int1) val reg
               in ais2dw12_write_reg ctx (reg_addr H AIS2DW12_CTRL7) (ptr_to reg) 1 s)
         else (ret, s))"

definition ais2dw12_all_on_int1_get ::
  "ais2dw12_reg_h \<Rightarrow> ('h, 's) stmdev_ctx_t option \<Rightarrow> uint8_t \<Rightarrow> uint8_t \<Rightarrow> 's
     \<Rightarrow> int32_t \<times> uint8_t \<times> 's" where
  "ais2dw12_all_on_int1_get H ctx val reg s =
     (let (ret, d, s) = ais2dw12_read_reg ctx (reg_addr H AIS2DW12_CTRL7) (ptr_to reg) 1 s;
          reg = deref d;
          val = fld_get (layout H CTRL7_int2_on_int1) reg
      in (ret, val, s))"

subsection \<open>Wake-up event\<close>

definition ais2dw12_wkup_threshold_set ::
  "ais2dw12_reg_h \<Rightarrow> ('h, 's) stmdev_ctx_t option \<Rightarrow> uint8_t \<Rightarrow> uint8_t \<Rightarrow> 's
     \<Rightarrow> int32_t \<times> 's" where
  "ais2dw12_wkup_threshold_set H ctx val reg s =
     (let (ret, d, s) =
           ais2dw12_read_reg ctx (reg_addr H AIS2DW12_WAKE_UP_THS) (ptr_to reg) 1 s;
          reg = deref d
      in if ret = 0
         then (let reg = fld_set (layout H WAKE_UP_THS_wk_ths) val reg
               in ais2dw12_write_reg ctx (reg_addr H AIS2DW12_WAKE_UP_THS) (ptr_to reg) 1 s)
         else (ret, s))"

definition ais2dw12_wkup_threshold_get ::
  "ais2dw12_reg_h \<Rightarrow> ('h, 's) stmdev_ctx_t option \<Rightarrow> uint8_t \<Rightarrow> uint8_t \<Rightarrow> 's
     \<Rightarrow> int32_t \<times> uint8_t \<times> 's" where
  "ais2dw12_wkup_threshold_get H ctx val reg s =
     (let (ret, d, s) =
           ais2dw12_read_reg ctx (reg_addr H AIS2DW12_WAKE_UP_THS) (ptr_to reg) 1 s;
          reg = deref d;
          val = fld_get (layout H WAKE_UP_THS_wk_ths) reg
      in (ret, val, s))"

definition ais2dw12_wkup_dur_set ::
  "ais2dw12_reg_h \<Rightarrow> ('h, 's) stmdev_ctx_t option \<Rightarrow> uint8_t \<Rightarrow> uint8_t \<Rightarrow> 's
     \<Rightarrow> int32_t \<times> 's" where
  "ais2dw12_wkup_dur_set H ctx val reg s =
     (let (ret, d, s) =
           ais2dw12_read_reg ctx (reg_addr H AIS2DW12_WAKE_UP_DUR) (ptr_to reg) 1 s;
          reg = deref d
      in if ret = 0
         then (let reg = fld_set (layout H WAKE_UP_DUR_wake_dur) val reg
               in ais2dw12_write_reg ctx (reg_addr H AIS2DW12_WAKE_UP_DUR) (ptr_to reg) 1 s)
         else (ret, s))"

definition ais2dw12_wkup_dur_get ::
  "ais2dw12_reg_h \<Rightarrow> ('h, 's) stmdev_ctx_t option \<Rightarrow> uint8_t \<Rightarrow> uint8_t \<Rightarrow> 's
     \<Rightarrow> int32_t \<times> uint8_t \<times> 's" where
  "ais2dw12_wkup_dur_get H ctx val reg s =
     (let (ret, d, s) =
           ais2dw12_read_reg ctx (reg_addr H AIS2DW12_WAKE_UP_DUR) (ptr_to reg) 1 s;
          reg = deref d;
          val = fld_get (layout H WAKE_UP_DUR_wake_dur) reg
      in (ret, val, s))"

definition ais2dw12_wkup_feed_data_set ::
  "ais2dw12_reg_h \<Rightarrow> ('h, 's) stmdev_ctx_t option \<Rightarrow> ais2dw12_usr_off_on_wu_t \<Rightarrow> uint8_t \<Rightarrow> 's
     \<Rightarrow> int32_t \<times> 's" where
  "ais2dw12_wkup_feed_data_set H ctx val reg s =
     (let (ret, d, s) = ais2dw12_read_reg ctx (reg_addr H AIS2DW12_CTRL7) (ptr_to reg) 1 s;
          reg = deref d
      in if ret = 0
         then (let reg = fld_set (layout H CTRL7_usr_off_on_wu) (u8 (usr_off_on_wu_val H val)) reg
               in ais2dw12_write_reg ctx (reg_addr H AIS2DW12_CTRL7) (ptr_to reg) 1 s)
         else (ret, s))"

definition ais2dw12_wkup_feed_data_get ::
  "ais2dw12_reg_h \<Rightarrow> ('h, 's) stmdev_ctx_t option \<Rightarrow> ais2dw12_usr_off_on_wu_t \<Rightarrow> uint8_t \<Rightarrow> 's
     \<Rightarrow> int32_t \<times> ais2dw12_usr_off_on_wu_t \<times> 's" where
  "ais2dw12_wkup_feed_data_get H ctx val reg s =
     (let (ret, d, s) = ais2dw12_read_reg ctx (reg_addr H AIS2DW12_CTRL7) (ptr_to reg) 1 s;
          reg = deref d;
          k = uint (fld_get (layout H CTRL7_usr_off_on_wu) reg);
          val = (if k = usr_off_on_wu_val H AIS2DW12_HP_FEED then AIS2DW12_HP_FEED
                 else if k = usr_off_on_wu_val H AIS2DW12_USER_OFFSET_FEED then AIS2DW12_USER_OFFSET_FEED
                 else AIS2DW12_HP_FEED)
      in (ret, val, s))"

subsection \<open>Activity and inactivity detection\<close>

definition ais2dw12_act_mode_set ::
  "ais2dw12_reg_h \<Rightarrow> ('h, 's) stmdev_ctx_t option \<Rightarrow> ais2dw12_sleep_on_t \<Rightarrow> uint8_t \<Rightarrow> uint8_t
     \<Rightarrow> 's
     \<Rightarrow> int32_t \<times> 's" where
  "ais2dw12_act_mode_set H ctx val wake_up_ths wake_up_dur s =
     (let (ret, d, s) =
           ais2dw12_read_reg ctx (reg_addr H AIS2DW12_WAKE_UP_THS) (ptr_to wake_up_ths) 1 s;
          wake_up_ths = deref d;
          (ret, wake_up_dur, s) = (if ret = 0
                                   then (let (ret, d, s) =
                                         ais2dw12_read_reg ctx (reg_addr H AIS2DW12_WAKE_UP_DUR) (ptr_to wake_up_dur) 1 s
                                         in (ret, deref d, s))
                                   else (ret, wake_up_dur, s));
          (ret, s) = (if ret = 0
                      then (let wake_up_ths = fld_set (layout H WAKE_UP_THS_sleep_on)
                                                (u8 (sleep_on_val H val) AND 0x01) wake_up_ths
                            in
                                  ais2dw12_write_reg ctx (reg_addr H AIS2DW12_WAKE_UP_THS) (ptr_to wake_up_ths) 1 s)
                      else (ret, s))
      in if ret = 0
         then (let wake_up_dur = fld_set (layout H WAKE_UP_DUR_stationary)
                                   (drop_bit 1 (u8 (sleep_on_val H val) AND 0x02)) wake_up_dur
               in
                     ais2dw12_write_reg ctx (reg_addr H AIS2DW12_WAKE_UP_DUR) (ptr_to wake_up_dur) 1 s)
         else (ret, s))"

definition ais2dw12_act_mode_get ::
  "ais2dw12_reg_h \<Rightarrow> ('h, 's) stmdev_ctx_t option \<Rightarrow> ais2dw12_sleep_on_t \<Rightarrow> uint8_t \<Rightarrow> uint8_t
     \<Rightarrow> 's
     \<Rightarrow> int32_t \<times> ais2dw12_sleep_on_t \<times> 's" where
  "ais2dw12_act_mode_get H ctx val wake_up_ths wake_up_dur s =
     (let (ret, d, s) =
           ais2dw12_read_reg ctx (reg_addr H AIS2DW12_WAKE_UP_THS) (ptr_to wake_up_ths) 1 s;
          wake_up_ths = deref d
      in if ret = 0
         then (let (ret, d, s) =
               ais2dw12_read_reg ctx (reg_addr H AIS2DW12_WAKE_UP_DUR) (ptr_to wake_up_dur) 1 s;
                   wake_up_dur = deref d;
                   k = push_bit 1 (uint (fld_get (layout H WAKE_UP_DUR_stationary) wake_up_dur))
                         + uint (fld_get (layout H WAKE_UP_THS_sleep_on) wake_up_ths);
                   val = (if k = sleep_on_val H AIS2DW12_NO_DETECTION then AIS2DW12_NO_DETECTION
                          else if k = sleep_on_val H AIS2DW12_DETECT_ACT_INACT then AIS2DW12_DETECT_ACT_INACT
                          else if k = sleep_on_val H AIS2DW12_DETECT_STAT_MOTION then AIS2DW12_DETECT_STAT_MOTION
                          else AIS2DW12_NO_DETECTION)
               in (ret, val, s))
         else (ret, val, s))"

definition ais2dw12_act_sleep_dur_set ::
  "ais2dw12_reg_h \<Rightarrow> ('h, 's) stmdev_ctx_t option \<Rightarrow> uint8_t \<Rightarrow> uint8_t \<Rightarrow> 's
     \<Rightarrow> int32_t \<times> 's" where
  "ais2dw12_act_sleep_dur_set H ctx val reg s =
     (let (ret, d, s) =
           ais2dw12_read_reg ctx (reg_addr H AIS2DW12_WAKE_UP_DUR) (ptr_to reg) 1 s;
          reg = deref d
      in if ret = 0
         then (let reg = fld_set (layout H WAKE_UP_DUR_sleep_dur) val reg
               in ais2dw12_write_reg ctx (reg_addr H AIS2DW12_WAKE_UP_DUR) (ptr_to reg) 1 s)
         else (ret, s))"

definition ais2dw12_act_sleep_dur_get ::
  "ais2dw12_reg_h \<Rightarrow> ('h, 's) stmdev_ctx_t option \<Rightarrow> uint8_t \<Rightarrow> uint8_t \<Rightarrow> 's
     \<Rightarrow> int32_t \<times> uint8_t \<times> 's" where
  "ais2dw12_act_sleep_dur_get H ctx val reg s =
     (let (ret, d, s) =
           ais2dw12_read_reg ctx (reg_addr H AIS2DW12_WAKE_UP_DUR) (ptr_to reg) 1 s;
          reg = deref d;
          val = fld_get (layout H WAKE_UP_DUR_sleep_dur) reg
      in (ret, val, s))"

subsection \<open>Six position detection\<close>

definition ais2dw12_6d_threshold_set ::
  "ais2dw12_reg_h \<Rightarrow> ('h, 's) stmdev_ctx_t option \<Rightarrow> uint8_t \<Rightarrow> uint8_t \<Rightarrow> 's
     \<Rightarrow> int32_t \<times> 's" where
  "ais2dw12_6d_threshold_set H ctx val reg s =
     (let (ret, d, s) =
           ais2dw12_read_reg ctx (reg_addr H AIS2DW12_SIXD_THS) (ptr_to reg) 1 s;
          reg = deref d
      in if ret = 0
         then (let reg = fld_set (layout H SIXD_THS_6d_ths) val reg
               in ais2dw12_write_reg ctx (reg_addr H AIS2DW12_SIXD_THS) (ptr_to reg) 1 s)
         else (ret, s))"

definition ais2dw12_6d_threshold_get ::
  "ais2dw12_reg_h \<Rightarrow> ('h, 's) stmdev_ctx_t option \<Rightarrow> uint8_t \<Rightarrow> uint8_t \<Rightarrow> 's
     \<Rightarrow> int32_t \<times> uint8_t \<times> 's" where
  "ais2dw12_6d_threshold_get H ctx val reg s =
     (let (ret, d, s) =
           ais2dw12_read_reg ctx (reg_addr H AIS2DW12_SIXD_THS) (ptr_to reg) 1 s;
          reg = deref d;
          val = fld_get (layout H SIXD_THS_6d_ths) reg
      in (ret, val, s))"

definition ais2dw12_4d_mode_set ::
  "ais2dw12_reg_h \<Rightarrow> ('h, 's) stmdev_ctx_t option \<Rightarrow> uint8_t \<Rightarrow> uint8_t \<Rightarrow> 's
     \<Rightarrow> int32_t \<times> 's" where
  "ais2dw12_4d_mode_set H ctx val reg s =
     (let (ret, d, s) =
           ais2dw12_read_reg ctx (reg_addr H AIS2DW12_SIXD_THS) (ptr_to reg) 1 s;
          reg = deref d
      in if ret = 0
         then (let reg = fld_set (layout H SIXD_THS_4d_en) val reg
               in ais2dw12_write_reg ctx (reg_addr H AIS2DW12_SIXD_THS) (ptr_to reg) 1 s)
         else (ret, s))"

definition ais2dw12_4d_mode_get ::
  "ais2dw12_reg_h \<Rightarrow> ('h, 's) stmdev_ctx_t option \<Rightarrow> uint8_t \<Rightarrow> uint8_t \<Rightarrow> 's
     \<Rightarrow> int32_t \<times> uint8_t \<times> 's" where
  "ais2dw12_4d_mode_get H ctx val reg s =
     (let (ret, d, s) =
           ais2dw12_read_reg ctx (reg_addr H AIS2DW12_SIXD_THS) (ptr_to reg) 1 s;
          reg = deref d;
          val = fld_get (layout H SIXD_THS_4d_en) reg
      in (ret, val, s))"

definition ais2dw12_6d_src_get ::
  "ais2dw12_reg_h \<Rightarrow> ('h, 's) stmdev_ctx_t option \<Rightarrow> uint8_t \<Rightarrow> 's
     \<Rightarrow> int32_t \<times> uint8_t \<times> 's" where
  "ais2dw12_6d_src_get H ctx val s =
     (let (ret, d, s) =
           ais2dw12_read_reg ctx (reg_addr H AIS2DW12_SIXD_SRC) (ptr_to val) 1 s
      in (ret, deref d, s))"

definition ais2dw12_6d_feed_data_set ::
  "ais2dw12_reg_h \<Rightarrow> ('h, 's) stmdev_ctx_t option \<Rightarrow> ais2dw12_lpass_on6d_t \<Rightarrow> uint8_t \<Rightarrow> 's
     \<Rightarrow> int32_t \<times> 's" where
  "ais2dw12_6d_feed_data_set H ctx val reg s =
     (let (ret, d, s) = ais2dw12_read_reg ctx (reg_addr H AIS2DW12_CTRL7) (ptr_to reg) 1 s;
          reg = deref d
      in if ret = 0
         then (let reg = fld_set (layout H CTRL7_lpass_on6d) (u8 (lpass_on6d_val H val)) reg
               in ais2dw12_write_reg ctx (reg_addr H AIS2DW12_CTRL7) (ptr_to reg) 1 s)
         else (ret, s))"

definition ais2dw12_6d_feed_data_get ::
  "ais2dw12_reg_h \<Rightarrow> ('h, 's) stmdev_ctx_t option \<Rightarrow> ais2dw12_lpass_on6d_t \<Rightarrow> uint8_t \<Rightarrow> 's
     \<Rightarrow> int32_t \<times> ais2dw12_lpass_on6d_t \<times> 's" where
  "ais2dw12_6d_feed_data_get H ctx val reg s =
     (let (ret, d, s) = ais2dw12_read_reg ctx (reg_addr H AIS2DW12_CTRL7) (ptr_to reg) 1 s;
          reg = deref d;
          k = uint (fld_get (layout H CTRL7_lpass_on6d) reg);
          val = (if k = lpass_on6d_val H AIS2DW12_ODR_DIV_2_FEED then AIS2DW12_ODR_DIV_2_FEED
                 else if k = lpass_on6d_val H AIS2DW12_LPF2_FEED then AIS2DW12_LPF2_FEED
                 else AIS2DW12_ODR_DIV_2_FEED)
      in (ret, val, s))"

subsection \<open>Free fall\<close>

definition ais2dw12_ff_dur_set ::
  "ais2dw12_reg_h \<Rightarrow> ('h, 's) stmdev_ctx_t option \<Rightarrow> uint8_t \<Rightarrow> uint8_t \<Rightarrow> uint8_t \<Rightarrow> 's
     \<Rightarrow> int32_t \<times> 's" where
  "ais2dw12_ff_dur_set H ctx val wake_up_dur free_fall s =
     (let (ret, d, s) =
           ais2dw12_read_reg ctx (reg_addr H AIS2DW12_WAKE_UP_DUR) (ptr_to wake_up_dur) 1 s;
          wake_up_dur = deref d;
          (ret, free_fall, s) = (if ret = 0
                                 then (let (ret, d, s) =
                                       ais2dw12_read_reg ctx (reg_addr H AIS2DW12_FREE_FALL) (ptr_to free_fall) 1 s
                                       in (ret, deref d, s))
                                 else (ret, free_fall, s));
          (ret, free_fall, s) =
            (if ret = 0
             then (let wake_up_dur = fld_set (layout H WAKE_UP_DUR_ff_dur)
                                       (drop_bit 5 (val AND 0x20)) wake_up_dur;
                       free_fall = fld_set (layout H FREE_FALL_ff_dur) (val AND 0x1F) free_fall;
                       (ret, s) =
                             ais2dw12_write_reg ctx (reg_addr H AIS2DW12_WAKE_UP_DUR) (ptr_to wake_up_dur) 1 s
                   in (ret, free_fall, s))
             else (ret, free_fall, s))
      in if ret = 0
         then ais2dw12_write_reg ctx (reg_addr H AIS2DW12_FREE_FALL) (ptr_to free_fall) 1 s
         else (ret, s))"

definition ais2dw12_ff_dur_get ::
  "ais2dw12_reg_h \<Rightarrow> ('h, 's) stmdev_ctx_t option \<Rightarrow> uint8_t \<Rightarrow> uint8_t \<Rightarrow> uint8_t \<Rightarrow> 's
     \<Rightarrow> int32_t \<times> uint8_t \<times> 's" where
  "ais2dw12_ff_dur_get H ctx val wake_up_dur free_fall s =
     (let (ret, d, s) =
           ais2dw12_read_reg ctx (reg_addr H AIS2DW12_WAKE_UP_DUR) (ptr_to wake_up_dur) 1 s;
          wake_up_dur = deref d
      in if ret = 0
         then (let (ret, d, s) =
               ais2dw12_read_reg ctx (reg_addr H AIS2DW12_FREE_FALL) (ptr_to free_fall) 1 s;
                   free_fall = deref d;
                   val = u8 (push_bit 5 (uint (fld_get (layout H WAKE_UP_DUR_ff_dur) wake_up_dur))
                               + uint (fld_get (layout H FREE_FALL_ff_dur) free_fall))
               in (ret, val, s))
         else (ret, val, s))"

definition ais2dw12_ff_threshold_set ::
  "ais2dw12_reg_h \<Rightarrow> ('h, 's) stmdev_ctx_t option \<Rightarrow> ais2dw12_ff_ths_t \<Rightarrow> uint8_t \<Rightarrow> 's
     \<Rightarrow> int32_t \<times> 's" where
  "ais2dw12_ff_threshold_set H ctx val reg s =
     (let (ret, d, s) =
           ais2dw12_read_reg ctx (reg_addr H AIS2DW12_FREE_FALL) (ptr_to reg) 1 s;
          reg = deref d
      in if ret = 0
         then (let reg = fld_set (layout H FREE_FALL_ff_ths) (u8 (ff_ths_val H val)) reg
               in ais2dw12_write_reg ctx (reg_addr H AIS2DW12_FREE_FALL) (ptr_to reg) 1 s)
         else (ret, s))"

definition ais2dw12_ff_threshold_get ::
  "ais2dw12_reg_h \<Rightarrow> ('h, 's) stmdev_ctx_t option \<Rightarrow> ais2dw12_ff_ths_t \<Rightarrow> uint8_t \<Rightarrow> 's
     \<Rightarrow> int32_t \<times> ais2dw12_ff_ths_t \<times> 's" where
  "ais2dw12_ff_threshold_get H ctx val reg s =
     (let (ret, d, s) =
           ais2dw12_read_reg ctx (reg_addr H AIS2DW12_FREE_FALL) (ptr_to reg) 1 s;
          reg = deref d;
          k = uint (fld_get (layout H FREE_FALL_ff_ths) reg);
          val = (if k = ff_ths_val H AIS2DW12_FF_TSH_5LSb_FS2g then AIS2DW12_FF_TSH_5LSb_FS2g
                 else if k = ff_ths_val H AIS2DW12_FF_TSH_7LSb_FS2g then AIS2DW12_FF_TSH_7LSb_FS2g
                 else if k = ff_ths_val H AIS2DW12_FF_TSH_8LSb_FS2g then AIS2DW12_FF_TSH_8LSb_FS2g
                 else if k = ff_ths_val H AIS2DW12_FF_TSH_10LSb_FS2g then AIS2DW12_FF_TSH_10LSb_FS2g
                 else if k = ff_ths_val H AIS2DW12_FF_TSH_11LSb_FS2g then AIS2DW12_FF_TSH_11LSb_FS2g
                 else if k = ff_ths_val H AIS2DW12_FF_TSH_13LSb_FS2g then AIS2DW12_FF_TSH_13LSb_FS2g
                 else if k = ff_ths_val H AIS2DW12_FF_TSH_15LSb_FS2g then AIS2DW12_FF_TSH_15LSb_FS2g
                 else if k = ff_ths_val H AIS2DW12_FF_TSH_16LSb_FS2g then AIS2DW12_FF_TSH_16LSb_FS2g
                 else AIS2DW12_FF_TSH_5LSb_FS2g)
      in (ret, val, s))"

subsection \<open>Fifo\<close>

definition ais2dw12_fifo_watermark_set ::
  "ais2dw12_reg_h \<Rightarrow> ('h, 's) stmdev_ctx_t option \<Rightarrow> uint8_t \<Rightarrow> uint8_t \<Rightarrow> 's
     \<Rightarrow> int32_t \<times> 's" where
  "ais2dw12_fifo_watermark_set H ctx val reg s =
     (let (ret, d, s) =
           ais2dw12_read_reg ctx (reg_addr H AIS2DW12_FIFO_CTRL) (ptr_to reg) 1 s;
          reg = deref d
      in if ret = 0
         then (let reg = fld_set (layout H FIFO_CTRL_fth) val reg
               in ais2dw12_write_reg ctx (reg_addr H AIS2DW12_FIFO_CTRL) (ptr_to reg) 1 s)
         else (ret, s))"

definition ais2dw12_fifo_watermark_get ::
  "ais2dw12_reg_h \<Rightarrow> ('h, 's) stmdev_ctx_t option \<Rightarrow> uint8_t \<Rightarrow> uint8_t \<Rightarrow> 's
     \<Rightarrow> int32_t \<times> uint8_t \<times> 's" where
  "ais2dw12_fifo_watermark_get H ctx val reg s =
     (let (ret, d, s) =
           ais2dw12_read_reg ctx (reg_addr H AIS2DW12_FIFO_CTRL) (ptr_to reg) 1 s;
          reg = deref d;
          val = fld_get (layout H FIFO_CTRL_fth) reg
      in (ret, val, s))"

definition ais2dw12_fifo_mode_set ::
  "ais2dw12_reg_h \<Rightarrow> ('h, 's) stmdev_ctx_t option \<Rightarrow> ais2dw12_fmode_t \<Rightarrow> uint8_t \<Rightarrow> 's
     \<Rightarrow> int32_t \<times> 's" where
  "ais2dw12_fifo_mode_set H ctx val reg s =
     (let (ret, d, s) =
           ais2dw12_read_reg ctx (reg_addr H AIS2DW12_FIFO_CTRL) (ptr_to reg) 1 s;
          reg = deref d
      in if ret = 0
         then (let reg = fld_set (layout H FIFO_CTRL_fmode) (u8 (fmode_val H val)) reg
               in ais2dw12_write_reg ctx (reg_addr H AIS2DW12_FIFO_CTRL) (ptr_to reg) 1 s)
         else (ret, s))"

definition ais2dw12_fifo_mode_get ::
  "ais2dw12_reg_h \<Rightarrow> ('h, 's) stmdev_ctx_t option \<Rightarrow> ais2dw12_fmode_t \<Rightarrow> uint8_t \<Rightarrow> 's
     \<Rightarrow> int32_t \<times> ais2dw12_fmode_t \<times> 's" where
  "ais2dw12_fifo_mode_get H ctx val reg s =
     (let (ret, d, s) =
           ais2dw12_read_reg ctx (reg_addr H AIS2DW12_FIFO_CTRL) (ptr_to reg) 1 s;
          reg = deref d;
          k = uint (fld_get (layout H FIFO_CTRL_fmode) reg);
          val = (if k = fmode_val H AIS2DW12_BYPASS_MODE then AIS2DW12_BYPASS_MODE
                 else if k = fmode_val H AIS2DW12_FIFO_MODE then AIS2DW12_FIFO_MODE
                 else if k = fmode_val H AIS2DW12_STREAM_TO_FIFO_MODE then AIS2DW12_STREAM_TO_FIFO_MODE
                 else if k = fmode_val H AIS2DW12_BYPASS_TO_STREAM_MODE then AIS2DW12_BYPASS_TO_STREAM_MODE
                 else if k = fmode_val H AIS2DW12_STREAM_MODE then AIS2DW12_STREAM_MODE
                 else AIS2DW12_BYPASS_MODE)
      in (ret, val, s))"

definition ais2dw12_fifo_data_level_get ::
  "ais2dw12_reg_h \<Rightarrow> ('h, 's) stmdev_ctx_t option \<Rightarrow> uint8_t \<Rightarrow> uint8_t \<Rightarrow> 's
     \<Rightarrow> int32_t \<times> uint8_t \<times> 's" where
  "ais2dw12_fifo_data_level_get H ctx val reg s =
     (let (ret, d, s) =
           ais2dw12_read_reg ctx (reg_addr H AIS2DW12_FIFO_SAMPLES) (ptr_to reg) 1 s;
          reg = deref d;
          val = fld_get (layout H FIFO_SAMPLES_diff) reg
      in (ret, val, s))"

definition ais2dw12_fifo_ovr_flag_get ::
  "ais2dw12_reg_h \<Rightarrow> ('h, 's) stmdev_ctx_t option \<Rightarrow> uint8_t \<Rightarrow> uint8_t \<Rightarrow> 's
     \<Rightarrow> int32_t \<times> uint8_t \<times> 's" where
  "ais2dw12_fifo_ovr_flag_get H ctx val reg s =
     (let (ret, d, s) =
           ais2dw12_read_reg ctx (reg_addr H AIS2DW12_FIFO_SAMPLES) (ptr_to reg) 1 s;
          reg = deref d;
          val = fld_get (layout H FIFO_SAMPLES_fifo_ovr) reg
      in (ret, val, s))"

definition ais2dw12_fifo_wtm_flag_get ::
  "ais2dw12_reg_h \<Rightarrow> ('h, 's) stmdev_ctx_t option \<Rightarrow> uint8_t \<Rightarrow> uint8_t \<Rightarrow> 's
     \<Rightarrow> int32_t \<times> uint8_t \<times> 's" where
  "ais2dw12_fifo_wtm_flag_get H ctx val reg s =
     (let (ret, d, s) =
           ais2dw12_read_reg ctx (reg_addr H AIS2DW12_FIFO_SAMPLES) (ptr_to reg) 1 s;
          reg = deref d;
          val = fld_get (layout H FIFO_SAMPLES_fifo_fth) reg
      in (ret, val, s))"

section \<open>Buses to run the driver against\<close>

text \<open>
  What the driver does on the bus is observed by wrapping the caller's callbacks: the
  wrapped context behaves as the given one and appends every call it receives to a trace
  kept beside the state of the bus: a read with its register and length, a write with its
  register and the bytes handed over.
\<close>

datatype bus_event = Bus_read uint8_t nat | Bus_write uint8_t "uint8_t list"

definition recording :: "('h, 's) stmdev_ctx_t \<Rightarrow> ('h, 's \<times> bus_event list) stmdev_ctx_t" where
  "recording c =
     \<lparr> write_reg = (\<lambda>h reg data len (s, tr).
         (let (ret, s') = write_reg c h reg data len s
          in (ret, (s', tr @ [Bus_write reg (map data [0..<unat len])])))),
       read_reg = (\<lambda>h reg data len (s, tr).
         (let (ret, d, s') = read_reg c h reg data len s
          in (ret, d, (s', tr @ [Bus_read reg (unat len)])))),
       handle = handle c \<rparr>"

fun is_write :: "bus_event \<Rightarrow> bool" where
  "is_write (Bus_write reg bytes) = True"
| "is_write (Bus_read reg len) = False"

text \<open>
  A simulated register store: a byte per address; a read returns the bytes last written,
  a multi-byte access runs over consecutive addresses, and every access succeeds.
\<close>

type_synonym store = "uint8_t \<Rightarrow> uint8_t"

definition register_store :: "(unit, store) stmdev_ctx_t" where
  "register_store =
     \<lparr> write_reg = (\<lambda>h reg data len m.
         (0, (\<lambda>a. if unat (a - reg) < unat len then data (unat (a - reg)) else m a))),
       read_reg = (\<lambda>h reg data len m.
         (0, (\<lambda>i. if i < unat len then m (reg + of_nat i) else data i), m)),
       handle = () \<rparr>"

text \<open>
  A register store whose accesses fail on demand: the state carries the status codes of the
  coming accesses; an access takes the first of them (0 when none is left), and touches
  the store or the buffer only when that status is 0.
\<close>

definition scripted_store :: "(unit, int32_t list \<times> store) stmdev_ctx_t" where
  "scripted_store =
     \<lparr> write_reg = (\<lambda>h reg data len (script, m).
         (case script of
            [] \<Rightarrow> (0, ([], snd (write_reg register_store h reg data len m)))
          | r # rs \<Rightarrow>
              if r = 0 then (0, (rs, snd (write_reg register_store h reg data len m)))
              else (r, (rs, m)))),
       read_reg = (\<lambda>h reg data len (script, m).
         (case script of
            [] \<Rightarrow> (0, fst (snd (read_reg register_store h reg data len m)), ([], m))
          | r # rs \<Rightarrow>
              if r = 0 then (0, fst (snd (read_reg register_store h reg data len m)), (rs, m))
              else (r, data, (rs, m)))),
       handle = () \<rparr>"

subsection \<open>A header for the examples\<close>

text \<open>
  An instance of the header for the worked examples: register addresses, bit-fields and
  enumerator values after the register map of the device, lowest bit first.
\<close>

primrec ais2dw12_addr :: "reg_name \<Rightarrow> uint8_t" where
  "ais2dw12_addr AIS2DW12_OUT_T_L = 0x0D"
| "ais2dw12_addr AIS2DW12_WHO_AM_I = 0x0F"
| "ais2dw12_addr AIS2DW12_CTRL1 = 0x20"
| "ais2dw12_addr AIS2DW12_CTRL2 = 0x21"
| "ais2dw12_addr AIS2DW12_CTRL3 = 0x22"
| "ais2dw12_addr AIS2DW12_CTRL4_INT1 = 0x23"
| "ais2dw12_addr AIS2DW12_CTRL5_INT2 = 0x24"
| "ais2dw12_addr AIS2DW12_CTRL6 = 0x25"
| "ais2dw12_addr AIS2DW12_STATUS = 0x27"
| "ais2dw12_addr AIS2DW12_OUT_X_L = 0x28"
| "ais2dw12_addr AIS2DW12_FIFO_CTRL = 0x2E"
| "ais2dw12_addr AIS2DW12_FIFO_SAMPLES = 0x2F"
| "ais2dw12_addr AIS2DW12_SIXD_THS = 0x30"
| "ais2dw12_addr AIS2DW12_WAKE_UP_THS = 0x34"
| "ais2dw12_addr AIS2DW12_WAKE_UP_DUR = 0x35"
| "ais2dw12_addr AIS2DW12_FREE_FALL = 0x36"
| "ais2dw12_addr AIS2DW12_STATUS_DUP = 0x37"
| "ais2dw12_addr AIS2DW12_SIXD_SRC = 0x3A"
| "ais2dw12_addr AIS2DW12_X_OFS_USR = 0x3C"
| "ais2dw12_addr AIS2DW12_Y_OFS_USR = 0x3D"
| "ais2dw12_addr AIS2DW12_Z_OFS_USR = 0x3E"
| "ais2dw12_addr AIS2DW12_CTRL7 = 0x3F"

primrec ais2dw12_layout :: "field_name \<Rightarrow> bitfield" where
  "ais2dw12_layout CTRL1_pw_mode = (0, 2)"
| "ais2dw12_layout CTRL1_op_mode = (2, 2)"
| "ais2dw12_layout CTRL1_odr = (4, 4)"
| "ais2dw12_layout CTRL2_sim = (0, 1)"
| "ais2dw12_layout CTRL2_i2c_disable = (1, 1)"
| "ais2dw12_layout CTRL2_if_add_inc = (2, 1)"
| "ais2dw12_layout CTRL2_bdu = (3, 1)"
| "ais2dw12_layout CTRL2_cs_pu_disc = (4, 1)"
| "ais2dw12_layout CTRL2_soft_reset = (6, 1)"
| "ais2dw12_layout CTRL2_boot = (7, 1)"
| "ais2dw12_layout CTRL3_slp_mode = (0, 2)"
| "ais2dw12_layout CTRL3_h_lactive = (3, 1)"
| "ais2dw12_layout CTRL3_lir = (4, 1)"
| "ais2dw12_layout CTRL3_pp_od = (5, 1)"
| "ais2dw12_layout CTRL3_st = (6, 2)"
| "ais2dw12_layout CTRL4_INT1_int1_ff = (4, 1)"
| "ais2dw12_layout CTRL4_INT1_int1_wu = (5, 1)"
| "ais2dw12_layout CTRL4_INT1_int1_6d = (7, 1)"
| "ais2dw12_layout CTRL5_INT2_int2_sleep_chg = (6, 1)"
| "ais2dw12_layout CTRL5_INT2_int2_sleep_state = (7, 1)"
| "ais2dw12_layout CTRL6_fds = (3, 1)"
| "ais2dw12_layout CTRL6_fs = (4, 2)"
| "ais2dw12_layout CTRL6_bw_filt = (6, 2)"
| "ais2dw12_layout STATUS_drdy = (0, 1)"
| "ais2dw12_layout FIFO_CTRL_fth = (0, 5)"
| "ais2dw12_layout FIFO_CTRL_fmode = (5, 3)"
| "ais2dw12_layout FIFO_SAMPLES_diff = (0, 6)"
| "ais2dw12_layout FIFO_SAMPLES_fifo_ovr = (6, 1)"
| "ais2dw12_layout FIFO_SAMPLES_fifo_fth = (7, 1)"
| "ais2dw12_layout SIXD_THS_6d_ths = (5, 2)"
| "ais2dw12_layout SIXD_THS_4d_en = (7, 1)"
| "ais2dw12_layout WAKE_UP_THS_wk_ths = (0, 6)"
| "ais2dw12_layout WAKE_UP_THS_sleep_on = (6, 1)"
| "ais2dw12_layout WAKE_UP_DUR_sleep_dur = (0, 4)"
| "ais2dw12_layout WAKE_UP_DUR_stationary = (4, 1)"
| "ais2dw12_layout WAKE_UP_DUR_wake_dur = (5, 2)"
| "ais2dw12_layout WAKE_UP_DUR_ff_dur = (7, 1)"
| "ais2dw12_layout FREE_FALL_ff_ths = (0, 3)"
| "ais2dw12_layout FREE_FALL_ff_dur = (3, 5)"
| "ais2dw12_layout CTRL7_lpass_on6d = (0, 1)"
| "ais2dw12_layout CTRL7_hp_ref_mode = (1, 1)"
| "ais2dw12_layout CTRL7_usr_off_w = (2, 1)"
| "ais2dw12_layout CTRL7_usr_off_on_wu = (3, 1)"
| "ais2dw12_layout CTRL7_usr_off_on_out = (4, 1)"
| "ais2dw12_layout CTRL7_interrupts_enable = (5, 1)"
| "ais2dw12_layout CTRL7_int2_on_int1 = (6, 1)"
| "ais2dw12_layout CTRL7_drdy_pulsed = (7, 1)"

primrec ais2dw12_mode :: "ais2dw12_mode_t \<Rightarrow> int" where
  "ais2dw12_mode AIS2DW12_PWR_MD_4 = 0x03"
| "ais2dw12_mode AIS2DW12_PWR_MD_3 = 0x02"
| "ais2dw12_mode AIS2DW12_PWR_MD_2 = 0x01"
| "ais2dw12_mode AIS2DW12_PWR_MD_12bit = 0x00"
| "ais2dw12_mode AIS2DW12_SINGLE_PWR_MD_4 = 0x0B"
| "ais2dw12_mode AIS2DW12_SINGLE_PWR_MD_3 = 0x0A"
| "ais2dw12_mode AIS2DW12_SINGLE_PWR_MD_2 = 0x09"
| "ais2dw12_mode AIS2DW12_SINGLE_PWR_MD_12bit = 0x08"

primrec ais2dw12_odr :: "ais2dw12_odr_t \<Rightarrow> int" where
  "ais2dw12_odr AIS2DW12_XL_ODR_OFF = 0x00"
| "ais2dw12_odr AIS2DW12_XL_ODR_12Hz5 = 0x02"
| "ais2dw12_odr AIS2DW12_XL_ODR_25Hz = 0x03"
| "ais2dw12_odr AIS2DW12_XL_ODR_50Hz = 0x04"
| "ais2dw12_odr AIS2DW12_XL_ODR_100Hz = 0x05"
| "ais2dw12_odr AIS2DW12_XL_SET_SW_TRIG = 0x12"
| "ais2dw12_odr AIS2DW12_XL_SET_PIN_TRIG = 0x22"

primrec ais2dw12_fs :: "ais2dw12_fs_t \<Rightarrow> int" where
  "ais2dw12_fs AIS2DW12_2g = 0"
| "ais2dw12_fs AIS2DW12_4g = 1"

primrec ais2dw12_usr_off_w :: "ais2dw12_usr_off_w_t \<Rightarrow> int" where
  "ais2dw12_usr_off_w AIS2DW12_LSb_977ug = 0"
| "ais2dw12_usr_off_w AIS2DW12_LSb_15mg6 = 1"

primrec ais2dw12_st :: "ais2dw12_st_t \<Rightarrow> int" where
  "ais2dw12_st AIS2DW12_XL_ST_DISABLE = 0"
| "ais2dw12_st AIS2DW12_XL_ST_POSITIVE = 1"
| "ais2dw12_st AIS2DW12_XL_ST_NEGATIVE = 2"

primrec ais2dw12_drdy_pulsed :: "ais2dw12_drdy_pulsed_t \<Rightarrow> int" where
  "ais2dw12_drdy_pulsed AIS2DW12_DRDY_LATCHED = 0"
| "ais2dw12_drdy_pulsed AIS2DW12_DRDY_PULSED = 1"

primrec ais2dw12_fds :: "ais2dw12_fds_t \<Rightarrow> int" where
  "ais2dw12_fds AIS2DW12_LPF_ON_OUT = 0x00"
| "ais2dw12_fds AIS2DW12_USER_OFFSET_ON_OUT = 0x01"
| "ais2dw12_fds AIS2DW12_HIGH_PASS_ON_OUT = 0x10"

primrec ais2dw12_bw_filt :: "ais2dw12_bw_filt_t \<Rightarrow> int" where
  "ais2dw12_bw_filt AIS2DW12_ODR_DIV_2 = 0"
| "ais2dw12_bw_filt AIS2DW12_ODR_DIV_4 = 1"
| "ais2dw12_bw_filt AIS2DW12_ODR_DIV_10 = 2"
| "ais2dw12_bw_filt AIS2DW12_ODR_DIV_20 = 3"

primrec ais2dw12_sim :: "ais2dw12_sim_t \<Rightarrow> int" where
  "ais2dw12_sim AIS2DW12_SPI_4_WIRE = 0"
| "ais2dw12_sim AIS2DW12_SPI_3_WIRE = 1"

primrec ais2dw12_i2c_disable :: "ais2dw12_i2c_disable_t \<Rightarrow> int" where
  "ais2dw12_i2c_disable AIS2DW12_I2C_ENABLE = 0"
| "ais2dw12_i2c_disable AIS2DW12_I2C_DISABLE = 1"

primrec ais2dw12_cs_pu_disc :: "ais2dw12_cs_pu_disc_t \<Rightarrow> int" where
  "ais2dw12_cs_pu_disc AIS2DW12_PULL_UP_CONNECT = 0"
| "ais2dw12_cs_pu_disc AIS2DW12_PULL_UP_DISCONNECT = 1"

primrec ais2dw12_h_lactive :: "ais2dw12_h_lactive_t \<Rightarrow> int" where
  "ais2dw12_h_lactive AIS2DW12_ACTIVE_HIGH = 0"
| "ais2dw12_h_lactive AIS2DW12_ACTIVE_LOW = 1"

primrec ais2dw12_lir :: "ais2dw12_lir_t \<Rightarrow> int" where
  "ais2dw12_lir AIS2DW12_INT_PULSED = 0"
| "ais2dw12_lir AIS2DW12_INT_LATCHED = 1"

primrec ais2dw12_pp_od :: "ais2dw12_pp_od_t \<Rightarrow> int" where
  "ais2dw12_pp_od AIS2DW12_PUSH_PULL = 0"
| "ais2dw12_pp_od AIS2DW12_OPEN_DRAIN = 1"

primrec ais2dw12_usr_off_on_wu :: "ais2dw12_usr_off_on_wu_t \<Rightarrow> int" where
  "ais2dw12_usr_off_on_wu AIS2DW12_HP_FEED = 0"
| "ais2dw12_usr_off_on_wu AIS2DW12_USER_OFFSET_FEED = 1"

primrec ais2dw12_sleep_on :: "ais2dw12_sleep_on_t \<Rightarrow> int" where
  "ais2dw12_sleep_on AIS2DW12_NO_DETECTION = 0"
| "ais2dw12_sleep_on AIS2DW12_DETECT_ACT_INACT = 1"
| "ais2dw12_sleep_on AIS2DW12_DETECT_STAT_MOTION = 3"

primrec ais2dw12_lpass_on6d :: "ais2dw12_lpass_on6d_t \<Rightarrow> int" where
  "ais2dw12_lpass_on6d AIS2DW12_ODR_DIV_2_FEED = 0"
| "ais2dw12_lpass_on6d AIS2DW12_LPF2_FEED = 1"

primrec ais2dw12_ff_ths :: "ais2dw12_ff_ths_t \<Rightarrow> int" where
  "ais2dw12_ff_ths AIS2DW12_FF_TSH_5LSb_FS2g = 0"
| "ais2dw12_ff_ths AIS2DW12_FF_TSH_7LSb_FS2g = 1"
| "ais2dw12_ff_ths AIS2DW12_FF_TSH_8LSb_FS2g = 2"
| "ais2dw12_ff_ths AIS2DW12_FF_TSH_10LSb_FS2g = 3"
| "ais2dw12_ff_ths AIS2DW12_FF_TSH_11LSb_FS2g = 4"
| "ais2dw12_ff_ths AIS2DW12_FF_TSH_13LSb_FS2g = 5"
| "ais2dw12_ff_ths AIS2DW12_FF_TSH_15LSb_FS2g = 6"
| "ais2dw12_ff_ths AIS2DW12_FF_TSH_16LSb_FS2g = 7"

primrec ais2dw12_fmode :: "ais2dw12_fmode_t \<Rightarrow> int" where
  "ais2dw12_fmode AIS2DW12_BYPASS_MODE = 0"
| "ais2dw12_fmode AIS2DW12_FIFO_MODE = 1"
| "ais2dw12_fmode AIS2DW12_STREAM_TO_FIFO_MODE = 3"
| "ais2dw12_fmode AIS2DW12_BYPASS_TO_STREAM_MODE = 4"
| "ais2dw12_fmode AIS2DW12_STREAM_MODE = 6"

definition ais2dw12_h :: ais2dw12_reg_h where
  "ais2dw12_h =
     \<lparr> reg_addr = ais2dw12_addr, layout = ais2dw12_layout,
       PROPERTY_DISABLE = 0, PROPERTY_ENABLE = 1,
       mode_val = ais2dw12_mode, odr_val = ais2dw12_odr, fs_val = ais2dw12_fs,
       usr_off_w_val = ais2dw12_usr_off_w, st_val = ais2dw12_st,
       drdy_pulsed_val = ais2dw12_drdy_pulsed, fds_val = ais2dw12_fds,
       bw_filt_val = ais2dw12_bw_filt, sim_val = ais2dw12_sim,
       i2c_disable_val = ais2dw12_i2c_disable, cs_pu_disc_val = ais2dw12_cs_pu_disc,
       h_lactive_val = ais2dw12_h_lactive, lir_val = ais2dw12_lir, pp_od_val = ais2dw12_pp_od,
       usr_off_on_wu_val = ais2dw12_usr_off_on_wu, sleep_on_val = ais2dw12_sleep_on,
       lpass_on6d_val = ais2dw12_lpass_on6d, ff_ths_val = ais2dw12_ff_ths,
       fmode_val = ais2dw12_fmode \<rparr>"

section \<open>Properties of a call\<close>

text \<open>The bits of a register byte that a bit-field occupies.\<close>

definition field_mask :: "bitfield \<Rightarrow> uint8_t" where
  "field_mask f = push_bit (fst f) (mask (snd f))"

text \<open>
  A setter \<open>set_op\<close> (given its context, the initial contents of its local structure and the
  state) is a read-modify-write of the bit-field \<open>f\<close> of the register \<open>reg\<close> with the value
  \<open>v\<close>, on the callbacks \<open>c\<close>: it reads the register once; when that read fails it stops
  there with the read's status; otherwise it writes one byte back to the same register
  and returns the status of the write. The byte written has the bits of the byte read
  outside \<open>f\<close> and the low bits of \<open>v\<close> in \<open>f\<close>.
\<close>

definition writes_back_field ::
  "(('h, 's \<times> bus_event list) stmdev_ctx_t option \<Rightarrow> uint8_t \<Rightarrow> 's \<times> bus_event list
      \<Rightarrow> int32_t \<times> 's \<times> bus_event list)
     \<Rightarrow> ('h, 's) stmdev_ctx_t \<Rightarrow> uint8_t \<Rightarrow> bitfield \<Rightarrow> uint8_t \<Rightarrow> uint8_t \<Rightarrow> 's
     \<Rightarrow> bus_event list \<Rightarrow> bool" where
  "writes_back_field set_op c reg f v j s tr =
     (let (ret, d, s1) = read_reg c (handle c) reg (ptr_to j) 1 s;
          b = fld_set f v (d 0);
          (ret', s2) = write_reg c (handle c) reg (ptr_to b) 1 s1
      in set_op (Some (recording c)) j (s, tr) =
           (if ret = 0 then (ret', (s2, tr @ [Bus_read reg 1, Bus_write reg [b]]))
            else (ret, (s1, tr @ [Bus_read reg 1])))
         \<and> (d 0 XOR b) AND NOT (field_mask f) = 0
         \<and> b AND field_mask f = push_bit (fst f) (take_bit (snd f) v))"

text \<open>
  A setter \<open>set_op\<close> and a getter \<open>get_op\<close> (given the context, for the getter what \<^verbatim>\<open>*val\<close>
  holds, and the state) stop at their first read, of the register \<open>reg\<close> into a local
  structure that held \<open>j\<close>: when that read returns a status other than 0, the call returns
  that status, the bus has seen that one read and nothing else, and the getter leaves \<^verbatim>\<open>*val\<close>
  as it was. With a \<^verbatim>\<open>NULL\<close> context the read returns \<open>-1\<close>, and so does the call.
\<close>

definition set_stops_at_first_read ::
  "(('h, 's \<times> bus_event list) stmdev_ctx_t option \<Rightarrow> 's \<times> bus_event list
      \<Rightarrow> int32_t \<times> 's \<times> bus_event list)
     \<Rightarrow> ('h, 's) stmdev_ctx_t \<Rightarrow> uint8_t \<Rightarrow> uint8_t \<Rightarrow> 's \<Rightarrow> bus_event list \<Rightarrow> bool" where
  "set_stops_at_first_read set_op c reg j s tr =
     (let (ret, d, s1) = read_reg c (handle c) reg (ptr_to j) 1 s
      in (ret \<noteq> 0 \<longrightarrow> set_op (Some (recording c)) (s, tr) = (ret, (s1, tr @ [Bus_read reg 1])))
         \<and> set_op None (s, tr) = (- 1, (s, tr)))"

definition get_stops_at_first_read ::
  "(('h, 's \<times> bus_event list) stmdev_ctx_t option \<Rightarrow> 'v \<Rightarrow> 's \<times> bus_event list
      \<Rightarrow> int32_t \<times> 'v \<times> 's \<times> bus_event list)
     \<Rightarrow> ('h, 's) stmdev_ctx_t \<Rightarrow> uint8_t \<Rightarrow> uint8_t \<Rightarrow> 'v \<Rightarrow> 's \<Rightarrow> bus_event list \<Rightarrow> bool" where
  "get_stops_at_first_read get_op c reg j val s tr =
     (let (ret, d, s1) = read_reg c (handle c) reg (ptr_to j) 1 s
      in (ret \<noteq> 0 \<longrightarrow>
            get_op (Some (recording c)) val (s, tr) = (ret, val, (s1, tr @ [Bus_read reg 1])))
         \<and> get_op None val (s, tr) = (- 1, val, (s, tr)))"

text \<open>
  The trace of one call on the callbacks \<open>c\<close> from the state \<open>s\<close>.
\<close>

definition call_trace ::
  "(('h, 's \<times> bus_event list) stmdev_ctx_t option \<Rightarrow> 's \<times> bus_event list
      \<Rightarrow> int32_t \<times> 's \<times> bus_event list)
     \<Rightarrow> ('h, 's) stmdev_ctx_t \<Rightarrow> 's \<Rightarrow> bus_event list" where
  "call_trace set_op c s = snd (snd (set_op (Some (recording c)) (s, [])))"

text \<open>
  The two orders in which a setter \<open>set_op\<close> of a property on two registers makes its
  accesses, on the callbacks \<open>c\<close>. \<open>reg1\<close> and \<open>reg2\<close> are the registers, \<open>f1\<close> and \<open>f2\<close> the
  bit-fields, \<open>v1\<close> and \<open>v2\<close> the values for them, \<open>j1\<close> and \<open>j2\<close> what the local structures
  hold at first. Every access is of one byte. \<open>r1\<close> to \<open>r4\<close> are the statuses the four
  accesses return when made in turn: the call makes the first, then each next one only if
  all before it returned 0, and returns the status of the last it made, so that an access
  that fails is the last, and both writes are made exactly when the first three accesses
  return 0. A write hands over the byte read from its register with the field replaced:
  the bits outside the field as read, the low bits of the value in the field.

  Register by register: read and write the first, then read and write the second.
\<close>

definition read_write_read_write ::
  "(('h, 's \<times> bus_event list) stmdev_ctx_t option \<Rightarrow> 's \<times> bus_event list
      \<Rightarrow> int32_t \<times> 's \<times> bus_event list)
     \<Rightarrow> ('h, 's) stmdev_ctx_t \<Rightarrow> uint8_t \<Rightarrow> bitfield \<Rightarrow> uint8_t \<Rightarrow> uint8_t
     \<Rightarrow> uint8_t \<Rightarrow> bitfield \<Rightarrow> uint8_t \<Rightarrow> uint8_t \<Rightarrow> 's \<Rightarrow> bus_event list \<Rightarrow> bool" where
  "read_write_read_write set_op c reg1 f1 v1 j1 reg2 f2 v2 j2 s tr =
     (let (r1, d1, s1) = read_reg c (handle c) reg1 (ptr_to j1) 1 s;
          b1 = fld_set f1 v1 (d1 0);
          (r2, s2) = write_reg c (handle c) reg1 (ptr_to b1) 1 s1;
          (r3, d3, s3) = read_reg c (handle c) reg2 (ptr_to j2) 1 s2;
          b2 = fld_set f2 v2 (d3 0);
          (r4, s4) = write_reg c (handle c) reg2 (ptr_to b2) 1 s3
      in set_op (Some (recording c)) (s, tr) =
           (if r1 \<noteq> 0 then (r1, (s1, tr @ [Bus_read reg1 1]))
            else if r2 \<noteq> 0 then (r2, (s2, tr @ [Bus_read reg1 1, Bus_write reg1 [b1]]))
            else if r3 \<noteq> 0
            then (r3, (s3, tr @ [Bus_read reg1 1, Bus_write reg1 [b1], Bus_read reg2 1]))
            else (r4, (s4, tr @ [Bus_read reg1 1, Bus_write reg1 [b1], Bus_read reg2 1,
                                 Bus_write reg2 [b2]])))
         \<and> (d1 0 XOR b1) AND NOT (field_mask f1) = 0
         \<and> b1 AND field_mask f1 = push_bit (fst f1) (take_bit (snd f1) v1)
         \<and> (d3 0 XOR b2) AND NOT (field_mask f2) = 0
         \<and> b2 AND field_mask f2 = push_bit (fst f2) (take_bit (snd f2) v2))"

text \<open>Both reads first: read the first register, read the second, write the first, write the second.\<close>

definition read_read_write_write ::
  "(('h, 's \<times> bus_event list) stmdev_ctx_t option \<Rightarrow> 's \<times> bus_event list
      \<Rightarrow> int32_t \<times> 's \<times> bus_event list)
     \<Rightarrow> ('h, 's) stmdev_ctx_t \<Rightarrow> uint8_t \<Rightarrow> bitfield \<Rightarrow> uint8_t \<Rightarrow> uint8_t
     \<Rightarrow> uint8_t \<Rightarrow> bitfield \<Rightarrow> uint8_t \<Rightarrow> uint8_t \<Rightarrow> 's \<Rightarrow> bus_event list \<Rightarrow> bool" where
  "read_read_write_write set_op c reg1 f1 v1 j1 reg2 f2 v2 j2 s tr =
     (let (r1, d1, s1) = read_reg c (handle c) reg1 (ptr_to j1) 1 s;
          (r2, d2, s2) = read_reg c (handle c) reg2 (ptr_to j2) 1 s1;
          b1 = fld_set f1 v1 (d1 0);
          (r3, s3) = write_reg c (handle c) reg1 (ptr_to b1) 1 s2;
          b2 = fld_set f2 v2 (d2 0);
          (r4, s4) = write_reg c (handle c) reg2 (ptr_to b2) 1 s3
      in set_op (Some (recording c)) (s, tr) =
           (if r1 \<noteq> 0 then (r1, (s1, tr @ [Bus_read reg1 1]))
            else if r2 \<noteq> 0 then (r2, (s2, tr @ [Bus_read reg1 1, Bus_read reg2 1]))
            else if r3 \<noteq> 0
            then (r3, (s3, tr @ [Bus_read reg1 1, Bus_read reg2 1, Bus_write reg1 [b1]]))
            else (r4, (s4, tr @ [Bus_read reg1 1, Bus_read reg2 1, Bus_write reg1 [b1],
                                 Bus_write reg2 [b2]])))
         \<and> (d1 0 XOR b1) AND NOT (field_mask f1) = 0
         \<and> b1 AND field_mask f1 = push_bit (fst f1) (take_bit (snd f1) v1)
         \<and> (d2 0 XOR b2) AND NOT (field_mask f2) = 0
         \<and> b2 AND field_mask f2 = push_bit (fst f2) (take_bit (snd f2) v2))"

text \<open>No read comes after a write.\<close>

fun reads_before_writes :: "bus_event list \<Rightarrow> bool" where
  "reads_before_writes [] = True"
| "reads_before_writes (e # es) =
     (if is_write e then list_all is_write es else reads_before_writes es)"

text \<open>
  Set then get on the simulated register store \<open>m\<close>: both calls return 0 and the getter
  yields the member that was set. \<open>v0\<close> is what the getter's \<^verbatim>\<open>*val\<close> held before.
\<close>

definition round_trip ::
  "((unit, store) stmdev_ctx_t option \<Rightarrow> 'e \<Rightarrow> store \<Rightarrow> int32_t \<times> store)
     \<Rightarrow> ((unit, store) stmdev_ctx_t option \<Rightarrow> 'e \<Rightarrow> store \<Rightarrow> int32_t \<times> 'e \<times> store)
     \<Rightarrow> 'e \<Rightarrow> 'e \<Rightarrow> store \<Rightarrow> bool" where
  "round_trip set_op get_op x v0 m =
     (let (r1, m1) = set_op (Some register_store) x m;
          (r2, v, m2) = get_op (Some register_store) v0 m1
      in r1 = 0 \<and> r2 = 0 \<and> v = x)"

text \<open>
  What the driver takes for granted of its header. A bit-field lies within its byte; two
  bit-fields of one register do not overlap. The enumerators of an enumeration are distinct
  (they label the cases of one \<^verbatim>\<open>switch\<close>) and have no bit outside \<open>msk\<close>, the bits
  that the setter stores.
\<close>

definition fits :: "bitfield \<Rightarrow> bool" where
  "fits f = (fst f + snd f \<le> 8)"

definition apart :: "bitfield \<Rightarrow> bitfield \<Rightarrow> bool" where
  "apart f g = (fst f + snd f \<le> fst g \<or> fst g + snd g \<le> fst f)"

definition labels_ok :: "('e \<Rightarrow> int) \<Rightarrow> 'e list \<Rightarrow> int \<Rightarrow> bool" where
  "labels_ok enc members msk =
     (distinct (map enc members) \<and> list_all (\<lambda>x. enc x AND msk = enc x) members)"

text \<open>
  A getter \<open>get_op\<close> of the bit-field \<open>f\<close> of the register \<open>reg\<close> assigns \<^verbatim>\<open>*val\<close> whatever the
  read returns: after the one read, \<^verbatim>\<open>*val\<close> is the field of the byte the buffer then holds,
  and the status is the read's.
\<close>

definition get_assigns_always ::
  "(('h, 's \<times> bus_event list) stmdev_ctx_t option \<Rightarrow> uint8_t \<Rightarrow> 's \<times> bus_event list
      \<Rightarrow> int32_t \<times> uint8_t \<times> 's \<times> bus_event list)
     \<Rightarrow> ('h, 's) stmdev_ctx_t \<Rightarrow> uint8_t \<Rightarrow> bitfield \<Rightarrow> uint8_t \<Rightarrow> uint8_t \<Rightarrow> 's
     \<Rightarrow> bus_event list \<Rightarrow> bool" where
  "get_assigns_always get_op c reg f j val s tr =
     (let (ret, d, s1) = read_reg c (handle c) reg (ptr_to j) 1 s
      in get_op (Some (recording c)) val (s, tr)
           = (ret, fld_get f (d 0), (s1, tr @ [Bus_read reg 1])))"


text \<open>The store that holds 0 at every address.\<close>

definition zero_store :: store where
  "zero_store = (\<lambda>a. 0)"

subsection \<open>Enumerations\<close>

text \<open>
  What the \<^verbatim>\<open>switch\<close> of an enumeration getter computes from the value \<open>k\<close> it switches on:
  the first of the members, in the order of the cases, whose enumerator has the value \<open>k\<close>,
  and the \<^verbatim>\<open>default:\<close> member \<open>dflt\<close> when there is none.
\<close>

fun first_match :: "('e \<Rightarrow> int) \<Rightarrow> 'e list \<Rightarrow> 'e \<Rightarrow> int \<Rightarrow> 'e" where
  "first_match enc [] dflt k = dflt"
| "first_match enc (x # xs) dflt k = (if k = enc x then x else first_match enc xs dflt k)"



text \<open>
  The header fits the driver: for each enumeration property, the bit-fields lie within
  their bytes and are as wide as the setter's masks and shifts take them to be, two
  registers of one property have different addresses, and the enumerators are distinct
  and have no bit that the setter drops.
\<close>

definition header_fits :: "ais2dw12_reg_h \<Rightarrow> bool" where
  "header_fits H =
     (fits (layout H CTRL6_fs)
      \<and> labels_ok (fs_val H)
          [AIS2DW12_2g, AIS2DW12_4g]
          (mask (snd (layout H CTRL6_fs)))
      \<and> fits (layout H CTRL7_usr_off_w)
      \<and> labels_ok (usr_off_w_val H)
          [AIS2DW12_LSb_977ug, AIS2DW12_LSb_15mg6]
          (mask (snd (layout H CTRL7_usr_off_w)))
      \<and> fits (layout H CTRL3_st)
      \<and> labels_ok (st_val H)
          [AIS2DW12_XL_ST_DISABLE, AIS2DW12_XL_ST_POSITIVE, AIS2DW12_XL_ST_NEGATIVE]
          (mask (snd (layout H CTRL3_st)))
      \<and> fits (layout H CTRL7_drdy_pulsed)
      \<and> labels_ok (drdy_pulsed_val H)
          [AIS2DW12_DRDY_LATCHED, AIS2DW12_DRDY_PULSED]
          (mask (snd (layout H CTRL7_drdy_pulsed)))
      \<and> fits (layout H CTRL6_bw_filt)
      \<and> labels_ok (bw_filt_val H)
          [AIS2DW12_ODR_DIV_2, AIS2DW12_ODR_DIV_4, AIS2DW12_ODR_DIV_10, AIS2DW12_ODR_DIV_20]
          (mask (snd (layout H CTRL6_bw_filt)))
      \<and> fits (layout H CTRL2_sim)
      \<and> labels_ok (sim_val H)
          [AIS2DW12_SPI_4_WIRE, AIS2DW12_SPI_3_WIRE]
          (mask (snd (layout H CTRL2_sim)))
      \<and> fits (layout H CTRL2_i2c_disable)
      \<and> labels_ok (i2c_disable_val H)
          [AIS2DW12_I2C_ENABLE, AIS2DW12_I2C_DISABLE]
          (mask (snd (layout H CTRL2_i2c_disable)))
      \<and> fits (layout H CTRL2_cs_pu_disc)
      \<and> labels_ok (cs_pu_disc_val H)
          [AIS2DW12_PULL_UP_CONNECT, AIS2DW12_PULL_UP_DISCONNECT]
          (mask (snd (layout H CTRL2_cs_pu_disc)))
      \<and> fits (layout H CTRL3_h_lactive)
      \<and> labels_ok (h_lactive_val H)
          [AIS2DW12_ACTIVE_HIGH, AIS2DW12_ACTIVE_LOW]
          (mask (snd (layout H CTRL3_h_lactive)))
      \<and> fits (layout H CTRL3_lir)
      \<and> labels_ok (lir_val H)
          [AIS2DW12_INT_PULSED, AIS2DW12_INT_LATCHED]
          (mask (snd (layout H CTRL3_lir)))
      \<and> fits (layout H CTRL3_pp_od)
      \<and> labels_ok (pp_od_val H)
          [AIS2DW12_PUSH_PULL, AIS2DW12_OPEN_DRAIN]
          (mask (snd (layout H CTRL3_pp_od)))
      \<and> fits (layout H CTRL7_usr_off_on_wu)
      \<and> labels_ok (usr_off_on_wu_val H)
          [AIS2DW12_HP_FEED, AIS2DW12_USER_OFFSET_FEED]
          (mask (snd (layout H CTRL7_usr_off_on_wu)))
      \<and> fits (layout H CTRL7_lpass_on6d)
      \<and> labels_ok (lpass_on6d_val H)
          [AIS2DW12_ODR_DIV_2_FEED, AIS2DW12_LPF2_FEED]
          (mask (snd (layout H CTRL7_lpass_on6d)))
      \<and> fits (layout H FREE_FALL_ff_ths)
      \<and> labels_ok (ff_ths_val H)
          [AIS2DW12_FF_TSH_5LSb_FS2g, AIS2DW12_FF_TSH_7LSb_FS2g, AIS2DW12_FF_TSH_8LSb_FS2g,
           AIS2DW12_FF_TSH_10LSb_FS2g, AIS2DW12_FF_TSH_11LSb_FS2g, AIS2DW12_FF_TSH_13LSb_FS2g,
           AIS2DW12_FF_TSH_15LSb_FS2g, AIS2DW12_FF_TSH_16LSb_FS2g]
          (mask (snd (layout H FREE_FALL_ff_ths)))
      \<and> fits (layout H FIFO_CTRL_fmode)
      \<and> labels_ok (fmode_val H)
          [AIS2DW12_BYPASS_MODE, AIS2DW12_FIFO_MODE, AIS2DW12_STREAM_TO_FIFO_MODE,
           AIS2DW12_BYPASS_TO_STREAM_MODE, AIS2DW12_STREAM_MODE]
          (mask (snd (layout H FIFO_CTRL_fmode)))
      \<and> fits (layout H CTRL1_pw_mode) \<and> fits (layout H CTRL1_op_mode)
      \<and> apart (layout H CTRL1_op_mode) (layout H CTRL1_pw_mode)
      \<and> 2 \<le> snd (layout H CTRL1_pw_mode) \<and> 2 \<le> snd (layout H CTRL1_op_mode)
      \<and> labels_ok (mode_val H)
          [AIS2DW12_PWR_MD_4, AIS2DW12_PWR_MD_3, AIS2DW12_PWR_MD_2, AIS2DW12_PWR_MD_12bit,
           AIS2DW12_SINGLE_PWR_MD_4, AIS2DW12_SINGLE_PWR_MD_3, AIS2DW12_SINGLE_PWR_MD_2,
           AIS2DW12_SINGLE_PWR_MD_12bit] 0x0F
      \<and> fits (layout H CTRL1_odr) \<and> fits (layout H CTRL3_slp_mode)
      \<and> snd (layout H CTRL1_odr) = 4 \<and> 2 \<le> snd (layout H CTRL3_slp_mode)
      \<and> reg_addr H AIS2DW12_CTRL1 \<noteq> reg_addr H AIS2DW12_CTRL3
      \<and> labels_ok (odr_val H)
          [AIS2DW12_XL_ODR_OFF, AIS2DW12_XL_ODR_12Hz5, AIS2DW12_XL_ODR_25Hz,
           AIS2DW12_XL_ODR_50Hz, AIS2DW12_XL_ODR_100Hz, AIS2DW12_XL_SET_SW_TRIG,
           AIS2DW12_XL_SET_PIN_TRIG] 0x3F
      \<and> fits (layout H CTRL6_fds) \<and> fits (layout H CTRL7_usr_off_on_out)
      \<and> 1 \<le> snd (layout H CTRL6_fds) \<and> 1 \<le> snd (layout H CTRL7_usr_off_on_out)
      \<and> reg_addr H AIS2DW12_CTRL6 \<noteq> reg_addr H AIS2DW12_CTRL7
      \<and> labels_ok (fds_val H)
          [AIS2DW12_LPF_ON_OUT, AIS2DW12_USER_OFFSET_ON_OUT, AIS2DW12_HIGH_PASS_ON_OUT] 0x11
      \<and> fits (layout H WAKE_UP_THS_sleep_on) \<and> fits (layout H WAKE_UP_DUR_stationary)
      \<and> 1 \<le> snd (layout H WAKE_UP_THS_sleep_on) \<and> 1 \<le> snd (layout H WAKE_UP_DUR_stationary)
      \<and> reg_addr H AIS2DW12_WAKE_UP_THS \<noteq> reg_addr H AIS2DW12_WAKE_UP_DUR
      \<and> labels_ok (sleep_on_val H)
          [AIS2DW12_NO_DETECTION, AIS2DW12_DETECT_ACT_INACT, AIS2DW12_DETECT_STAT_MOTION] 0x03)"


subsection \<open>Interrupt routing and raw samples\<close>

text \<open>
  The signals the interrupts-enable flag gathers: free fall, wake-up and 6D of the pin-1
  routing register \<open>ctrl4\<close>, sleep state and sleep change of the pin-2 routing register
  \<open>ctrl5\<close>.
\<close>

definition routed_flags :: "ais2dw12_reg_h \<Rightarrow> uint8_t \<Rightarrow> uint8_t \<Rightarrow> uint8_t" where
  "routed_flags H ctrl4 ctrl5 =
     fld_get (layout H CTRL4_INT1_int1_ff) ctrl4
       OR fld_get (layout H CTRL4_INT1_int1_wu) ctrl4
       OR fld_get (layout H CTRL4_INT1_int1_6d) ctrl4
       OR fld_get (layout H CTRL5_INT2_int2_sleep_state) ctrl5
       OR fld_get (layout H CTRL5_INT2_int2_sleep_chg) ctrl5"

text \<open>
  A routing setter \<open>set_op\<close> of the register \<open>own\<close>, given the routing byte \<open>val\<close>, on the
  register store \<open>m\<close>: it reads the other pin's register \<open>other\<close> and CTRL7, writes \<open>val\<close>
  to its own register and then CTRL7, and returns 0. The CTRL7 byte written is the one read
  with the interrupts-enable flag 0 when \<open>flags\<close> is 0 and 1 otherwise, every other bit
  as read.
\<close>

definition sets_interrupts_enable ::
  "ais2dw12_reg_h
     \<Rightarrow> ((unit, store \<times> bus_event list) stmdev_ctx_t option \<Rightarrow> store \<times> bus_event list
          \<Rightarrow> int32_t \<times> store \<times> bus_event list)
     \<Rightarrow> reg_name \<Rightarrow> reg_name \<Rightarrow> uint8_t \<Rightarrow> uint8_t \<Rightarrow> store \<Rightarrow> bus_event list \<Rightarrow> bool" where
  "sets_interrupts_enable H set_op other own val flags m tr =
     (let ie = layout H CTRL7_interrupts_enable;
          ctrl7 = m (reg_addr H AIS2DW12_CTRL7);
          b7 = fld_set ie (if flags = 0 then 0 else 1) ctrl7
      in set_op (Some (recording register_store)) (m, tr)
           = (0, (m(reg_addr H own := val, reg_addr H AIS2DW12_CTRL7 := b7),
                  tr @ [Bus_read (reg_addr H other) 1, Bus_read (reg_addr H AIS2DW12_CTRL7) 1,
                        Bus_write (reg_addr H own) [val],
                        Bus_write (reg_addr H AIS2DW12_CTRL7) [b7]]))
         \<and> fld_get ie b7 = (if flags = 0 then 0 else 1)
         \<and> (ctrl7 XOR b7) AND NOT (field_mask ie) = 0)"

text \<open>
  A raw sample as the specification gives it: the 16-bit word \<open>high * 256 + low\<close>, read as
  two's complement.
\<close>

definition raw_sample :: "uint8_t \<Rightarrow> uint8_t \<Rightarrow> int16_t" where
  "raw_sample high low = word_of_int (uint high * 256 + uint low)"

section \<open>Bit-fields\<close>

lemma fld_set_frame: "(b XOR fld_set f v b) AND NOT (field_mask f) = 0"
  by (cases f) (rule bit_word_eqI, auto simp add: fld_set_def field_mask_def bit_simps)

lemma fld_set_field: "fld_set f v b AND field_mask f = push_bit (fst f) (take_bit (snd f) v)"
  by (cases f) (rule bit_word_eqI, auto simp add: fld_set_def field_mask_def bit_simps)

lemma fld_get_set: "fits f \<Longrightarrow> fld_get f (fld_set f v b) = take_bit (snd f) v"
  by (cases f) (rule bit_word_eqI, auto simp add: fits_def fld_get_def fld_set_def bit_simps)

lemma fld_get_set_other: "apart f g \<Longrightarrow> fld_get g (fld_set f v b) = fld_get g b"
  by (cases f, cases g)
    (rule bit_word_eqI,
      auto simp add: apart_def fld_get_def fld_set_def bit_simps dest: bit_imp_le_length)

section \<open>The driver on a recording context and on the register store\<close>

lemma read_recording:
  "ais2dw12_read_reg (Some (recording c)) reg d len (s, tr) =
     (case read_reg c (handle c) reg d len s of
        (ret, d', s') \<Rightarrow> (ret, d', (s', tr @ [Bus_read reg (unat len)])))"
  by (simp add: ais2dw12_read_reg_def recording_def split: prod.splits)

lemma write_recording:
  "ais2dw12_write_reg (Some (recording c)) reg d len (s, tr) =
     (case write_reg c (handle c) reg d len s of
        (ret, s') \<Rightarrow> (ret, (s', tr @ [Bus_write reg (map d [0..<unat len])])))"
  by (simp add: ais2dw12_write_reg_def recording_def split: prod.splits)

lemma read_null: "ais2dw12_read_reg None reg d len s = (- 1, d, s)"
  by (simp add: ais2dw12_read_reg_def)

lemma store_read:
  "ais2dw12_read_reg (Some register_store) reg d 1 m = (0, d(0 := m reg), m)"
  by (auto simp add: ais2dw12_read_reg_def register_store_def)

lemma store_write:
  "ais2dw12_write_reg (Some register_store) reg d 1 m = (0, m(reg := d 0))"
  by (auto simp add: ais2dw12_write_reg_def register_store_def unat_eq_0 fun_eq_iff)

lemma store_read_cb: "read_reg register_store h reg d 1 m = (0, d(0 := m reg), m)"
  by (auto simp add: register_store_def)

lemma store_write_cb: "write_reg register_store h reg d 1 m = (0, m(reg := d 0))"
  by (auto simp add: register_store_def unat_eq_0 fun_eq_iff)

lemma store_read_n:
  "ais2dw12_read_reg (Some register_store) reg d len m =
     (0, (\<lambda>i. if i < unat len then m (reg + of_nat i) else d i), m)"
  by (simp add: ais2dw12_read_reg_def register_store_def)

text \<open>The shape shared by the single-field setters.\<close>

lemma rmw_shape:
  assumes "\<And>ctx reg0 st. set_op ctx reg0 st =
     (let (ret, d, s) = ais2dw12_read_reg ctx reg (ptr_to reg0) 1 st;
          reg0 = deref d
      in if ret = 0
         then (let reg0 = fld_set f v reg0
               in ais2dw12_write_reg ctx reg (ptr_to reg0) 1 s)
         else (ret, s))"
  shows "writes_back_field set_op c reg f v j s tr"
  unfolding writes_back_field_def assms
  by (simp add: read_recording write_recording fld_set_frame fld_set_field ptr_to_def deref_def
      split: prod.splits)

text \<open>The shape shared by the getters of a plain bit-field.\<close>

lemma get_shape:
  assumes "\<And>ctx val reg0 st. get_op ctx val reg0 st =
     (let (ret, d, s) = ais2dw12_read_reg ctx reg (ptr_to reg0) 1 st;
          reg0 = deref d;
          val = fld_get f reg0
      in (ret, val, s))"
  shows "get_assigns_always (\<lambda>ctx val. get_op ctx val j) c reg f j val s tr"
  unfolding get_assigns_always_def assms
  by (simp add: read_recording deref_def split: prod.splits)

section \<open>Raw samples\<close>

lemma byte_lt: "uint (b :: uint8_t) < 256"
  using uint_bounded [of b] by simp

lemma sint_ucast_byte: "sint (ucast (b :: uint8_t) :: int16_t) = uint b"
proof -
  have "uint b < 256" "0 \<le> uint b"
    by (simp_all add: byte_lt)
  then have "- 32768 \<le> uint b \<and> uint b < 32768"
    by linarith
  then have "signed_take_bit 15 (uint b) = uint b"
    by (intro signed_take_bit_int_eq_self) simp_all
  then show ?thesis
    by (simp add: signed_ucast_eq)
qed

lemma raw_sample_range:
  fixes high low :: uint8_t
  shows "0 \<le> uint high * 256 + uint low \<and> uint high * 256 + uint low < 65536"
proof -
  have "uint high < 256" "uint low < 256" "0 \<le> uint high" "0 \<le> uint low"
    by (simp_all add: byte_lt)
  then show ?thesis by linarith
qed

lemma uint_raw_sample: "uint (raw_sample high low) = uint high * 256 + uint low"
proof -
  have "take_bit 16 (uint high * 256 + uint low) = uint high * 256 + uint low"
    using raw_sample_range [of high low] by (intro take_bit_int_eq_self) simp_all
  then show ?thesis
    by (simp only: raw_sample_def uint_word_of_int_eq) simp
qed

lemma sint_raw_sample:
  "sint (raw_sample high low) =
     (if uint high < 128 then uint high * 256 + uint low
      else uint high * 256 + uint low - 65536)"
proof -
  let ?k = "uint high * 256 + uint low"
  have b: "uint low < 256" "0 \<le> uint low" "0 \<le> uint high" "uint high < 256"
    by (simp_all add: byte_lt)
  have s: "sint (raw_sample high low) = signed_take_bit 15 ?k"
    by (simp add: sint_uint uint_raw_sample)
  show ?thesis
  proof (cases "uint high < 128")
    case True
    with b have "- 32768 \<le> ?k \<and> ?k < 32768" by linarith
    then have "signed_take_bit 15 ?k = ?k"
      by (intro signed_take_bit_int_eq_self) simp_all
    then show ?thesis using True s by simp
  next
    case False
    with b have "- 32768 \<le> ?k - 65536 \<and> ?k - 65536 < 32768" by linarith
    then have r: "signed_take_bit 15 (?k - 65536) = ?k - 65536"
      by (intro signed_take_bit_int_eq_self) simp_all
    have "signed_take_bit 15 ?k = signed_take_bit 15 (?k - 65536)"
      by (simp add: signed_take_bit_eq_iff_take_bit_eq take_bit_eq_mod)
    then show ?thesis using False s r by simp
  qed
qed

section \<open>Enumerations on the register store\<close>


lemma first_match_distinct:
  "distinct (map enc members) \<Longrightarrow> x \<in> set members
     \<Longrightarrow> first_match enc members dflt (enc x) = x"
proof (induction members)
  case Nil
  then show ?case by simp
next
  case (Cons a members)
  show ?case
  proof (cases "x = a")
    case True
    then show ?thesis by simp
  next
    case False
    with Cons.prems have x: "x \<in> set members" and a: "enc a \<notin> enc ` set members"
      by simp_all
    then have "enc x \<noteq> enc a" by (metis imageI)
    with Cons x show ?thesis by simp
  qed
qed

lemma first_match_label:
  "labels_ok enc members msk \<Longrightarrow> x \<in> set members
     \<Longrightarrow> first_match enc members dflt (enc x) = x"
  by (simp add: labels_ok_def first_match_distinct)

lemma label_in_mask:
  "labels_ok enc members msk \<Longrightarrow> x \<in> set members \<Longrightarrow> enc x AND msk = enc x"
  by (auto simp add: labels_ok_def list_all_iff)

text \<open>An enumerator that fits its bit-field is read back from it.\<close>

lemma key_single:
  assumes "fits f" and "e AND mask (snd f) = e"
  shows "uint (take_bit (snd f) (u8 e)) = e"
proof -
  have "uint (take_bit (snd f) (u8 e)) = take_bit (snd f) (take_bit 8 e)"
    by (simp add: u8_def unsigned_take_bit_eq uint_word_of_int_eq)
  also have "\<dots> = take_bit (snd f) e"
    using assms(1) by (simp add: fits_def min_def)
  also have "\<dots> = e"
    using assms(2) by (simp add: take_bit_eq_mask)
  finally show ?thesis .
qed

text \<open>The masks and shifts of the setters of two bit-fields cut slices of the value.\<close>

lemma slice_and:
  fixes v :: uint8_t
  shows "v AND 0x03 = take_bit 2 v"
    and "drop_bit 2 (v AND 0x0C) = take_bit 2 (drop_bit 2 v)"
    and "drop_bit 4 (v AND 0x30) = take_bit 2 (drop_bit 4 v)"
    and "drop_bit 4 (v AND 0x10) = take_bit 1 (drop_bit 4 v)"
    and "v AND 0x01 = take_bit 1 v"
    and "drop_bit 1 (v AND 0x02) = take_bit 1 (drop_bit 1 v)"
proof -
  have m: "(0x03 :: uint8_t) = mask 2" "(0x0C :: uint8_t) = push_bit 2 (mask 2)"
    "(0x30 :: uint8_t) = push_bit 4 (mask 2)" "(0x10 :: uint8_t) = push_bit 4 (mask 1)"
    "(0x01 :: uint8_t) = mask 1" "(0x02 :: uint8_t) = push_bit 1 (mask 1)"
    by (simp_all add: mask_eq_exp_minus_1)
  show "v AND 0x03 = take_bit 2 v"
    unfolding m by (rule bit_word_eqI) (auto simp add: bit_simps)
  show "drop_bit 2 (v AND 0x0C) = take_bit 2 (drop_bit 2 v)"
    unfolding m by (rule bit_word_eqI) (auto simp add: bit_simps)
  show "drop_bit 4 (v AND 0x30) = take_bit 2 (drop_bit 4 v)"
    unfolding m by (rule bit_word_eqI) (auto simp add: bit_simps)
  show "drop_bit 4 (v AND 0x10) = take_bit 1 (drop_bit 4 v)"
    unfolding m by (rule bit_word_eqI) (auto simp add: bit_simps even_drop_bit_iff_not_bit)
  show "v AND 0x01 = take_bit 1 v"
    unfolding m by (rule bit_word_eqI) (auto simp add: bit_simps bit_0)
  show "drop_bit 1 (v AND 0x02) = take_bit 1 (drop_bit 1 v)"
    unfolding m by (rule bit_word_eqI) (auto simp add: bit_simps even_drop_bit_iff_not_bit)
qed

lemma join_slices:
  fixes x :: int
  shows "push_bit n (take_bit k (drop_bit n x)) + take_bit n x = take_bit (n + k) x"
proof -
  have "push_bit n (drop_bit n (take_bit (n + k) x)) + take_bit n (take_bit (n + k) x)
          = take_bit (n + k) x"
    by (rule bits_ident)
  then show ?thesis
    by (simp add: drop_bit_take_bit min_def)
qed

text \<open>
  A value of \<open>n + k\<close> bits stored as its high \<open>k\<close> bits in one bit-field and its low \<open>n\<close> bits
  in another is read back by the getter's shift and sum.
\<close>

lemma key_pair:
  fixes e :: int
  assumes "e AND mask (n + k) = e" and "n + k \<le> 8" and "k \<le> w2" and "n \<le> w1"
  shows "push_bit n (uint (take_bit w2 (take_bit k (drop_bit n (u8 e)))))
           + uint (take_bit w1 (take_bit n (u8 e))) = e"
proof -
  have "push_bit n (uint (take_bit w2 (take_bit k (drop_bit n (u8 e)))))
           + uint (take_bit w1 (take_bit n (u8 e)))
        = push_bit n (take_bit k (drop_bit n (take_bit 8 e))) + take_bit n (take_bit 8 e)"
    using assms
    by (simp add: u8_def unsigned_take_bit_eq unsigned_drop_bit_eq uint_word_of_int_eq min_def)
  also have "\<dots> = take_bit (n + k) (take_bit 8 e)"
    by (rule join_slices)
  also have "\<dots> = take_bit (n + k) e"
    using assms by (simp add: min_def)
  also have "\<dots> = e"
    using assms by (simp add: take_bit_eq_mask)
  finally show ?thesis .
qed

text \<open>
  The filter path keeps bits 4 and 0 of the value only, in two one-bit fields.
\<close>

lemma only_bits_4_and_0:
  fixes e :: int
  assumes "e AND 0x11 = e"
  shows "e = 0 \<or> e = 1 \<or> e = 0x10 \<or> e = 0x11"
proof -
  have "0 \<le> e AND 0x11" "e AND 0x11 \<le> 0x11"
    by (simp_all add: AND_upper2)
  with assms have "0 \<le> e" "e \<le> 17" by simp_all
  then have "e \<in> set [0..17]" by simp
  then consider "e = 0" | "e = 1" | "e = 2" | "e = 3" | "e = 4" | "e = 5" | "e = 6" | "e = 7"
    | "e = 8" | "e = 9" | "e = 10" | "e = 11" | "e = 12" | "e = 13" | "e = 14" | "e = 15"
    | "e = 16" | "e = 17"
    by (simp add: upto.simps) blast
  then show ?thesis using assms by cases simp_all
qed

lemma key_bits_4_and_0:
  fixes e :: int
  assumes "e AND 0x11 = e" and "1 \<le> w2" and "1 \<le> w1"
  shows "push_bit 4 (uint (take_bit w2 (take_bit 1 (drop_bit 4 (u8 e)))))
           + uint (take_bit w1 (take_bit 1 (u8 e))) = e"
proof -
  have w: "0 < w2" "0 < w1"
    using assms(2,3) by simp_all
  from only_bits_4_and_0 [OF assms(1)] show ?thesis
    using w by (elim disjE) (simp_all add: u8_def)
qed


text \<open>The enumeration getters and setters on the register store.\<close>

lemma store_get_full_scale:
  "ais2dw12_full_scale_get H (Some register_store) v0 j m =
     (0, first_match (fs_val H)
           [AIS2DW12_2g, AIS2DW12_4g]
           AIS2DW12_2g
           (uint (fld_get (layout H CTRL6_fs) (m (reg_addr H AIS2DW12_CTRL6)))), m)"
  by (simp add: ais2dw12_full_scale_get_def store_read store_write ptr_to_def deref_def Let_def)

lemma store_set_full_scale:
  "ais2dw12_full_scale_set H (Some register_store) x j m =
     (0, m(reg_addr H AIS2DW12_CTRL6 :=
             fld_set (layout H CTRL6_fs) (u8 (fs_val H x)) (m (reg_addr H AIS2DW12_CTRL6))))"
  by (simp add: ais2dw12_full_scale_set_def store_read store_write ptr_to_def deref_def Let_def)

lemma round_trip_full_scale:
  assumes "header_fits H"
  shows "round_trip (\<lambda>ctx x. ais2dw12_full_scale_set H ctx x js)
           (\<lambda>ctx v. ais2dw12_full_scale_get H ctx v jg) x v0 m"
proof -
  from assms have f: "fits (layout H CTRL6_fs)"
    and l: "labels_ok (fs_val H)
              [AIS2DW12_2g, AIS2DW12_4g]
              (mask (snd (layout H CTRL6_fs)))"
    by (simp_all add: header_fits_def)
  have x: "x \<in> set [AIS2DW12_2g, AIS2DW12_4g]"
    by (cases x) simp_all
  have "fs_val H x AND mask (snd (layout H CTRL6_fs)) = fs_val H x"
    using l x by (rule label_in_mask)
  with f have "uint (take_bit (snd (layout H CTRL6_fs)) (u8 (fs_val H x))) = fs_val H x"
    by (rule key_single)
  then show ?thesis
    using f
    by (simp add: round_trip_def store_set_full_scale store_get_full_scale fld_get_set
        first_match_label [OF l x] del: first_match.simps)
qed

lemma store_get_offset_weight:
  "ais2dw12_offset_weight_get H (Some register_store) v0 j m =
     (0, first_match (usr_off_w_val H)
           [AIS2DW12_LSb_977ug, AIS2DW12_LSb_15mg6]
           AIS2DW12_LSb_977ug
           (uint (fld_get (layout H CTRL7_usr_off_w) (m (reg_addr H AIS2DW12_CTRL7)))), m)"
  by (simp add: ais2dw12_offset_weight_get_def store_read store_write ptr_to_def deref_def Let_def)

lemma store_set_offset_weight:
  "ais2dw12_offset_weight_set H (Some register_store) x j m =
     (0, m(reg_addr H AIS2DW12_CTRL7 :=
             fld_set (layout H CTRL7_usr_off_w) (u8 (usr_off_w_val H x)) (m (reg_addr H AIS2DW12_CTRL7))))"
  by (simp add: ais2dw12_offset_weight_set_def store_read store_write ptr_to_def deref_def Let_def)

lemma round_trip_offset_weight:
  assumes "header_fits H"
  shows "round_trip (\<lambda>ctx x. ais2dw12_offset_weight_set H ctx x js)
           (\<lambda>ctx v. ais2dw12_offset_weight_get H ctx v jg) x v0 m"
proof -
  from assms have f: "fits (layout H CTRL7_usr_off_w)"
    and l: "labels_ok (usr_off_w_val H)
              [AIS2DW12_LSb_977ug, AIS2DW12_LSb_15mg6]
              (mask (snd (layout H CTRL7_usr_off_w)))"
    by (simp_all add: header_fits_def)
  have x: "x \<in> set [AIS2DW12_LSb_977ug, AIS2DW12_LSb_15mg6]"
    by (cases x) simp_all
  have "usr_off_w_val H x AND mask (snd (layout H CTRL7_usr_off_w)) = usr_off_w_val H x"
    using l x by (rule label_in_mask)
  with f have "uint (take_bit (snd (layout H CTRL7_usr_off_w)) (u8 (usr_off_w_val H x))) = usr_off_w_val H x"
    by (rule key_single)
  then show ?thesis
    using f
    by (simp add: round_trip_def store_set_offset_weight store_get_offset_weight fld_get_set
        first_match_label [OF l x] del: first_match.simps)
qed

lemma store_get_self_test:
  "ais2dw12_self_test_get H (Some register_store) v0 j m =
     (0, first_match (st_val H)
           [AIS2DW12_XL_ST_DISABLE, AIS2DW12_XL_ST_POSITIVE, AIS2DW12_XL_ST_NEGATIVE]
           AIS2DW12_XL_ST_DISABLE
           (uint (fld_get (layout H CTRL3_st) (m (reg_addr H AIS2DW12_CTRL3)))), m)"
  by (simp add: ais2dw12_self_test_get_def store_read store_write ptr_to_def deref_def Let_def)

lemma store_set_self_test:
  "ais2dw12_self_test_set H (Some register_store) x j m =
     (0, m(reg_addr H AIS2DW12_CTRL3 :=
             fld_set (layout H CTRL3_st) (u8 (st_val H x)) (m (reg_addr H AIS2DW12_CTRL3))))"
  by (simp add: ais2dw12_self_test_set_def store_read store_write ptr_to_def deref_def Let_def)

lemma round_trip_self_test:
  assumes "header_fits H"
  shows "round_trip (\<lambda>ctx x. ais2dw12_self_test_set H ctx x js)
           (\<lambda>ctx v. ais2dw12_self_test_get H ctx v jg) x v0 m"
proof -
  from assms have f: "fits (layout H CTRL3_st)"
    and l: "labels_ok (st_val H)
              [AIS2DW12_XL_ST_DISABLE, AIS2DW12_XL_ST_POSITIVE, AIS2DW12_XL_ST_NEGATIVE]
              (mask (snd (layout H CTRL3_st)))"
    by (simp_all add: header_fits_def)
  have x: "x \<in> set [AIS2DW12_XL_ST_DISABLE, AIS2DW12_XL_ST_POSITIVE, AIS2DW12_XL_ST_NEGATIVE]"
    by (cases x) simp_all
  have "st_val H x AND mask (snd (layout H CTRL3_st)) = st_val H x"
    using l x by (rule label_in_mask)
  with f have "uint (take_bit (snd (layout H CTRL3_st)) (u8 (st_val H x))) = st_val H x"
    by (rule key_single)
  then show ?thesis
    using f
    by (simp add: round_trip_def store_set_self_test store_get_self_test fld_get_set
        first_match_label [OF l x] del: first_match.simps)
qed

lemma store_get_data_ready_mode:
  "ais2dw12_data_ready_mode_get H (Some register_store) v0 j m =
     (0, first_match (drdy_pulsed_val H)
           [AIS2DW12_DRDY_LATCHED, AIS2DW12_DRDY_PULSED]
           AIS2DW12_DRDY_LATCHED
           (uint (fld_get (layout H CTRL7_drdy_pulsed) (m (reg_addr H AIS2DW12_CTRL7)))), m)"
  by (simp add: ais2dw12_data_ready_mode_get_def store_read store_write ptr_to_def deref_def Let_def)

lemma store_set_data_ready_mode:
  "ais2dw12_data_ready_mode_set H (Some register_store) x j m =
     (0, m(reg_addr H AIS2DW12_CTRL7 :=
             fld_set (layout H CTRL7_drdy_pulsed) (u8 (drdy_pulsed_val H x)) (m (reg_addr H AIS2DW12_CTRL7))))"
  by (simp add: ais2dw12_data_ready_mode_set_def store_read store_write ptr_to_def deref_def Let_def)

lemma round_trip_data_ready_mode:
  assumes "header_fits H"
  shows "round_trip (\<lambda>ctx x. ais2dw12_data_ready_mode_set H ctx x js)
           (\<lambda>ctx v. ais2dw12_data_ready_mode_get H ctx v jg) x v0 m"
proof -
  from assms have f: "fits (layout H CTRL7_drdy_pulsed)"
    and l: "labels_ok (drdy_pulsed_val H)
              [AIS2DW12_DRDY_LATCHED, AIS2DW12_DRDY_PULSED]
              (mask (snd (layout H CTRL7_drdy_pulsed)))"
    by (simp_all add: header_fits_def)
  have x: "x \<in> set [AIS2DW12_DRDY_LATCHED, AIS2DW12_DRDY_PULSED]"
    by (cases x) simp_all
  have "drdy_pulsed_val H x AND mask (snd (layout H CTRL7_drdy_pulsed)) = drdy_pulsed_val H x"
    using l x by (rule label_in_mask)
  with f have "uint (take_bit (snd (layout H CTRL7_drdy_pulsed)) (u8 (drdy_pulsed_val H x))) = drdy_pulsed_val H x"
    by (rule key_single)
  then show ?thesis
    using f
    by (simp add: round_trip_def store_set_data_ready_mode store_get_data_ready_mode fld_get_set
        first_match_label [OF l x] del: first_match.simps)
qed

lemma store_get_filter_bandwidth:
  "ais2dw12_filter_bandwidth_get H (Some register_store) v0 j m =
     (0, first_match (bw_filt_val H)
           [AIS2DW12_ODR_DIV_2, AIS2DW12_ODR_DIV_4, AIS2DW12_ODR_DIV_10, AIS2DW12_ODR_DIV_20]
           AIS2DW12_ODR_DIV_2
           (uint (fld_get (layout H CTRL6_bw_filt) (m (reg_addr H AIS2DW12_CTRL6)))), m)"
  by (simp add: ais2dw12_filter_bandwidth_get_def store_read store_write ptr_to_def deref_def Let_def)

lemma store_set_filter_bandwidth:
  "ais2dw12_filter_bandwidth_set H (Some register_store) x j m =
     (0, m(reg_addr H AIS2DW12_CTRL6 :=
             fld_set (layout H CTRL6_bw_filt) (u8 (bw_filt_val H x)) (m (reg_addr H AIS2DW12_CTRL6))))"
  by (simp add: ais2dw12_filter_bandwidth_set_def store_read store_write ptr_to_def deref_def Let_def)

lemma round_trip_filter_bandwidth:
  assumes "header_fits H"
  shows "round_trip (\<lambda>ctx x. ais2dw12_filter_bandwidth_set H ctx x js)
           (\<lambda>ctx v. ais2dw12_filter_bandwidth_get H ctx v jg) x v0 m"
proof -
  from assms have f: "fits (layout H CTRL6_bw_filt)"
    and l: "labels_ok (bw_filt_val H)
              [AIS2DW12_ODR_DIV_2, AIS2DW12_ODR_DIV_4, AIS2DW12_ODR_DIV_10,
               AIS2DW12_ODR_DIV_20]
              (mask (snd (layout H CTRL6_bw_filt)))"
    by (simp_all add: header_fits_def)
  have x: "x \<in> set [AIS2DW12_ODR_DIV_2, AIS2DW12_ODR_DIV_4, AIS2DW12_ODR_DIV_10,
                    AIS2DW12_ODR_DIV_20]"
    by (cases x) simp_all
  have "bw_filt_val H x AND mask (snd (layout H CTRL6_bw_filt)) = bw_filt_val H x"
    using l x by (rule label_in_mask)
  with f have "uint (take_bit (snd (layout H CTRL6_bw_filt)) (u8 (bw_filt_val H x))) = bw_filt_val H x"
    by (rule key_single)
  then show ?thesis
    using f
    by (simp add: round_trip_def store_set_filter_bandwidth store_get_filter_bandwidth fld_get_set
        first_match_label [OF l x] del: first_match.simps)
qed

lemma store_get_spi_mode:
  "ais2dw12_spi_mode_get H (Some register_store) v0 j m =
     (0, first_match (sim_val H)
           [AIS2DW12_SPI_4_WIRE, AIS2DW12_SPI_3_WIRE]
           AIS2DW12_SPI_4_WIRE
           (uint (fld_get (layout H CTRL2_sim) (m (reg_addr H AIS2DW12_CTRL2)))), m)"
  by (simp add: ais2dw12_spi_mode_get_def store_read store_write ptr_to_def deref_def Let_def)

lemma store_set_spi_mode:
  "ais2dw12_spi_mode_set H (Some register_store) x j m =
     (0, m(reg_addr H AIS2DW12_CTRL2 :=
             fld_set (layout H CTRL2_sim) (u8 (sim_val H x)) (m (reg_addr H AIS2DW12_CTRL2))))"
  by (simp add: ais2dw12_spi_mode_set_def store_read store_write ptr_to_def deref_def Let_def)

lemma round_trip_spi_mode:
  assumes "header_fits H"
  shows "round_trip (\<lambda>ctx x. ais2dw12_spi_mode_set H ctx x js)
           (\<lambda>ctx v. ais2dw12_spi_mode_get H ctx v jg) x v0 m"
proof -
  from assms have f: "fits (layout H CTRL2_sim)"
    and l: "labels_ok (sim_val H)
              [AIS2DW12_SPI_4_WIRE, AIS2DW12_SPI_3_WIRE]
              (mask (snd (layout H CTRL2_sim)))"
    by (simp_all add: header_fits_def)
  have x: "x \<in> set [AIS2DW12_SPI_4_WIRE, AIS2DW12_SPI_3_WIRE]"
    by (cases x) simp_all
  have "sim_val H x AND mask (snd (layout H CTRL2_sim)) = sim_val H x"
    using l x by (rule label_in_mask)
  with f have "uint (take_bit (snd (layout H CTRL2_sim)) (u8 (sim_val H x))) = sim_val H x"
    by (rule key_single)
  then show ?thesis
    using f
    by (simp add: round_trip_def store_set_spi_mode store_get_spi_mode fld_get_set
        first_match_label [OF l x] del: first_match.simps)
qed

lemma store_get_i2c_interface:
  "ais2dw12_i2c_interface_get H (Some register_store) v0 j m =
     (0, first_match (i2c_disable_val H)
           [AIS2DW12_I2C_ENABLE, AIS2DW12_I2C_DISABLE]
           AIS2DW12_I2C_ENABLE
           (uint (fld_get (layout H CTRL2_i2c_disable) (m (reg_addr H AIS2DW12_CTRL2)))), m)"
  by (simp add: ais2dw12_i2c_interface_get_def store_read store_write ptr_to_def deref_def Let_def)

lemma store_set_i2c_interface:
  "ais2dw12_i2c_interface_set H (Some register_store) x j m =
     (0, m(reg_addr H AIS2DW12_CTRL2 :=
             fld_set (layout H CTRL2_i2c_disable) (u8 (i2c_disable_val H x)) (m (reg_addr H AIS2DW12_CTRL2))))"
  by (simp add: ais2dw12_i2c_interface_set_def store_read store_write ptr_to_def deref_def Let_def)

lemma round_trip_i2c_interface:
  assumes "header_fits H"
  shows "round_trip (\<lambda>ctx x. ais2dw12_i2c_interface_set H ctx x js)
           (\<lambda>ctx v. ais2dw12_i2c_interface_get H ctx v jg) x v0 m"
proof -
  from assms have f: "fits (layout H CTRL2_i2c_disable)"
    and l: "labels_ok (i2c_disable_val H)
              [AIS2DW12_I2C_ENABLE, AIS2DW12_I2C_DISABLE]
              (mask (snd (layout H CTRL2_i2c_disable)))"
    by (simp_all add: header_fits_def)
  have x: "x \<in> set [AIS2DW12_I2C_ENABLE, AIS2DW12_I2C_DISABLE]"
    by (cases x) simp_all
  have "i2c_disable_val H x AND mask (snd (layout H CTRL2_i2c_disable)) = i2c_disable_val H x"
    using l x by (rule label_in_mask)
  with f have "uint (take_bit (snd (layout H CTRL2_i2c_disable)) (u8 (i2c_disable_val H x))) = i2c_disable_val H x"
    by (rule key_single)
  then show ?thesis
    using f
    by (simp add: round_trip_def store_set_i2c_interface store_get_i2c_interface fld_get_set
        first_match_label [OF l x] del: first_match.simps)
qed

lemma store_get_cs_mode:
  "ais2dw12_cs_mode_get H (Some register_store) v0 j m =
     (0, first_match (cs_pu_disc_val H)
           [AIS2DW12_PULL_UP_CONNECT, AIS2DW12_PULL_UP_DISCONNECT]
           AIS2DW12_PULL_UP_CONNECT
           (uint (fld_get (layout H CTRL2_cs_pu_disc) (m (reg_addr H AIS2DW12_CTRL2)))), m)"
  by (simp add: ais2dw12_cs_mode_get_def store_read store_write ptr_to_def deref_def Let_def)

lemma store_set_cs_mode:
  "ais2dw12_cs_mode_set H (Some register_store) x j m =
     (0, m(reg_addr H AIS2DW12_CTRL2 :=
             fld_set (layout H CTRL2_cs_pu_disc) (u8 (cs_pu_disc_val H x)) (m (reg_addr H AIS2DW12_CTRL2))))"
  by (simp add: ais2dw12_cs_mode_set_def store_read store_write ptr_to_def deref_def Let_def)

lemma round_trip_cs_mode:
  assumes "header_fits H"
  shows "round_trip (\<lambda>ctx x. ais2dw12_cs_mode_set H ctx x js)
           (\<lambda>ctx v. ais2dw12_cs_mode_get H ctx v jg) x v0 m"
proof -
  from assms have f: "fits (layout H CTRL2_cs_pu_disc)"
    and l: "labels_ok (cs_pu_disc_val H)
              [AIS2DW12_PULL_UP_CONNECT, AIS2DW12_PULL_UP_DISCONNECT]
              (mask (snd (layout H CTRL2_cs_pu_disc)))"
    by (simp_all add: header_fits_def)
  have x: "x \<in> set [AIS2DW12_PULL_UP_CONNECT, AIS2DW12_PULL_UP_DISCONNECT]"
    by (cases x) simp_all
  have "cs_pu_disc_val H x AND mask (snd (layout H CTRL2_cs_pu_disc)) = cs_pu_disc_val H x"
    using l x by (rule label_in_mask)
  with f have "uint (take_bit (snd (layout H CTRL2_cs_pu_disc)) (u8 (cs_pu_disc_val H x))) = cs_pu_disc_val H x"
    by (rule key_single)
  then show ?thesis
    using f
    by (simp add: round_trip_def store_set_cs_mode store_get_cs_mode fld_get_set
        first_match_label [OF l x] del: first_match.simps)
qed

lemma store_get_pin_polarity:
  "ais2dw12_pin_polarity_get H (Some register_store) v0 j m =
     (0, first_match (h_lactive_val H)
           [AIS2DW12_ACTIVE_HIGH, AIS2DW12_ACTIVE_LOW]
           AIS2DW12_ACTIVE_HIGH
           (uint (fld_get (layout H CTRL3_h_lactive) (m (reg_addr H AIS2DW12_CTRL3)))), m)"
  by (simp add: ais2dw12_pin_polarity_get_def store_read store_write ptr_to_def deref_def Let_def)

lemma store_set_pin_polarity:
  "ais2dw12_pin_polarity_set H (Some register_store) x j m =
     (0, m(reg_addr H AIS2DW12_CTRL3 :=
             fld_set (layout H CTRL3_h_lactive) (u8 (h_lactive_val H x)) (m (reg_addr H AIS2DW12_CTRL3))))"
  by (simp add: ais2dw12_pin_polarity_set_def store_read store_write ptr_to_def deref_def Let_def)

lemma round_trip_pin_polarity:
  assumes "header_fits H"
  shows "round_trip (\<lambda>ctx x. ais2dw12_pin_polarity_set H ctx x js)
           (\<lambda>ctx v. ais2dw12_pin_polarity_get H ctx v jg) x v0 m"
proof -
  from assms have f: "fits (layout H CTRL3_h_lactive)"
    and l: "labels_ok (h_lactive_val H)
              [AIS2DW12_ACTIVE_HIGH, AIS2DW12_ACTIVE_LOW]
              (mask (snd (layout H CTRL3_h_lactive)))"
    by (simp_all add: header_fits_def)
  have x: "x \<in> set [AIS2DW12_ACTIVE_HIGH, AIS2DW12_ACTIVE_LOW]"
    by (cases x) simp_all
  have "h_lactive_val H x AND mask (snd (layout H CTRL3_h_lactive)) = h_lactive_val H x"
    using l x by (rule label_in_mask)
  with f have "uint (take_bit (snd (layout H CTRL3_h_lactive)) (u8 (h_lactive_val H x))) = h_lactive_val H x"
    by (rule key_single)
  then show ?thesis
    using f
    by (simp add: round_trip_def store_set_pin_polarity store_get_pin_polarity fld_get_set
        first_match_label [OF l x] del: first_match.simps)
qed

lemma store_get_int_notification:
  "ais2dw12_int_notification_get H (Some register_store) v0 j m =
     (0, first_match (lir_val H)
           [AIS2DW12_INT_PULSED, AIS2DW12_INT_LATCHED]
           AIS2DW12_INT_PULSED
           (uint (fld_get (layout H CTRL3_lir) (m (reg_addr H AIS2DW12_CTRL3)))), m)"
  by (simp add: ais2dw12_int_notification_get_def store_read store_write ptr_to_def deref_def Let_def)

lemma store_set_int_notification:
  "ais2dw12_int_notification_set H (Some register_store) x j m =
     (0, m(reg_addr H AIS2DW12_CTRL3 :=
             fld_set (layout H CTRL3_lir) (u8 (lir_val H x)) (m (reg_addr H AIS2DW12_CTRL3))))"
  by (simp add: ais2dw12_int_notification_set_def store_read store_write ptr_to_def deref_def Let_def)

lemma round_trip_int_notification:
  assumes "header_fits H"
  shows "round_trip (\<lambda>ctx x. ais2dw12_int_notification_set H ctx x js)
           (\<lambda>ctx v. ais2dw12_int_notification_get H ctx v jg) x v0 m"
proof -
  from assms have f: "fits (layout H CTRL3_lir)"
    and l: "labels_ok (lir_val H)
              [AIS2DW12_INT_PULSED, AIS2DW12_INT_LATCHED]
              (mask (snd (layout H CTRL3_lir)))"
    by (simp_all add: header_fits_def)
  have x: "x \<in> set [AIS2DW12_INT_PULSED, AIS2DW12_INT_LATCHED]"
    by (cases x) simp_all
  have "lir_val H x AND mask (snd (layout H CTRL3_lir)) = lir_val H x"
    using l x by (rule label_in_mask)
  with f have "uint (take_bit (snd (layout H CTRL3_lir)) (u8 (lir_val H x))) = lir_val H x"
    by (rule key_single)
  then show ?thesis
    using f
    by (simp add: round_trip_def store_set_int_notification store_get_int_notification fld_get_set
        first_match_label [OF l x] del: first_match.simps)
qed

lemma store_get_pin_mode:
  "ais2dw12_pin_mode_get H (Some register_store) v0 j m =
     (0, first_match (pp_od_val H)
           [AIS2DW12_PUSH_PULL, AIS2DW12_OPEN_DRAIN]
           AIS2DW12_PUSH_PULL
           (uint (fld_get (layout H CTRL3_pp_od) (m (reg_addr H AIS2DW12_CTRL3)))), m)"
  by (simp add: ais2dw12_pin_mode_get_def store_read store_write ptr_to_def deref_def Let_def)

lemma store_set_pin_mode:
  "ais2dw12_pin_mode_set H (Some register_store) x j m =
     (0, m(reg_addr H AIS2DW12_CTRL3 :=
             fld_set (layout H CTRL3_pp_od) (u8 (pp_od_val H x)) (m (reg_addr H AIS2DW12_CTRL3))))"
  by (simp add: ais2dw12_pin_mode_set_def store_read store_write ptr_to_def deref_def Let_def)

lemma round_trip_pin_mode:
  assumes "header_fits H"
  shows "round_trip (\<lambda>ctx x. ais2dw12_pin_mode_set H ctx x js)
           (\<lambda>ctx v. ais2dw12_pin_mode_get H ctx v jg) x v0 m"
proof -
  from assms have f: "fits (layout H CTRL3_pp_od)"
    and l: "labels_ok (pp_od_val H)
              [AIS2DW12_PUSH_PULL, AIS2DW12_OPEN_DRAIN]
              (mask (snd (layout H CTRL3_pp_od)))"
    by (simp_all add: header_fits_def)
  have x: "x \<in> set [AIS2DW12_PUSH_PULL, AIS2DW12_OPEN_DRAIN]"
    by (cases x) simp_all
  have "pp_od_val H x AND mask (snd (layout H CTRL3_pp_od)) = pp_od_val H x"
    using l x by (rule label_in_mask)
  with f have "uint (take_bit (snd (layout H CTRL3_pp_od)) (u8 (pp_od_val H x))) = pp_od_val H x"
    by (rule key_single)
  then show ?thesis
    using f
    by (simp add: round_trip_def store_set_pin_mode store_get_pin_mode fld_get_set
        first_match_label [OF l x] del: first_match.simps)
qed

lemma store_get_wkup_feed_data:
  "ais2dw12_wkup_feed_data_get H (Some register_store) v0 j m =
     (0, first_match (usr_off_on_wu_val H)
           [AIS2DW12_HP_FEED, AIS2DW12_USER_OFFSET_FEED]
           AIS2DW12_HP_FEED
           (uint (fld_get (layout H CTRL7_usr_off_on_wu) (m (reg_addr H AIS2DW12_CTRL7)))), m)"
  by (simp add: ais2dw12_wkup_feed_data_get_def store_read store_write ptr_to_def deref_def Let_def)

lemma store_set_wkup_feed_data:
  "ais2dw12_wkup_feed_data_set H (Some register_store) x j m =
     (0, m(reg_addr H AIS2DW12_CTRL7 :=
             fld_set (layout H CTRL7_usr_off_on_wu) (u8 (usr_off_on_wu_val H x)) (m (reg_addr H AIS2DW12_CTRL7))))"
  by (simp add: ais2dw12_wkup_feed_data_set_def store_read store_write ptr_to_def deref_def Let_def)

lemma round_trip_wkup_feed_data:
  assumes "header_fits H"
  shows "round_trip (\<lambda>ctx x. ais2dw12_wkup_feed_data_set H ctx x js)
           (\<lambda>ctx v. ais2dw12_wkup_feed_data_get H ctx v jg) x v0 m"
proof -
  from assms have f: "fits (layout H CTRL7_usr_off_on_wu)"
    and l: "labels_ok (usr_off_on_wu_val H)
              [AIS2DW12_HP_FEED, AIS2DW12_USER_OFFSET_FEED]
              (mask (snd (layout H CTRL7_usr_off_on_wu)))"
    by (simp_all add: header_fits_def)
  have x: "x \<in> set [AIS2DW12_HP_FEED, AIS2DW12_USER_OFFSET_FEED]"
    by (cases x) simp_all
  have "usr_off_on_wu_val H x AND mask (snd (layout H CTRL7_usr_off_on_wu)) = usr_off_on_wu_val H x"
    using l x by (rule label_in_mask)
  with f have "uint (take_bit (snd (layout H CTRL7_usr_off_on_wu)) (u8 (usr_off_on_wu_val H x))) = usr_off_on_wu_val H x"
    by (rule key_single)
  then show ?thesis
    using f
    by (simp add: round_trip_def store_set_wkup_feed_data store_get_wkup_feed_data fld_get_set
        first_match_label [OF l x] del: first_match.simps)
qed

lemma store_get_6d_feed_data:
  "ais2dw12_6d_feed_data_get H (Some register_store) v0 j m =
     (0, first_match (lpass_on6d_val H)
           [AIS2DW12_ODR_DIV_2_FEED, AIS2DW12_LPF2_FEED]
           AIS2DW12_ODR_DIV_2_FEED
           (uint (fld_get (layout H CTRL7_lpass_on6d) (m (reg_addr H AIS2DW12_CTRL7)))), m)"
  by (simp add: ais2dw12_6d_feed_data_get_def store_read store_write ptr_to_def deref_def Let_def)

lemma store_set_6d_feed_data:
  "ais2dw12_6d_feed_data_set H (Some register_store) x j m =
     (0, m(reg_addr H AIS2DW12_CTRL7 :=
             fld_set (layout H CTRL7_lpass_on6d) (u8 (lpass_on6d_val H x)) (m (reg_addr H AIS2DW12_CTRL7))))"
  by (simp add: ais2dw12_6d_feed_data_set_def store_read store_write ptr_to_def deref_def Let_def)

lemma round_trip_6d_feed_data:
  assumes "header_fits H"
  shows "round_trip (\<lambda>ctx x. ais2dw12_6d_feed_data_set H ctx x js)
           (\<lambda>ctx v. ais2dw12_6d_feed_data_get H ctx v jg) x v0 m"
proof -
  from assms have f: "fits (layout H CTRL7_lpass_on6d)"
    and l: "labels_ok (lpass_on6d_val H)
              [AIS2DW12_ODR_DIV_2_FEED, AIS2DW12_LPF2_FEED]
              (mask (snd (layout H CTRL7_lpass_on6d)))"
    by (simp_all add: header_fits_def)
  have x: "x \<in> set [AIS2DW12_ODR_DIV_2_FEED, AIS2DW12_LPF2_FEED]"
    by (cases x) simp_all
  have "lpass_on6d_val H x AND mask (snd (layout H CTRL7_lpass_on6d)) = lpass_on6d_val H x"
    using l x by (rule label_in_mask)
  with f have "uint (take_bit (snd (layout H CTRL7_lpass_on6d)) (u8 (lpass_on6d_val H x))) = lpass_on6d_val H x"
    by (rule key_single)
  then show ?thesis
    using f
    by (simp add: round_trip_def store_set_6d_feed_data store_get_6d_feed_data fld_get_set
        first_match_label [OF l x] del: first_match.simps)
qed

lemma store_get_ff_threshold:
  "ais2dw12_ff_threshold_get H (Some register_store) v0 j m =
     (0, first_match (ff_ths_val H)
           [AIS2DW12_FF_TSH_5LSb_FS2g, AIS2DW12_FF_TSH_7LSb_FS2g, AIS2DW12_FF_TSH_8LSb_FS2g,
            AIS2DW12_FF_TSH_10LSb_FS2g, AIS2DW12_FF_TSH_11LSb_FS2g, AIS2DW12_FF_TSH_13LSb_FS2g,
            AIS2DW12_FF_TSH_15LSb_FS2g, AIS2DW12_FF_TSH_16LSb_FS2g]
           AIS2DW12_FF_TSH_5LSb_FS2g
           (uint (fld_get (layout H FREE_FALL_ff_ths) (m (reg_addr H AIS2DW12_FREE_FALL)))), m)"
  by (simp add: ais2dw12_ff_threshold_get_def store_read store_write ptr_to_def deref_def Let_def)

lemma store_set_ff_threshold:
  "ais2dw12_ff_threshold_set H (Some register_store) x j m =
     (0, m(reg_addr H AIS2DW12_FREE_FALL :=
             fld_set (layout H FREE_FALL_ff_ths) (u8 (ff_ths_val H x)) (m (reg_addr H AIS2DW12_FREE_FALL))))"
  by (simp add: ais2dw12_ff_threshold_set_def store_read store_write ptr_to_def deref_def Let_def)

lemma round_trip_ff_threshold:
  assumes "header_fits H"
  shows "round_trip (\<lambda>ctx x. ais2dw12_ff_threshold_set H ctx x js)
           (\<lambda>ctx v. ais2dw12_ff_threshold_get H ctx v jg) x v0 m"
proof -
  from assms have f: "fits (layout H FREE_FALL_ff_ths)"
    and l: "labels_ok (ff_ths_val H)
              [AIS2DW12_FF_TSH_5LSb_FS2g, AIS2DW12_FF_TSH_7LSb_FS2g, AIS2DW12_FF_TSH_8LSb_FS2g,
               AIS2DW12_FF_TSH_10LSb_FS2g, AIS2DW12_FF_TSH_11LSb_FS2g,
               AIS2DW12_FF_TSH_13LSb_FS2g, AIS2DW12_FF_TSH_15LSb_FS2g,
               AIS2DW12_FF_TSH_16LSb_FS2g]
              (mask (snd (layout H FREE_FALL_ff_ths)))"
    by (simp_all add: header_fits_def)
  have x: "x \<in> set [AIS2DW12_FF_TSH_5LSb_FS2g, AIS2DW12_FF_TSH_7LSb_FS2g,
                    AIS2DW12_FF_TSH_8LSb_FS2g, AIS2DW12_FF_TSH_10LSb_FS2g,
                    AIS2DW12_FF_TSH_11LSb_FS2g, AIS2DW12_FF_TSH_13LSb_FS2g,
                    AIS2DW12_FF_TSH_15LSb_FS2g, AIS2DW12_FF_TSH_16LSb_FS2g]"
    by (cases x) simp_all
  have "ff_ths_val H x AND mask (snd (layout H FREE_FALL_ff_ths)) = ff_ths_val H x"
    using l x by (rule label_in_mask)
  with f have "uint (take_bit (snd (layout H FREE_FALL_ff_ths)) (u8 (ff_ths_val H x))) = ff_ths_val H x"
    by (rule key_single)
  then show ?thesis
    using f
    by (simp add: round_trip_def store_set_ff_threshold store_get_ff_threshold fld_get_set
        first_match_label [OF l x] del: first_match.simps)
qed

lemma store_get_fifo_mode:
  "ais2dw12_fifo_mode_get H (Some register_store) v0 j m =
     (0, first_match (fmode_val H)
           [AIS2DW12_BYPASS_MODE, AIS2DW12_FIFO_MODE, AIS2DW12_STREAM_TO_FIFO_MODE,
            AIS2DW12_BYPASS_TO_STREAM_MODE, AIS2DW12_STREAM_MODE]
           AIS2DW12_BYPASS_MODE
           (uint (fld_get (layout H FIFO_CTRL_fmode) (m (reg_addr H AIS2DW12_FIFO_CTRL)))), m)"
  by (simp add: ais2dw12_fifo_mode_get_def store_read store_write ptr_to_def deref_def Let_def)

lemma store_set_fifo_mode:
  "ais2dw12_fifo_mode_set H (Some register_store) x j m =
     (0, m(reg_addr H AIS2DW12_FIFO_CTRL :=
             fld_set (layout H FIFO_CTRL_fmode) (u8 (fmode_val H x)) (m (reg_addr H AIS2DW12_FIFO_CTRL))))"
  by (simp add: ais2dw12_fifo_mode_set_def store_read store_write ptr_to_def deref_def Let_def)

lemma round_trip_fifo_mode:
  assumes "header_fits H"
  shows "round_trip (\<lambda>ctx x. ais2dw12_fifo_mode_set H ctx x js)
           (\<lambda>ctx v. ais2dw12_fifo_mode_get H ctx v jg) x v0 m"
proof -
  from assms have f: "fits (layout H FIFO_CTRL_fmode)"
    and l: "labels_ok (fmode_val H)
              [AIS2DW12_BYPASS_MODE, AIS2DW12_FIFO_MODE, AIS2DW12_STREAM_TO_FIFO_MODE,
               AIS2DW12_BYPASS_TO_STREAM_MODE, AIS2DW12_STREAM_MODE]
              (mask (snd (layout H FIFO_CTRL_fmode)))"
    by (simp_all add: header_fits_def)
  have x: "x \<in> set [AIS2DW12_BYPASS_MODE, AIS2DW12_FIFO_MODE, AIS2DW12_STREAM_TO_FIFO_MODE,
                    AIS2DW12_BYPASS_TO_STREAM_MODE, AIS2DW12_STREAM_MODE]"
    by (cases x) simp_all
  have "fmode_val H x AND mask (snd (layout H FIFO_CTRL_fmode)) = fmode_val H x"
    using l x by (rule label_in_mask)
  with f have "uint (take_bit (snd (layout H FIFO_CTRL_fmode)) (u8 (fmode_val H x))) = fmode_val H x"
    by (rule key_single)
  then show ?thesis
    using f
    by (simp add: round_trip_def store_set_fifo_mode store_get_fifo_mode fld_get_set
        first_match_label [OF l x] del: first_match.simps)
qed

lemma store_get_power_mode:
  "ais2dw12_power_mode_get H (Some register_store) v0 j m =
     (0, first_match (mode_val H)
           [AIS2DW12_PWR_MD_4, AIS2DW12_PWR_MD_3, AIS2DW12_PWR_MD_2, AIS2DW12_PWR_MD_12bit,
            AIS2DW12_SINGLE_PWR_MD_4, AIS2DW12_SINGLE_PWR_MD_3, AIS2DW12_SINGLE_PWR_MD_2,
            AIS2DW12_SINGLE_PWR_MD_12bit]
           AIS2DW12_PWR_MD_4
           (push_bit 2 (uint (fld_get (layout H CTRL1_op_mode) (m (reg_addr H AIS2DW12_CTRL1))))
            + uint (fld_get (layout H CTRL1_pw_mode) (m (reg_addr H AIS2DW12_CTRL1)))), m)"
  by (simp add: ais2dw12_power_mode_get_def store_read store_write ptr_to_def deref_def Let_def)

lemma store_get_data_rate:
  "ais2dw12_data_rate_get H (Some register_store) v0 j1 j2 m =
     (0, first_match (odr_val H)
           [AIS2DW12_XL_ODR_OFF, AIS2DW12_XL_ODR_12Hz5, AIS2DW12_XL_ODR_25Hz,
            AIS2DW12_XL_ODR_50Hz, AIS2DW12_XL_ODR_100Hz, AIS2DW12_XL_SET_SW_TRIG,
            AIS2DW12_XL_SET_PIN_TRIG]
           AIS2DW12_XL_ODR_OFF
           (push_bit 4 (uint (fld_get (layout H CTRL3_slp_mode) (m (reg_addr H AIS2DW12_CTRL3))))
            + uint (fld_get (layout H CTRL1_odr) (m (reg_addr H AIS2DW12_CTRL1)))), m)"
  by (simp add: ais2dw12_data_rate_get_def store_read store_write ptr_to_def deref_def Let_def)

lemma store_get_filter_path:
  "ais2dw12_filter_path_get H (Some register_store) v0 j1 j2 m =
     (0, first_match (fds_val H)
           [AIS2DW12_LPF_ON_OUT, AIS2DW12_USER_OFFSET_ON_OUT, AIS2DW12_HIGH_PASS_ON_OUT]
           AIS2DW12_LPF_ON_OUT
           (push_bit 4 (uint (fld_get (layout H CTRL6_fds) (m (reg_addr H AIS2DW12_CTRL6))))
            + uint (fld_get (layout H CTRL7_usr_off_on_out) (m (reg_addr H AIS2DW12_CTRL7)))), m)"
  by (simp add: ais2dw12_filter_path_get_def store_read store_write ptr_to_def deref_def Let_def)

lemma store_get_act_mode:
  "ais2dw12_act_mode_get H (Some register_store) v0 j1 j2 m =
     (0, first_match (sleep_on_val H)
           [AIS2DW12_NO_DETECTION, AIS2DW12_DETECT_ACT_INACT, AIS2DW12_DETECT_STAT_MOTION]
           AIS2DW12_NO_DETECTION
           (push_bit 1 (uint (fld_get (layout H WAKE_UP_DUR_stationary) (m (reg_addr H AIS2DW12_WAKE_UP_DUR))))
            + uint (fld_get (layout H WAKE_UP_THS_sleep_on) (m (reg_addr H AIS2DW12_WAKE_UP_THS)))), m)"
  by (simp add: ais2dw12_act_mode_get_def store_read store_write ptr_to_def deref_def Let_def)



text \<open>The enumeration properties of two bit-fields, set and then read back.\<close>

lemma apart_sym: "apart f g \<Longrightarrow> apart g f"
  by (auto simp add: apart_def)

lemma round_trip_power_mode:
  assumes "header_fits H"
  shows "round_trip (\<lambda>ctx x. ais2dw12_power_mode_set H ctx x js)
           (\<lambda>ctx v. ais2dw12_power_mode_get H ctx v jg) x v0 m"
proof -
  let ?pw = "layout H CTRL1_pw_mode" and ?op = "layout H CTRL1_op_mode"
  let ?v = "u8 (mode_val H x)"
  let ?ms = "[AIS2DW12_PWR_MD_4, AIS2DW12_PWR_MD_3, AIS2DW12_PWR_MD_2, AIS2DW12_PWR_MD_12bit,
     AIS2DW12_SINGLE_PWR_MD_4, AIS2DW12_SINGLE_PWR_MD_3, AIS2DW12_SINGLE_PWR_MD_2,
     AIS2DW12_SINGLE_PWR_MD_12bit]"
  from assms have f: "fits ?pw" "fits ?op" "apart ?op ?pw"
    and w: "2 \<le> snd ?pw" "2 \<le> snd ?op"
    and l: "labels_ok (mode_val H) ?ms 0x0F"
    by (simp_all add: header_fits_def)
  have x: "x \<in> set ?ms"
    by (cases x) simp_all
  have "mode_val H x AND 0x0F = mode_val H x"
    using l x by (rule label_in_mask)
  then have e: "mode_val H x AND mask (2 + 2) = mode_val H x"
    by (simp add: mask_eq_exp_minus_1)
  have key: "push_bit 2 (uint (take_bit (snd ?op) (take_bit 2 (drop_bit 2 ?v))))
               + uint (take_bit (snd ?pw) (take_bit 2 ?v)) = mode_val H x"
    using e w by (intro key_pair) simp_all
  have set: "ais2dw12_power_mode_set H (Some register_store) x js m =
      (0, m(reg_addr H AIS2DW12_CTRL1 :=
             fld_set ?pw (take_bit 2 ?v)
               (fld_set ?op (take_bit 2 (drop_bit 2 ?v)) (m (reg_addr H AIS2DW12_CTRL1)))))"
    by (simp add: ais2dw12_power_mode_set_def store_read store_write ptr_to_def deref_def
        slice_and)
  have "fld_get ?op (fld_set ?pw (take_bit 2 ?v)
               (fld_set ?op (take_bit 2 (drop_bit 2 ?v)) (m (reg_addr H AIS2DW12_CTRL1))))
          = take_bit (snd ?op) (take_bit 2 (drop_bit 2 ?v))"
    using f by (simp only: fld_get_set_other [OF apart_sym] fld_get_set)
  moreover have "fld_get ?pw (fld_set ?pw (take_bit 2 ?v)
               (fld_set ?op (take_bit 2 (drop_bit 2 ?v)) (m (reg_addr H AIS2DW12_CTRL1))))
          = take_bit (snd ?pw) (take_bit 2 ?v)"
    using f by (simp only: fld_get_set)
  ultimately show ?thesis
    by (simp only: round_trip_def set store_get_power_mode Let_def prod.case fun_upd_same key
        first_match_label [OF l x])
qed

lemma round_trip_data_rate:
  assumes "header_fits H"
  shows "round_trip (\<lambda>ctx x. ais2dw12_data_rate_set H ctx x js1 js2)
           (\<lambda>ctx v. ais2dw12_data_rate_get H ctx v jg1 jg2) x v0 m"
proof -
  let ?odr = "layout H CTRL1_odr" and ?slp = "layout H CTRL3_slp_mode"
  let ?a1 = "reg_addr H AIS2DW12_CTRL1" and ?a3 = "reg_addr H AIS2DW12_CTRL3"
  let ?v = "u8 (odr_val H x)"
  let ?ms = "[AIS2DW12_XL_ODR_OFF, AIS2DW12_XL_ODR_12Hz5, AIS2DW12_XL_ODR_25Hz,
     AIS2DW12_XL_ODR_50Hz, AIS2DW12_XL_ODR_100Hz, AIS2DW12_XL_SET_SW_TRIG,
     AIS2DW12_XL_SET_PIN_TRIG]"
  from assms have f: "fits ?odr" "fits ?slp"
    and w: "snd ?odr = 4" "2 \<le> snd ?slp"
    and a: "?a1 \<noteq> ?a3"
    and l: "labels_ok (odr_val H) ?ms 0x3F"
    by (simp_all add: header_fits_def)
  have x: "x \<in> set ?ms"
    by (cases x) simp_all
  have "odr_val H x AND 0x3F = odr_val H x"
    using l x by (rule label_in_mask)
  then have e: "odr_val H x AND mask (4 + 2) = odr_val H x"
    by (simp add: mask_eq_exp_minus_1)
  have "push_bit 4 (uint (take_bit (snd ?slp) (take_bit 2 (drop_bit 4 ?v))))
               + uint (take_bit (snd ?odr) (take_bit 4 ?v)) = odr_val H x"
    using e w by (intro key_pair) simp_all
  then have key: "push_bit 4 (uint (take_bit (snd ?slp) (take_bit 2 (drop_bit 4 ?v))))
               + uint (take_bit (snd ?odr) ?v) = odr_val H x"
    using w by simp
  have set: "ais2dw12_data_rate_set H (Some register_store) x js1 js2 m =
      (0, m(?a1 := fld_set ?odr ?v (m ?a1),
            ?a3 := fld_set ?slp (take_bit 2 (drop_bit 4 ?v)) (m ?a3)))"
    using a
    by (simp add: ais2dw12_data_rate_set_def store_read store_write ptr_to_def deref_def
        slice_and)
  show ?thesis
    using f a
    by (simp only: round_trip_def set store_get_data_rate Let_def prod.case fun_upd_same
        fun_upd_other fld_get_set key first_match_label [OF l x] not_sym simp_thms)
qed

lemma round_trip_filter_path:
  assumes "header_fits H"
  shows "round_trip (\<lambda>ctx x. ais2dw12_filter_path_set H ctx x js1 js2)
           (\<lambda>ctx v. ais2dw12_filter_path_get H ctx v jg1 jg2) x v0 m"
proof -
  let ?fds = "layout H CTRL6_fds" and ?usr = "layout H CTRL7_usr_off_on_out"
  let ?a6 = "reg_addr H AIS2DW12_CTRL6" and ?a7 = "reg_addr H AIS2DW12_CTRL7"
  let ?v = "u8 (fds_val H x)"
  let ?ms = "[AIS2DW12_LPF_ON_OUT, AIS2DW12_USER_OFFSET_ON_OUT, AIS2DW12_HIGH_PASS_ON_OUT]"
  from assms have f: "fits ?fds" "fits ?usr"
    and w: "1 \<le> snd ?fds" "1 \<le> snd ?usr"
    and a: "?a6 \<noteq> ?a7"
    and l: "labels_ok (fds_val H) ?ms 0x11"
    by (simp_all add: header_fits_def)
  have x: "x \<in> set ?ms"
    by (cases x) simp_all
  have e: "fds_val H x AND 0x11 = fds_val H x"
    using l x by (rule label_in_mask)
  have key: "push_bit 4 (uint (take_bit (snd ?fds) (take_bit 1 (drop_bit 4 ?v))))
               + uint (take_bit (snd ?usr) (take_bit 1 ?v)) = fds_val H x"
    using e w by (rule key_bits_4_and_0)
  have set: "ais2dw12_filter_path_set H (Some register_store) x js1 js2 m =
      (0, m(?a6 := fld_set ?fds (take_bit 1 (drop_bit 4 ?v)) (m ?a6),
            ?a7 := fld_set ?usr (take_bit 1 ?v) (m ?a7)))"
    using a
    by (simp only: ais2dw12_filter_path_set_def store_read store_write ptr_to_def deref_def
        slice_and Let_def prod.case fun_upd_same fun_upd_other if_True simp_thms)
  show ?thesis
    using f a
    by (simp only: round_trip_def set store_get_filter_path Let_def prod.case fun_upd_same
        fun_upd_other fld_get_set key first_match_label [OF l x] not_sym simp_thms)
qed

lemma round_trip_act_mode:
  assumes "header_fits H"
  shows "round_trip (\<lambda>ctx x. ais2dw12_act_mode_set H ctx x js1 js2)
           (\<lambda>ctx v. ais2dw12_act_mode_get H ctx v jg1 jg2) x v0 m"
proof -
  let ?on = "layout H WAKE_UP_THS_sleep_on" and ?st = "layout H WAKE_UP_DUR_stationary"
  let ?at = "reg_addr H AIS2DW12_WAKE_UP_THS" and ?ad = "reg_addr H AIS2DW12_WAKE_UP_DUR"
  let ?v = "u8 (sleep_on_val H x)"
  let ?ms = "[AIS2DW12_NO_DETECTION, AIS2DW12_DETECT_ACT_INACT, AIS2DW12_DETECT_STAT_MOTION]"
  from assms have f: "fits ?on" "fits ?st"
    and w: "1 \<le> snd ?on" "1 \<le> snd ?st"
    and a: "?at \<noteq> ?ad"
    and l: "labels_ok (sleep_on_val H) ?ms 0x03"
    by (simp_all add: header_fits_def)
  have x: "x \<in> set ?ms"
    by (cases x) simp_all
  have "sleep_on_val H x AND 0x03 = sleep_on_val H x"
    using l x by (rule label_in_mask)
  then have e: "sleep_on_val H x AND mask (1 + 1) = sleep_on_val H x"
    by (simp add: mask_eq_exp_minus_1)
  have key: "push_bit 1 (uint (take_bit (snd ?st) (take_bit 1 (drop_bit 1 ?v))))
               + uint (take_bit (snd ?on) (take_bit 1 ?v)) = sleep_on_val H x"
    using e w by (intro key_pair) simp_all
  have set: "ais2dw12_act_mode_set H (Some register_store) x js1 js2 m =
      (0, m(?at := fld_set ?on (take_bit 1 ?v) (m ?at),
            ?ad := fld_set ?st (take_bit 1 (drop_bit 1 ?v)) (m ?ad)))"
    using a
    by (simp only: ais2dw12_act_mode_set_def store_read store_write ptr_to_def deref_def
        slice_and Let_def prod.case fun_upd_same fun_upd_other if_True simp_thms)
  show ?thesis
    using f a
    by (simp only: round_trip_def set store_get_act_mode Let_def prod.case fun_upd_same
        fun_upd_other fld_get_set key first_match_label [OF l x] not_sym simp_thms)
qed

section \<open>Transport shim\<close>

text \<open>
  C6. With a \<^verbatim>\<open>NULL\<close> context the shim's read and write return \<open>-1\<close> and leave buffer and
  bus as they were, whatever the register, buffer and length; with a context they are the
  caller's callback applied to the context's handle and to the same register, buffer and
  length, and return what it returns.
\<close>

theorem shim_null_or_forward:
  "ais2dw12_read_reg None reg data len s = (- 1, data, s)
   \<and> sint (fst (ais2dw12_read_reg None reg data len s)) = - 1
   \<and> ais2dw12_write_reg None reg data len s = (- 1, s)
   \<and> sint (fst (ais2dw12_write_reg None reg data len s)) = - 1
   \<and> ais2dw12_read_reg (Some c) reg data len s = read_reg c (handle c) reg data len s
   \<and> ais2dw12_write_reg (Some c) reg data len s = write_reg c (handle c) reg data len s"
  by (simp add: ais2dw12_read_reg_def ais2dw12_write_reg_def)


section \<open>Single-field setters\<close>

text \<open>
  C9. Every setter of a single bit-field is a read-modify-write, on any callbacks and from
  any state: one read of the register; if it fails nothing more; otherwise one write to the
  same register of the byte read with the bits of the field replaced by the argument
  (an enumerator's value, for a setter of an enumeration) and every other bit as read.
  For the block-data-update setter: CTRL2 is written back with only \<open>bdu\<close> replaced.
\<close>

theorem single_field_setters_read_modify_write:
  "writes_back_field (\<lambda>ctx. ais2dw12_block_data_update_set H ctx val) c
     (reg_addr H AIS2DW12_CTRL2) (layout H CTRL2_bdu) val j s tr
   \<and> writes_back_field (\<lambda>ctx. ais2dw12_full_scale_set H ctx val_fs) c
     (reg_addr H AIS2DW12_CTRL6) (layout H CTRL6_fs) (u8 (fs_val H val_fs)) j s tr
   \<and> writes_back_field (\<lambda>ctx. ais2dw12_offset_weight_set H ctx val_usr_off_w) c
     (reg_addr H AIS2DW12_CTRL7) (layout H CTRL7_usr_off_w) (u8 (usr_off_w_val H val_usr_off_w)) j s tr
   \<and> writes_back_field (\<lambda>ctx. ais2dw12_auto_increment_set H ctx val) c
     (reg_addr H AIS2DW12_CTRL2) (layout H CTRL2_if_add_inc) val j s tr
   \<and> writes_back_field (\<lambda>ctx. ais2dw12_reset_set H ctx val) c
     (reg_addr H AIS2DW12_CTRL2) (layout H CTRL2_soft_reset) val j s tr
   \<and> writes_back_field (\<lambda>ctx. ais2dw12_boot_set H ctx val) c
     (reg_addr H AIS2DW12_CTRL2) (layout H CTRL2_boot) val j s tr
   \<and> writes_back_field (\<lambda>ctx. ais2dw12_self_test_set H ctx val_st) c
     (reg_addr H AIS2DW12_CTRL3) (layout H CTRL3_st) (u8 (st_val H val_st)) j s tr
   \<and> writes_back_field (\<lambda>ctx. ais2dw12_data_ready_mode_set H ctx val_drdy_pulsed) c
     (reg_addr H AIS2DW12_CTRL7) (layout H CTRL7_drdy_pulsed) (u8 (drdy_pulsed_val H val_drdy_pulsed)) j s tr
   \<and> writes_back_field (\<lambda>ctx. ais2dw12_filter_bandwidth_set H ctx val_bw_filt) c
     (reg_addr H AIS2DW12_CTRL6) (layout H CTRL6_bw_filt) (u8 (bw_filt_val H val_bw_filt)) j s tr
   \<and> writes_back_field (\<lambda>ctx. ais2dw12_reference_mode_set H ctx val) c
     (reg_addr H AIS2DW12_CTRL7) (layout H CTRL7_hp_ref_mode) val j s tr
   \<and> writes_back_field (\<lambda>ctx. ais2dw12_spi_mode_set H ctx val_sim) c
     (reg_addr H AIS2DW12_CTRL2) (layout H CTRL2_sim) (u8 (sim_val H val_sim)) j s tr
   \<and> writes_back_field (\<lambda>ctx. ais2dw12_i2c_interface_set H ctx val_i2c_disable) c
     (reg_addr H AIS2DW12_CTRL2) (layout H CTRL2_i2c_disable) (u8 (i2c_disable_val H val_i2c_disable)) j s tr
   \<and> writes_back_field (\<lambda>ctx. ais2dw12_cs_mode_set H ctx val_cs_pu_disc) c
     (reg_addr H AIS2DW12_CTRL2) (layout H CTRL2_cs_pu_disc) (u8 (cs_pu_disc_val H val_cs_pu_disc)) j s tr
   \<and> writes_back_field (\<lambda>ctx. ais2dw12_pin_polarity_set H ctx val_h_lactive) c
     (reg_addr H AIS2DW12_CTRL3) (layout H CTRL3_h_lactive) (u8 (h_lactive_val H val_h_lactive)) j s tr
   \<and> writes_back_field (\<lambda>ctx. ais2dw12_int_notification_set H ctx val_lir) c
     (reg_addr H AIS2DW12_CTRL3) (layout H CTRL3_lir) (u8 (lir_val H val_lir)) j s tr
   \<and> writes_back_field (\<lambda>ctx. ais2dw12_pin_mode_set H ctx val_pp_od) c
     (reg_addr H AIS2DW12_CTRL3) (layout H CTRL3_pp_od) (u8 (pp_od_val H val_pp_od)) j s tr
   \<and> writes_back_field (\<lambda>ctx. ais2dw12_all_on_int1_set H ctx val) c
     (reg_addr H AIS2DW12_CTRL7) (layout H CTRL7_int2_on_int1) val j s tr
   \<and> writes_back_field (\<lambda>ctx. ais2dw12_wkup_threshold_set H ctx val) c
     (reg_addr H AIS2DW12_WAKE_UP_THS) (layout H WAKE_UP_THS_wk_ths) val j s tr
   \<and> writes_back_field (\<lambda>ctx. ais2dw12_wkup_dur_set H ctx val) c
     (reg_addr H AIS2DW12_WAKE_UP_DUR) (layout H WAKE_UP_DUR_wake_dur) val j s tr
   \<and> writes_back_field (\<lambda>ctx. ais2dw12_wkup_feed_data_set H ctx val_usr_off_on_wu) c
     (reg_addr H AIS2DW12_CTRL7) (layout H CTRL7_usr_off_on_wu) (u8 (usr_off_on_wu_val H val_usr_off_on_wu)) j s tr
   \<and> writes_back_field (\<lambda>ctx. ais2dw12_act_sleep_dur_set H ctx val) c
     (reg_addr H AIS2DW12_WAKE_UP_DUR) (layout H WAKE_UP_DUR_sleep_dur) val j s tr
   \<and> writes_back_field (\<lambda>ctx. ais2dw12_6d_threshold_set H ctx val) c
     (reg_addr H AIS2DW12_SIXD_THS) (layout H SIXD_THS_6d_ths) val j s tr
   \<and> writes_back_field (\<lambda>ctx. ais2dw12_4d_mode_set H ctx val) c
     (reg_addr H AIS2DW12_SIXD_THS) (layout H SIXD_THS_4d_en) val j s tr
   \<and> writes_back_field (\<lambda>ctx. ais2dw12_6d_feed_data_set H ctx val_lpass_on6d) c
     (reg_addr H AIS2DW12_CTRL7) (layout H CTRL7_lpass_on6d) (u8 (lpass_on6d_val H val_lpass_on6d)) j s tr
   \<and> writes_back_field (\<lambda>ctx. ais2dw12_ff_threshold_set H ctx val_ff_ths) c
     (reg_addr H AIS2DW12_FREE_FALL) (layout H FREE_FALL_ff_ths) (u8 (ff_ths_val H val_ff_ths)) j s tr
   \<and> writes_back_field (\<lambda>ctx. ais2dw12_fifo_watermark_set H ctx val) c
     (reg_addr H AIS2DW12_FIFO_CTRL) (layout H FIFO_CTRL_fth) val j s tr
   \<and> writes_back_field (\<lambda>ctx. ais2dw12_fifo_mode_set H ctx val_fmode) c
     (reg_addr H AIS2DW12_FIFO_CTRL) (layout H FIFO_CTRL_fmode) (u8 (fmode_val H val_fmode)) j s tr"
  by (intro conjI; rule rmw_shape; simp add:
      ais2dw12_block_data_update_set_def ais2dw12_full_scale_set_def
      ais2dw12_offset_weight_set_def ais2dw12_auto_increment_set_def ais2dw12_reset_set_def
      ais2dw12_boot_set_def ais2dw12_self_test_set_def ais2dw12_data_ready_mode_set_def
      ais2dw12_filter_bandwidth_set_def ais2dw12_reference_mode_set_def
      ais2dw12_spi_mode_set_def ais2dw12_i2c_interface_set_def ais2dw12_cs_mode_set_def
      ais2dw12_pin_polarity_set_def ais2dw12_int_notification_set_def ais2dw12_pin_mode_set_def
      ais2dw12_all_on_int1_set_def ais2dw12_wkup_threshold_set_def ais2dw12_wkup_dur_set_def
      ais2dw12_wkup_feed_data_set_def ais2dw12_act_sleep_dur_set_def
      ais2dw12_6d_threshold_set_def ais2dw12_4d_mode_set_def ais2dw12_6d_feed_data_set_def
      ais2dw12_ff_threshold_set_def ais2dw12_fifo_watermark_set_def ais2dw12_fifo_mode_set_def)


text \<open>
  With the example header, where \<open>bdu\<close> is bit 3 of CTRL2 (at 0x21): setting it to 1 on a store
  that holds 0xF5 there reads 0xF5 and writes 0xFD.
\<close>

theorem single_field_setters_read_modify_write_witness:
  "fst (ais2dw12_block_data_update_set ais2dw12_h (Some (recording register_store)) 1 0
      (zero_store(0x21 := 0xF5), [])) = 0
   \<and> snd (snd (ais2dw12_block_data_update_set ais2dw12_h (Some (recording register_store)) 1 0
      (zero_store(0x21 := 0xF5), [])))
     = [Bus_read 0x21 1, Bus_write 0x21 [0xFD]]"
  using single_field_setters_read_modify_write
    [where H = ais2dw12_h and val = 1 and j = 0 and c = register_store
       and s = "zero_store(0x21 := 0xF5)" and tr = "[]"]
  by (simp add: writes_back_field_def store_read_cb store_write_cb ais2dw12_h_def
      fld_set_def ptr_to_def)


section \<open>Composite operations\<close>

text \<open>
  Each composite operation is proved on its own to stop at a failing first read.
\<close>

lemma stops_data_rate_set:
  "set_stops_at_first_read (\<lambda>ctx. ais2dw12_data_rate_set H ctx val_odr j1 j2) c
     (reg_addr H AIS2DW12_CTRL1) j1 s tr"
  by (simp add: ais2dw12_data_rate_set_def set_stops_at_first_read_def get_stops_at_first_read_def read_recording read_null Let_def split_beta)

lemma stops_filter_path_set:
  "set_stops_at_first_read (\<lambda>ctx. ais2dw12_filter_path_set H ctx val_fds j1 j2) c
     (reg_addr H AIS2DW12_CTRL6) j1 s tr"
  by (simp add: ais2dw12_filter_path_set_def set_stops_at_first_read_def get_stops_at_first_read_def read_recording read_null Let_def split_beta)

lemma stops_pin_int1_route_set:
  "set_stops_at_first_read (\<lambda>ctx. ais2dw12_pin_int1_route_set H ctx val j1 j2) c
     (reg_addr H AIS2DW12_CTRL5_INT2) j1 s tr"
  by (simp add: ais2dw12_pin_int1_route_set_def set_stops_at_first_read_def get_stops_at_first_read_def read_recording read_null Let_def split_beta)

lemma stops_pin_int2_route_set:
  "set_stops_at_first_read (\<lambda>ctx. ais2dw12_pin_int2_route_set H ctx val j1 j2) c
     (reg_addr H AIS2DW12_CTRL4_INT1) j1 s tr"
  by (simp add: ais2dw12_pin_int2_route_set_def set_stops_at_first_read_def get_stops_at_first_read_def read_recording read_null Let_def split_beta)

lemma stops_act_mode_set:
  "set_stops_at_first_read (\<lambda>ctx. ais2dw12_act_mode_set H ctx val_sleep_on j1 j2) c
     (reg_addr H AIS2DW12_WAKE_UP_THS) j1 s tr"
  by (simp add: ais2dw12_act_mode_set_def set_stops_at_first_read_def get_stops_at_first_read_def read_recording read_null Let_def split_beta)

lemma stops_ff_dur_set:
  "set_stops_at_first_read (\<lambda>ctx. ais2dw12_ff_dur_set H ctx val j1 j2) c
     (reg_addr H AIS2DW12_WAKE_UP_DUR) j1 s tr"
  by (simp add: ais2dw12_ff_dur_set_def set_stops_at_first_read_def get_stops_at_first_read_def read_recording read_null Let_def split_beta)

lemma stops_data_rate_get:
  "get_stops_at_first_read (\<lambda>ctx val. ais2dw12_data_rate_get H ctx val j1 j2) c
     (reg_addr H AIS2DW12_CTRL1) j1 val_odr s tr"
  by (simp add: ais2dw12_data_rate_get_def set_stops_at_first_read_def get_stops_at_first_read_def read_recording read_null Let_def split_beta)

lemma stops_filter_path_get:
  "get_stops_at_first_read (\<lambda>ctx val. ais2dw12_filter_path_get H ctx val j1 j2) c
     (reg_addr H AIS2DW12_CTRL6) j1 val_fds s tr"
  by (simp add: ais2dw12_filter_path_get_def set_stops_at_first_read_def get_stops_at_first_read_def read_recording read_null Let_def split_beta)

lemma stops_act_mode_get:
  "get_stops_at_first_read (\<lambda>ctx val. ais2dw12_act_mode_get H ctx val j1 j2) c
     (reg_addr H AIS2DW12_WAKE_UP_THS) j1 val_sleep_on s tr"
  by (simp add: ais2dw12_act_mode_get_def set_stops_at_first_read_def get_stops_at_first_read_def read_recording read_null Let_def split_beta)

lemma stops_ff_dur_get:
  "get_stops_at_first_read (\<lambda>ctx val. ais2dw12_ff_dur_get H ctx val j1 j2) c
     (reg_addr H AIS2DW12_WAKE_UP_DUR) j1 val s tr"
  by (simp add: ais2dw12_ff_dur_get_def set_stops_at_first_read_def get_stops_at_first_read_def read_recording read_null Let_def split_beta)


text \<open>
  C2. Every operation on two or three registers (the setters and getters of data rate, filter
  path, activity mode and free-fall duration, and the two pin-routing setters) stops at its
  first read: when that read returns a status other than 0, on any callbacks and from any
  state, the bus sees this one read and no other access, no write among them, and the
  operation returns the read's status. A \<^verbatim>\<open>NULL\<close> context makes that status \<open>-1\<close>.
\<close>

theorem composite_first_read_failure_short_circuits:
  "set_stops_at_first_read (\<lambda>ctx. ais2dw12_data_rate_set H ctx val_odr j1 j2) c
     (reg_addr H AIS2DW12_CTRL1) j1 s tr
   \<and> set_stops_at_first_read (\<lambda>ctx. ais2dw12_filter_path_set H ctx val_fds j1 j2) c
     (reg_addr H AIS2DW12_CTRL6) j1 s tr
   \<and> set_stops_at_first_read (\<lambda>ctx. ais2dw12_pin_int1_route_set H ctx val j1 j2) c
     (reg_addr H AIS2DW12_CTRL5_INT2) j1 s tr
   \<and> set_stops_at_first_read (\<lambda>ctx. ais2dw12_pin_int2_route_set H ctx val j1 j2) c
     (reg_addr H AIS2DW12_CTRL4_INT1) j1 s tr
   \<and> set_stops_at_first_read (\<lambda>ctx. ais2dw12_act_mode_set H ctx val_sleep_on j1 j2) c
     (reg_addr H AIS2DW12_WAKE_UP_THS) j1 s tr
   \<and> set_stops_at_first_read (\<lambda>ctx. ais2dw12_ff_dur_set H ctx val j1 j2) c
     (reg_addr H AIS2DW12_WAKE_UP_DUR) j1 s tr
   \<and> get_stops_at_first_read (\<lambda>ctx val. ais2dw12_data_rate_get H ctx val j1 j2) c
     (reg_addr H AIS2DW12_CTRL1) j1 val_odr s tr
   \<and> get_stops_at_first_read (\<lambda>ctx val. ais2dw12_filter_path_get H ctx val j1 j2) c
     (reg_addr H AIS2DW12_CTRL6) j1 val_fds s tr
   \<and> get_stops_at_first_read (\<lambda>ctx val. ais2dw12_act_mode_get H ctx val j1 j2) c
     (reg_addr H AIS2DW12_WAKE_UP_THS) j1 val_sleep_on s tr
   \<and> get_stops_at_first_read (\<lambda>ctx val. ais2dw12_ff_dur_get H ctx val j1 j2) c
     (reg_addr H AIS2DW12_WAKE_UP_DUR) j1 val s tr"
  by (intro conjI stops_data_rate_set stops_filter_path_set stops_pin_int1_route_set
      stops_pin_int2_route_set stops_act_mode_set stops_ff_dur_set stops_data_rate_get
      stops_filter_path_get stops_act_mode_get stops_ff_dur_get)


text \<open>
  The data rate setter on a store whose first access fails with status 5: the call returns
  5 after the one read of CTRL1, and the store is as before.
\<close>

theorem composite_first_read_failure_short_circuits_witness:
  "fst (read_reg scripted_store () (reg_addr ais2dw12_h AIS2DW12_CTRL1) (ptr_to 0) 1
      ([5], zero_store)) \<noteq> 0
   \<and> ais2dw12_data_rate_set ais2dw12_h (Some (recording scripted_store)) AIS2DW12_XL_ODR_50Hz
       0 0 (([5], zero_store), [])
     = (5, (([], zero_store), [Bus_read 0x20 1]))"
  using composite_first_read_failure_short_circuits
    [where H = ais2dw12_h and val_odr = AIS2DW12_XL_ODR_50Hz and ?j1.0 = 0 and ?j2.0 = 0
       and c = scripted_store and s = "([5], zero_store)" and tr = "[]"]
  by (simp add: set_stops_at_first_read_def scripted_store_def ais2dw12_h_def)


section \<open>What a getter leaves in its output parameter\<close>

text \<open>
  C10. The getters of data rate, filter path and activity mode, when their first read returns
  a status other than 0, return that status after this one read, without a second read, and
  leave \<^verbatim>\<open>*val\<close> as the caller had it. A getter of a single bit-field, the block-data-update
  getter among them, assigns \<^verbatim>\<open>*val\<close> after its read whatever the status: the field of the
  byte its local structure then holds.
\<close>

theorem composite_getters_keep_val_on_failure:
  "get_stops_at_first_read (\<lambda>ctx val. ais2dw12_data_rate_get H ctx val j1 j2) c
     (reg_addr H AIS2DW12_CTRL1) j1 val_odr s tr
   \<and> get_stops_at_first_read (\<lambda>ctx val. ais2dw12_filter_path_get H ctx val j1 j2) c
     (reg_addr H AIS2DW12_CTRL6) j1 val_fds s tr
   \<and> get_stops_at_first_read (\<lambda>ctx val. ais2dw12_act_mode_get H ctx val j1 j2) c
     (reg_addr H AIS2DW12_WAKE_UP_THS) j1 val_sleep_on s tr
   \<and> get_assigns_always (\<lambda>ctx val. ais2dw12_block_data_update_get H ctx val j) c
     (reg_addr H AIS2DW12_CTRL2) (layout H CTRL2_bdu) j val s tr
   \<and> get_assigns_always (\<lambda>ctx val. ais2dw12_flag_data_ready_get H ctx val j) c
     (reg_addr H AIS2DW12_STATUS) (layout H STATUS_drdy) j val s tr
   \<and> get_assigns_always (\<lambda>ctx val. ais2dw12_auto_increment_get H ctx val j) c
     (reg_addr H AIS2DW12_CTRL2) (layout H CTRL2_if_add_inc) j val s tr
   \<and> get_assigns_always (\<lambda>ctx val. ais2dw12_reset_get H ctx val j) c
     (reg_addr H AIS2DW12_CTRL2) (layout H CTRL2_soft_reset) j val s tr
   \<and> get_assigns_always (\<lambda>ctx val. ais2dw12_boot_get H ctx val j) c
     (reg_addr H AIS2DW12_CTRL2) (layout H CTRL2_boot) j val s tr
   \<and> get_assigns_always (\<lambda>ctx val. ais2dw12_reference_mode_get H ctx val j) c
     (reg_addr H AIS2DW12_CTRL7) (layout H CTRL7_hp_ref_mode) j val s tr
   \<and> get_assigns_always (\<lambda>ctx val. ais2dw12_all_on_int1_get H ctx val j) c
     (reg_addr H AIS2DW12_CTRL7) (layout H CTRL7_int2_on_int1) j val s tr
   \<and> get_assigns_always (\<lambda>ctx val. ais2dw12_wkup_threshold_get H ctx val j) c
     (reg_addr H AIS2DW12_WAKE_UP_THS) (layout H WAKE_UP_THS_wk_ths) j val s tr
   \<and> get_assigns_always (\<lambda>ctx val. ais2dw12_wkup_dur_get H ctx val j) c
     (reg_addr H AIS2DW12_WAKE_UP_DUR) (layout H WAKE_UP_DUR_wake_dur) j val s tr
   \<and> get_assigns_always (\<lambda>ctx val. ais2dw12_act_sleep_dur_get H ctx val j) c
     (reg_addr H AIS2DW12_WAKE_UP_DUR) (layout H WAKE_UP_DUR_sleep_dur) j val s tr
   \<and> get_assigns_always (\<lambda>ctx val. ais2dw12_6d_threshold_get H ctx val j) c
     (reg_addr H AIS2DW12_SIXD_THS) (layout H SIXD_THS_6d_ths) j val s tr
   \<and> get_assigns_always (\<lambda>ctx val. ais2dw12_4d_mode_get H ctx val j) c
     (reg_addr H AIS2DW12_SIXD_THS) (layout H SIXD_THS_4d_en) j val s tr
   \<and> get_assigns_always (\<lambda>ctx val. ais2dw12_fifo_watermark_get H ctx val j) c
     (reg_addr H AIS2DW12_FIFO_CTRL) (layout H FIFO_CTRL_fth) j val s tr
   \<and> get_assigns_always (\<lambda>ctx val. ais2dw12_fifo_data_level_get H ctx val j) c
     (reg_addr H AIS2DW12_FIFO_SAMPLES) (layout H FIFO_SAMPLES_diff) j val s tr
   \<and> get_assigns_always (\<lambda>ctx val. ais2dw12_fifo_ovr_flag_get H ctx val j) c
     (reg_addr H AIS2DW12_FIFO_SAMPLES) (layout H FIFO_SAMPLES_fifo_ovr) j val s tr
   \<and> get_assigns_always (\<lambda>ctx val. ais2dw12_fifo_wtm_flag_get H ctx val j) c
     (reg_addr H AIS2DW12_FIFO_SAMPLES) (layout H FIFO_SAMPLES_fifo_fth) j val s tr"
  by (intro conjI stops_data_rate_get stops_filter_path_get stops_act_mode_get;
      rule get_shape; simp add:
      ais2dw12_block_data_update_get_def ais2dw12_flag_data_ready_get_def
      ais2dw12_auto_increment_get_def ais2dw12_reset_get_def ais2dw12_boot_get_def
      ais2dw12_reference_mode_get_def ais2dw12_all_on_int1_get_def
      ais2dw12_wkup_threshold_get_def ais2dw12_wkup_dur_get_def ais2dw12_act_sleep_dur_get_def
      ais2dw12_6d_threshold_get_def ais2dw12_4d_mode_get_def ais2dw12_fifo_watermark_get_def
      ais2dw12_fifo_data_level_get_def ais2dw12_fifo_ovr_flag_get_def
      ais2dw12_fifo_wtm_flag_get_def)

text \<open>
  On a store whose first access fails with status 7: the data rate getter returns 7 and
  \<^verbatim>\<open>*val\<close> is still the 100 Hz member the caller had there; the block-data-update getter
  returns 7 too, and has overwritten the caller's 0 with the \<open>bdu\<close> bit of what its local
  structure held, here 1.
\<close>

theorem composite_getters_keep_val_on_failure_witness:
  "fst (read_reg scripted_store () (reg_addr ais2dw12_h AIS2DW12_CTRL1) (ptr_to 0) 1
      ([7], zero_store)) \<noteq> 0
   \<and> ais2dw12_data_rate_get ais2dw12_h (Some (recording scripted_store)) AIS2DW12_XL_ODR_100Hz
       0 0 (([7], zero_store), [])
     = (7, AIS2DW12_XL_ODR_100Hz, (([], zero_store), [Bus_read 0x20 1]))
   \<and> ais2dw12_block_data_update_get ais2dw12_h (Some (recording scripted_store)) 0 0x08
       (([7], zero_store), [])
     = (7, 1, (([], zero_store), [Bus_read 0x21 1]))"
  using composite_getters_keep_val_on_failure
    [where H = ais2dw12_h and ?j1.0 = 0 and ?j2.0 = 0 and c = scripted_store
       and val_odr = AIS2DW12_XL_ODR_100Hz and s = "([7], zero_store)" and tr = "[]"
       and j = 8 and val = 0]
  by (simp add: get_stops_at_first_read_def get_assigns_always_def scripted_store_def
      ais2dw12_h_def ptr_to_def fld_get_def)


section \<open>The order of the accesses of a setter on two registers\<close>

lemma order_data_rate_set:
  "read_write_read_write (\<lambda>ctx. ais2dw12_data_rate_set H ctx val_odr j1 j2) c
       (reg_addr H AIS2DW12_CTRL1) (layout H CTRL1_odr)
       (u8 (odr_val H val_odr)) j1
       (reg_addr H AIS2DW12_CTRL3) (layout H CTRL3_slp_mode)
       (drop_bit 4 (u8 (odr_val H val_odr) AND 0x30)) j2 s tr"
  by (simp add: read_write_read_write_def ais2dw12_data_rate_set_def
      read_recording write_recording fld_set_frame fld_set_field ptr_to_def
      deref_def Let_def split_beta)

lemma order_filter_path_set:
  "read_write_read_write (\<lambda>ctx. ais2dw12_filter_path_set H ctx val_fds j1 j2) c
       (reg_addr H AIS2DW12_CTRL6) (layout H CTRL6_fds)
       (drop_bit 4 (u8 (fds_val H val_fds) AND 0x10)) j1
       (reg_addr H AIS2DW12_CTRL7) (layout H CTRL7_usr_off_on_out)
       (u8 (fds_val H val_fds) AND 0x01) j2 s tr"
  by (simp add: read_write_read_write_def ais2dw12_filter_path_set_def
      read_recording write_recording fld_set_frame fld_set_field ptr_to_def
      deref_def Let_def split_beta)

lemma order_act_mode_set:
  "read_read_write_write (\<lambda>ctx. ais2dw12_act_mode_set H ctx val_sleep_on j1 j2) c
       (reg_addr H AIS2DW12_WAKE_UP_THS) (layout H WAKE_UP_THS_sleep_on)
       (u8 (sleep_on_val H val_sleep_on) AND 0x01) j1
       (reg_addr H AIS2DW12_WAKE_UP_DUR) (layout H WAKE_UP_DUR_stationary)
       (drop_bit 1 (u8 (sleep_on_val H val_sleep_on) AND 0x02)) j2 s tr"
  by (simp add: read_read_write_write_def ais2dw12_act_mode_set_def
      read_recording write_recording fld_set_frame fld_set_field ptr_to_def
      deref_def Let_def split_beta)

lemma order_ff_dur_set:
  "read_read_write_write (\<lambda>ctx. ais2dw12_ff_dur_set H ctx val j1 j2) c
       (reg_addr H AIS2DW12_WAKE_UP_DUR) (layout H WAKE_UP_DUR_ff_dur)
       (drop_bit 5 (val AND 0x20)) j1
       (reg_addr H AIS2DW12_FREE_FALL) (layout H FREE_FALL_ff_dur)
       (val AND 0x1F) j2 s tr"
  by (simp add: read_read_write_write_def ais2dw12_ff_dur_set_def
      read_recording write_recording fld_set_frame fld_set_field ptr_to_def
      deref_def Let_def split_beta)

lemma reads_first_act_mode_set:
  "reads_before_writes (call_trace (\<lambda>ctx. ais2dw12_act_mode_set H ctx val_sleep_on j1 j2) c s)"
  by (simp add: ais2dw12_act_mode_set_def call_trace_def
      read_recording write_recording fld_set_frame fld_set_field ptr_to_def
      deref_def Let_def split_beta)

lemma reads_first_ff_dur_set:
  "reads_before_writes (call_trace (\<lambda>ctx. ais2dw12_ff_dur_set H ctx val j1 j2) c s)"
  by (simp add: ais2dw12_ff_dur_set_def call_trace_def
      read_recording write_recording fld_set_frame fld_set_field ptr_to_def
      deref_def Let_def split_beta)


text \<open>
  C1, as the code has it. Each of the four setters of a property on two registers (data
  rate, filter path, activity mode, free-fall duration) makes single-byte accesses to its
  two registers in one fixed order, on any callbacks: each access is made only if every
  earlier one returned 0, and the call returns the status of the last access it made.
  So an access that fails is the last, and both writes are made exactly when the first
  three accesses return 0. Each register is read before it is written, the byte written
  is the byte read with the bit-field of the property replaced, and the first register is
  written before the second. The setters of activity mode and of free-fall duration read
  both registers before they write either. The setters of data rate and of filter path
  read and write the first register, and only then read and write the second.
\<close>

theorem composite_setters_access_order:
  "read_write_read_write (\<lambda>ctx. ais2dw12_data_rate_set H ctx val_odr j1 j2) c
       (reg_addr H AIS2DW12_CTRL1) (layout H CTRL1_odr)
       (u8 (odr_val H val_odr)) j1
       (reg_addr H AIS2DW12_CTRL3) (layout H CTRL3_slp_mode)
       (drop_bit 4 (u8 (odr_val H val_odr) AND 0x30)) j2 s tr
   \<and> read_write_read_write (\<lambda>ctx. ais2dw12_filter_path_set H ctx val_fds j1 j2) c
       (reg_addr H AIS2DW12_CTRL6) (layout H CTRL6_fds)
       (drop_bit 4 (u8 (fds_val H val_fds) AND 0x10)) j1
       (reg_addr H AIS2DW12_CTRL7) (layout H CTRL7_usr_off_on_out)
       (u8 (fds_val H val_fds) AND 0x01) j2 s tr
   \<and> read_read_write_write (\<lambda>ctx. ais2dw12_act_mode_set H ctx val_sleep_on j1 j2) c
       (reg_addr H AIS2DW12_WAKE_UP_THS) (layout H WAKE_UP_THS_sleep_on)
       (u8 (sleep_on_val H val_sleep_on) AND 0x01) j1
       (reg_addr H AIS2DW12_WAKE_UP_DUR) (layout H WAKE_UP_DUR_stationary)
       (drop_bit 1 (u8 (sleep_on_val H val_sleep_on) AND 0x02)) j2 s tr
   \<and> read_read_write_write (\<lambda>ctx. ais2dw12_ff_dur_set H ctx val j1 j2) c
       (reg_addr H AIS2DW12_WAKE_UP_DUR) (layout H WAKE_UP_DUR_ff_dur)
       (drop_bit 5 (val AND 0x20)) j1
       (reg_addr H AIS2DW12_FREE_FALL) (layout H FREE_FALL_ff_dur)
       (val AND 0x1F) j2 s tr
   \<and> reads_before_writes (call_trace (\<lambda>ctx. ais2dw12_act_mode_set H ctx val_sleep_on j1 j2) c s)
   \<and> reads_before_writes (call_trace (\<lambda>ctx. ais2dw12_ff_dur_set H ctx val j1 j2) c s)"
  by (intro conjI order_data_rate_set order_filter_path_set order_act_mode_set order_ff_dur_set
      reads_first_act_mode_set reads_first_ff_dur_set)


text \<open>
  With the example header, on a store whose second access fails with status 5. The data
  rate setter reads CTRL1, tries the write of CTRL1 and stops there: it returns 5, the
  store is as before, and CTRL3 is neither read nor written. The activity mode setter
  reads WAKE_UP_THS, tries the read of WAKE_UP_DUR and stops there: it returns 5 and has
  written nothing.
\<close>

theorem composite_setters_access_order_witness:
  "ais2dw12_data_rate_set ais2dw12_h (Some (recording scripted_store))
       AIS2DW12_XL_SET_SW_TRIG 0 0 (([0, 5], zero_store), [])
     = (5, (([], zero_store), [Bus_read 0x20 1, Bus_write 0x20 [0x20]]))
   \<and> ais2dw12_act_mode_set ais2dw12_h (Some (recording scripted_store))
       AIS2DW12_DETECT_STAT_MOTION 0 0 (([0, 5], zero_store), [])
     = (5, (([], zero_store), [Bus_read 0x34 1, Bus_read 0x35 1]))"
  using composite_setters_access_order
    [where H = ais2dw12_h and val_odr = AIS2DW12_XL_SET_SW_TRIG
       and val_fds = AIS2DW12_LPF_ON_OUT and val_sleep_on = AIS2DW12_DETECT_STAT_MOTION
       and val = 0 and ?j1.0 = 0 and ?j2.0 = 0 and c = scripted_store
       and s = "([0, 5], zero_store)" and tr = "[]"]
  by (simp add: read_write_read_write_def read_read_write_write_def scripted_store_def
      register_store_def zero_store_def ais2dw12_h_def ptr_to_def fld_set_def u8_def)

text \<open>
  C1 as stated fails in two places. With the example header, on the register store, the
  data rate setter writes CTRL1 before it reads CTRL3: a write comes before a read. And on
  a store whose third access fails with status 5, the activity mode setter has read both
  registers with success when its write of WAKE_UP_THS fails, and it makes no second
  write: the trace holds one write, not two.
\<close>

theorem data_rate_set_writes_before_second_read:
  "snd (snd (ais2dw12_data_rate_set ais2dw12_h (Some (recording register_store))
      AIS2DW12_XL_SET_SW_TRIG 0 0 (zero_store, [])))
     = [Bus_read 0x20 1, Bus_write 0x20 [0x20], Bus_read 0x22 1, Bus_write 0x22 [0x01]]
   \<and> \<not> reads_before_writes
       (snd (snd (ais2dw12_data_rate_set ais2dw12_h (Some (recording register_store))
          AIS2DW12_XL_SET_SW_TRIG 0 0 (zero_store, []))))
   \<and> ais2dw12_act_mode_set ais2dw12_h (Some (recording scripted_store))
       AIS2DW12_DETECT_STAT_MOTION 0 0 (([0, 0, 5], zero_store), [])
     = (5, (([], zero_store), [Bus_read 0x34 1, Bus_read 0x35 1, Bus_write 0x34 [0x40]]))
   \<and> length (filter is_write
       (snd (snd (ais2dw12_act_mode_set ais2dw12_h (Some (recording scripted_store))
          AIS2DW12_DETECT_STAT_MOTION 0 0 (([0, 0, 5], zero_store), []))))) = 1"
  by (simp add: ais2dw12_data_rate_set_def ais2dw12_act_mode_set_def read_recording
      write_recording register_store_def scripted_store_def zero_store_def ais2dw12_h_def
      ptr_to_def deref_def fld_set_def u8_def)


section \<open>Interrupt pin routing\<close>

text \<open>
  C3. On a register store, with \<^verbatim>\<open>PROPERTY_ENABLE\<close> 1 and \<^verbatim>\<open>PROPERTY_DISABLE\<close> 0 and the
  interrupts-enable flag a bit-field within CTRL7: setting the pin-1 routing reads the
  pin-2 routing register first, then CTRL7, writes the new pin-1 routing, and writes CTRL7
  with the interrupts-enable flag 1 when the OR of the free-fall, wake-up and 6D flags of
  the routing being set with the stored sleep-state and sleep-change flags of pin 2 is not
  0, and 0 when it is 0; the other bits of CTRL7 are written as read. Setting the pin-2
  routing does the same with the pins exchanged: the three pin-1 flags are the stored ones,
  the two pin-2 flags those being set.
\<close>

theorem pin_route_set_recomputes_interrupts_enable:
  assumes "PROPERTY_ENABLE H = 1" and "PROPERTY_DISABLE H = 0"
    and "fits (layout H CTRL7_interrupts_enable)"
    and "0 < snd (layout H CTRL7_interrupts_enable)"
  shows
    "sets_interrupts_enable H (\<lambda>ctx. ais2dw12_pin_int1_route_set H ctx val j1 j2)
       AIS2DW12_CTRL5_INT2 AIS2DW12_CTRL4_INT1 val
       (routed_flags H val (m (reg_addr H AIS2DW12_CTRL5_INT2))) m tr
     \<and> sets_interrupts_enable H (\<lambda>ctx. ais2dw12_pin_int2_route_set H ctx val j1 j2)
       AIS2DW12_CTRL4_INT1 AIS2DW12_CTRL5_INT2 val
       (routed_flags H (m (reg_addr H AIS2DW12_CTRL4_INT1)) val) m tr"
  using assms
  by (simp add: sets_interrupts_enable_def ais2dw12_pin_int1_route_set_def
      ais2dw12_pin_int2_route_set_def read_recording write_recording store_read_cb
      store_write_cb routed_flags_def ptr_to_def deref_def fld_get_set fld_set_frame Let_def)

text \<open>
  With the example header: pin 2 has sleep change routed (bit 6 of its register, at 0x24)
  and the pin-1 routing being set is 0; CTRL7 held 0 and is written as 0x20, the
  interrupts-enable flag alone.
\<close>

theorem pin_route_set_recomputes_interrupts_enable_witness:
  "PROPERTY_ENABLE ais2dw12_h = 1 \<and> PROPERTY_DISABLE ais2dw12_h = 0
   \<and> fits (layout ais2dw12_h CTRL7_interrupts_enable)
   \<and> 0 < snd (layout ais2dw12_h CTRL7_interrupts_enable)
   \<and> snd (snd (ais2dw12_pin_int1_route_set ais2dw12_h (Some (recording register_store)) 0 0 0
         (zero_store(0x24 := 0x40), [])))
       = [Bus_read 0x24 1, Bus_read 0x3F 1, Bus_write 0x23 [0], Bus_write 0x3F [0x20]]"
proof -
  have h: "PROPERTY_ENABLE ais2dw12_h = 1" "PROPERTY_DISABLE ais2dw12_h = 0"
    "fits (layout ais2dw12_h CTRL7_interrupts_enable)"
    "0 < snd (layout ais2dw12_h CTRL7_interrupts_enable)"
    by (simp_all add: ais2dw12_h_def fits_def)
  from pin_route_set_recomputes_interrupts_enable [OF h, of 0 0 0 "zero_store(0x24 := 0x40)" "[]"]
  show ?thesis
    using h
    by (simp add: sets_interrupts_enable_def routed_flags_def ais2dw12_h_def zero_store_def
        fld_get_def fld_set_def Let_def)
qed


section \<open>Batch reads\<close>

text \<open>
  C7. The all-sources read makes one bus read, of 5 bytes from STATUS_DUP, on any
  callbacks; of the bytes the buffer then holds, those at offsets 0, 1, 3 and 4 become the
  four structures of the result, in this order, whatever the read's status. On a register
  store these are the bytes at STATUS_DUP and 1, 3 and 4 above it, and the byte at
  STATUS_DUP + 2 has no part in the result: changing it changes nothing.
\<close>

theorem all_sources_get_skips_offset_2:
  "ais2dw12_all_sources_get H (Some (recording c)) val reg (s, tr) =
     (let (ret, d, s') = read_reg c (handle c) (reg_addr H AIS2DW12_STATUS_DUP) reg 5 s
      in (ret, \<lparr>status_dup = d 0, wake_up_src = d 1, sixd_src = d 3, all_int_src = d 4\<rparr>,
          (s', tr @ [Bus_read (reg_addr H AIS2DW12_STATUS_DUP) 5])))
   \<and> ais2dw12_all_sources_get H (Some register_store) val reg m =
       (0, \<lparr>status_dup = m (reg_addr H AIS2DW12_STATUS_DUP),
            wake_up_src = m (reg_addr H AIS2DW12_STATUS_DUP + 1),
            sixd_src = m (reg_addr H AIS2DW12_STATUS_DUP + 3),
            all_int_src = m (reg_addr H AIS2DW12_STATUS_DUP + 4)\<rparr>, m)
   \<and> fst (snd (ais2dw12_all_sources_get H (Some register_store) val reg
         (m(reg_addr H AIS2DW12_STATUS_DUP + 2 := x))))
       = fst (snd (ais2dw12_all_sources_get H (Some register_store) val reg m))"
  by (simp add: ais2dw12_all_sources_get_def read_recording store_read_n bytecpy_def
      split: prod.splits)

text \<open>
  With the example header, STATUS_DUP at 0x37: of the bytes 0x11, 0x22, 0x33, 0x44, 0x55
  the result holds all but 0x33.
\<close>

theorem all_sources_get_skips_offset_2_witness:
  "ais2dw12_all_sources_get ais2dw12_h (Some register_store)
       \<lparr>status_dup = 0, wake_up_src = 0, sixd_src = 0, all_int_src = 0\<rparr> (ptr_to 0)
       (zero_store(0x37 := 0x11, 0x38 := 0x22, 0x39 := 0x33, 0x3A := 0x44, 0x3B := 0x55))
     = (0, \<lparr>status_dup = 0x11, wake_up_src = 0x22, sixd_src = 0x44, all_int_src = 0x55\<rparr>,
        zero_store(0x37 := 0x11, 0x38 := 0x22, 0x39 := 0x33, 0x3A := 0x44, 0x3B := 0x55))"
  using all_sources_get_skips_offset_2
    [where H = ais2dw12_h and reg = "ptr_to 0" and c = register_store and s = zero_store
       and tr = "[]" and x = 0
       and val = "\<lparr>status_dup = 0, wake_up_src = 0, sixd_src = 0, all_int_src = 0\<rparr>"
       and m = "zero_store(0x37 := 0x11, 0x38 := 0x22, 0x39 := 0x33, 0x3A := 0x44, 0x3B := 0x55)"]
  by (simp add: ais2dw12_h_def)

text \<open>
  C8. The acceleration read makes one bus read, of 6 bytes from OUT_X_L, and the
  temperature read one of 2 bytes from OUT_T_L, on any callbacks; each axis \<open>i\<close> is the raw
  sample of the bytes the buffer then holds at offsets \<open>2i + 1\<close> (high) and \<open>2i\<close> (low), the
  temperature that of the bytes at offsets 1 and 0. A raw sample is \<open>high * 256 + low\<close> as an
  unsigned 16-bit word, and that number less 65536 as a signed one when the top bit of the
  high byte is set; low byte 0x00 and high byte 0x04 give 1024.
\<close>

theorem raw_samples_from_byte_pairs:
  "ais2dw12_acceleration_raw_get H (Some (recording c)) val buff (s, tr) =
     (let (ret, d, s') = read_reg c (handle c) (reg_addr H AIS2DW12_OUT_X_L) buff 6 s
      in (ret,
          val(0 := raw_sample (d 1) (d 0), 1 := raw_sample (d 3) (d 2),
              2 := raw_sample (d 5) (d 4)),
          (s', tr @ [Bus_read (reg_addr H AIS2DW12_OUT_X_L) 6])))
   \<and> ais2dw12_temperature_raw_get H (Some (recording c)) t buff (s, tr) =
       (let (ret, d, s') = read_reg c (handle c) (reg_addr H AIS2DW12_OUT_T_L) buff 2 s
        in (ret, raw_sample (d 1) (d 0),
            (s', tr @ [Bus_read (reg_addr H AIS2DW12_OUT_T_L) 2])))
   \<and> uint (raw_sample high low) = uint high * 256 + uint low
   \<and> sint (raw_sample high low) =
       (if uint high < 128 then uint high * 256 + uint low
        else uint high * 256 + uint low - 65536)
   \<and> sint (raw_sample 0x04 0x00) = 1024"
proof (intro conjI)
  show "ais2dw12_acceleration_raw_get H (Some (recording c)) val buff (s, tr) =
     (let (ret, d, s') = read_reg c (handle c) (reg_addr H AIS2DW12_OUT_X_L) buff 6 s
      in (ret,
          val(0 := raw_sample (d 1) (d 0), 1 := raw_sample (d 3) (d 2),
              2 := raw_sample (d 5) (d 4)),
          (s', tr @ [Bus_read (reg_addr H AIS2DW12_OUT_X_L) 6])))"
    by (simp add: ais2dw12_acceleration_raw_get_def read_recording raw_sample_def
        sint_ucast_byte split: prod.splits)
  show "ais2dw12_temperature_raw_get H (Some (recording c)) t buff (s, tr) =
       (let (ret, d, s') = read_reg c (handle c) (reg_addr H AIS2DW12_OUT_T_L) buff 2 s
        in (ret, raw_sample (d 1) (d 0),
            (s', tr @ [Bus_read (reg_addr H AIS2DW12_OUT_T_L) 2])))"
    by (simp add: ais2dw12_temperature_raw_get_def read_recording raw_sample_def
        sint_ucast_byte split: prod.splits)
  show "uint (raw_sample high low) = uint high * 256 + uint low"
    by (rule uint_raw_sample)
  show "sint (raw_sample high low) =
       (if uint high < 128 then uint high * 256 + uint low
        else uint high * 256 + uint low - 65536)"
    by (rule sint_raw_sample)
  show "sint (raw_sample 0x04 0x00) = 1024"
    by (simp add: raw_sample_def)
qed


section \<open>Enumerations\<close>






text \<open>
  C4. With a header that fits the driver, for every enumeration property and every member
  \<open>x\<close> of its enumeration: on a register store holding any bytes, set of \<open>x\<close> returns 0, and
  the get that follows returns 0 and yields \<open>x\<close>.
\<close>

theorem enum_set_then_get_round_trip:
  assumes "header_fits H"
  shows
    "(\<forall>x v0. round_trip (\<lambda>ctx x. ais2dw12_full_scale_set H ctx x js)
         (\<lambda>ctx v. ais2dw12_full_scale_get H ctx v jg) x v0 m)
     \<and> (\<forall>x v0. round_trip (\<lambda>ctx x. ais2dw12_offset_weight_set H ctx x js)
         (\<lambda>ctx v. ais2dw12_offset_weight_get H ctx v jg) x v0 m)
     \<and> (\<forall>x v0. round_trip (\<lambda>ctx x. ais2dw12_self_test_set H ctx x js)
         (\<lambda>ctx v. ais2dw12_self_test_get H ctx v jg) x v0 m)
     \<and> (\<forall>x v0. round_trip (\<lambda>ctx x. ais2dw12_data_ready_mode_set H ctx x js)
         (\<lambda>ctx v. ais2dw12_data_ready_mode_get H ctx v jg) x v0 m)
     \<and> (\<forall>x v0. round_trip (\<lambda>ctx x. ais2dw12_filter_bandwidth_set H ctx x js)
         (\<lambda>ctx v. ais2dw12_filter_bandwidth_get H ctx v jg) x v0 m)
     \<and> (\<forall>x v0. round_trip (\<lambda>ctx x. ais2dw12_spi_mode_set H ctx x js)
         (\<lambda>ctx v. ais2dw12_spi_mode_get H ctx v jg) x v0 m)
     \<and> (\<forall>x v0. round_trip (\<lambda>ctx x. ais2dw12_i2c_interface_set H ctx x js)
         (\<lambda>ctx v. ais2dw12_i2c_interface_get H ctx v jg) x v0 m)
     \<and> (\<forall>x v0. round_trip (\<lambda>ctx x. ais2dw12_cs_mode_set H ctx x js)
         (\<lambda>ctx v. ais2dw12_cs_mode_get H ctx v jg) x v0 m)
     \<and> (\<forall>x v0. round_trip (\<lambda>ctx x. ais2dw12_pin_polarity_set H ctx x js)
         (\<lambda>ctx v. ais2dw12_pin_polarity_get H ctx v jg) x v0 m)
     \<and> (\<forall>x v0. round_trip (\<lambda>ctx x. ais2dw12_int_notification_set H ctx x js)
         (\<lambda>ctx v. ais2dw12_int_notification_get H ctx v jg) x v0 m)
     \<and> (\<forall>x v0. round_trip (\<lambda>ctx x. ais2dw12_pin_mode_set H ctx x js)
         (\<lambda>ctx v. ais2dw12_pin_mode_get H ctx v jg) x v0 m)
     \<and> (\<forall>x v0. round_trip (\<lambda>ctx x. ais2dw12_wkup_feed_data_set H ctx x js)
         (\<lambda>ctx v. ais2dw12_wkup_feed_data_get H ctx v jg) x v0 m)
     \<and> (\<forall>x v0. round_trip (\<lambda>ctx x. ais2dw12_6d_feed_data_set H ctx x js)
         (\<lambda>ctx v. ais2dw12_6d_feed_data_get H ctx v jg) x v0 m)
     \<and> (\<forall>x v0. round_trip (\<lambda>ctx x. ais2dw12_ff_threshold_set H ctx x js)
         (\<lambda>ctx v. ais2dw12_ff_threshold_get H ctx v jg) x v0 m)
     \<and> (\<forall>x v0. round_trip (\<lambda>ctx x. ais2dw12_fifo_mode_set H ctx x js)
         (\<lambda>ctx v. ais2dw12_fifo_mode_get H ctx v jg) x v0 m)
     \<and> (\<forall>x v0. round_trip (\<lambda>ctx x. ais2dw12_power_mode_set H ctx x js)
         (\<lambda>ctx v. ais2dw12_power_mode_get H ctx v jg) x v0 m)
     \<and> (\<forall>x v0. round_trip (\<lambda>ctx x. ais2dw12_data_rate_set H ctx x js js2)
         (\<lambda>ctx v. ais2dw12_data_rate_get H ctx v jg jg2) x v0 m)
     \<and> (\<forall>x v0. round_trip (\<lambda>ctx x. ais2dw12_filter_path_set H ctx x js js2)
         (\<lambda>ctx v. ais2dw12_filter_path_get H ctx v jg jg2) x v0 m)
     \<and> (\<forall>x v0. round_trip (\<lambda>ctx x. ais2dw12_act_mode_set H ctx x js js2)
         (\<lambda>ctx v. ais2dw12_act_mode_get H ctx v jg jg2) x v0 m)"
  by (intro conjI allI round_trip_full_scale [OF assms] round_trip_offset_weight [OF assms] round_trip_self_test
      [OF assms] round_trip_data_ready_mode [OF assms] round_trip_filter_bandwidth [OF assms]
      round_trip_spi_mode [OF assms] round_trip_i2c_interface [OF assms] round_trip_cs_mode [OF
      assms] round_trip_pin_polarity [OF assms] round_trip_int_notification [OF assms]
      round_trip_pin_mode [OF assms] round_trip_wkup_feed_data [OF assms]
      round_trip_6d_feed_data [OF assms] round_trip_ff_threshold [OF assms] round_trip_fifo_mode
      [OF assms] round_trip_power_mode [OF assms] round_trip_data_rate [OF assms]
      round_trip_filter_path [OF assms] round_trip_act_mode [OF assms])


text \<open>
  The example header fits the driver; there the pin-trigger member of the data rate, whose
  enumerator 0x22 is split over CTRL1 and CTRL3, is read back after it is set.
\<close>

theorem enum_set_then_get_round_trip_witness:
  "header_fits ais2dw12_h
   \<and> fst (ais2dw12_data_rate_set ais2dw12_h (Some register_store) AIS2DW12_XL_SET_PIN_TRIG 0 0
        zero_store) = 0
   \<and> fst (ais2dw12_data_rate_get ais2dw12_h (Some register_store) AIS2DW12_XL_ODR_OFF 0 0
        (snd (ais2dw12_data_rate_set ais2dw12_h (Some register_store) AIS2DW12_XL_SET_PIN_TRIG
           0 0 zero_store))) = 0
   \<and> fst (snd (ais2dw12_data_rate_get ais2dw12_h (Some register_store) AIS2DW12_XL_ODR_OFF 0 0
        (snd (ais2dw12_data_rate_set ais2dw12_h (Some register_store) AIS2DW12_XL_SET_PIN_TRIG
           0 0 zero_store)))) = AIS2DW12_XL_SET_PIN_TRIG"
proof -
  have h: "header_fits ais2dw12_h"
    by (simp add: header_fits_def ais2dw12_h_def fits_def apart_def labels_ok_def
        mask_eq_exp_minus_1)
  from enum_set_then_get_round_trip [OF h, of 0 0 zero_store 0 0]
  have "round_trip (\<lambda>ctx x. ais2dw12_data_rate_set ais2dw12_h ctx x 0 0)
          (\<lambda>ctx v. ais2dw12_data_rate_get ais2dw12_h ctx v 0 0)
          AIS2DW12_XL_SET_PIN_TRIG AIS2DW12_XL_ODR_OFF zero_store"
    by blast
  then show ?thesis
    using h by (simp add: round_trip_def split_beta Let_def)
qed

end
